theory Spec2Isabelle
  imports Main "HOL-Library.Word"
begin

section \<open>Errors\<close>

text \<open>
  Go errors are values. \<open>oserr\<close> stands for the errors of the \<open>os\<close>, \<open>os/exec\<close> and
  \<open>net\<close> packages; the only thing the code asks of one is \<open>os.IsNotExist\<close>.
  \<open>tomlerr\<close> is the message of a failed \<open>toml.Decode\<close>.
\<close>

datatype oserr = ErrNotExist | ErrOther string

fun IsNotExist :: "oserr \<Rightarrow> bool" where
  "IsNotExist ErrNotExist = True"
| "IsNotExist (ErrOther _) = False"

type_synonym tomlerr = string

datatype liberr = LibErr string | LibErrNotExist string

datatype error =
    OSError oserr
  | LibError liberr
  | Message string
  | Errorf string error
  | UnableToDecode string tomlerr
  | DefaultRuntimeNotFound string
  | InvalidTimezone string
  | LogSizeMaxTooSmall
  | InvalidAllowedAnnotation string
  | AlreadyExistingConnection string

text \<open>
  \<open>LibError\<close> is an error made by a package outside \<open>config.go\<close> (\<open>LibErrNotExist\<close> when
  \<open>errors.Is\<close> finds \<open>os.ErrNotExist\<close> in it), \<open>Message\<close> one made
  here by \<open>errors.New\<close> or by \<open>fmt.Errorf\<close> without \<open>%w\<close>, and \<open>Errorf text err\<close> is
  \<open>fmt.Errorf("text: %w", err)\<close>. The errors the properties below speak of have a
  constructor of their own. \<open>errors.Is(err, os.ErrNotExist)\<close> looks through the wrapping.
\<close>

fun Is_ErrNotExist :: "error \<Rightarrow> bool" where
  "Is_ErrNotExist (OSError e) = IsNotExist e"
| "Is_ErrNotExist (LibError (LibErrNotExist _)) = True"
| "Is_ErrNotExist (Errorf _ e) = Is_ErrNotExist e"
| "Is_ErrNotExist _ = False"

section \<open>Data model of the merge\<close>

text \<open>
  The structs of \<open>pkg/config/config.go\<close>. A configuration is one built by
  \<open>DefaultConfig\<close> and then merged from files: its maps and pointers are not nil.
  \<open>Config\<close> embeds further tables (API, runtime, network, metrics, tracing, stats, NRI);
  \<open>fromConfig\<close> and \<open>toConfig\<close> copy each of them as a whole and the merge reads none of
  their fields, so here they are the extension part of the records \<open>Config\<close> and
  \<open>tomlConfig\<close>. Of \<open>SystemContext\<close> the merge writes \<open>BigFilesTemporaryDir\<close> only.
\<close>

record RootConfig =
  Root :: string
  RunRoot :: string
  ImageStore :: string
  Storage :: string
  StorageOptions :: "string list"
  LogDir :: string
  VersionFile :: string
  VersionFilePersist :: string
  CleanShutdownFile :: string
  InternalWipe :: bool
  InternalRepair :: bool

record ImageConfig =
  DefaultTransport :: string
  GlobalAuthFile :: string
  PauseImage :: string
  PauseImageAuthFile :: string
  PauseCommand :: string
  PinnedImages :: "string list"
  SignaturePolicyPath :: string
  SignaturePolicyDir :: string
  InsecureRegistries :: "string list"
  ImageVolumes :: string
  Registries :: "string list"
  BigFilesTemporaryDir :: string

record Config =
  Comment :: string
  singleConfigPath :: string
  dropInConfigDir :: string
  RootConfig :: RootConfig
  ImageConfig :: ImageConfig
  SystemContext_BigFilesTemporaryDir :: string

record tomlConfig =
  Crio_RootConfig :: RootConfig
  Crio_Image :: ImageConfig

subsection \<open>The decoder\<close>

text \<open>
  \<open>toml.Decode\<close> belongs to a library. It parses the whole text, then writes the keys
  of the text one by one into the struct it is given and leaves the fields of absent
  keys as they are. A \<open>fragment\<close> is a parsed text that fits the struct: the value of
  each key the merge looks at (\<open>None\<close> when the key is absent) and, in \<open>other_keys\<close>,
  what the remaining keys do to the struct.
\<close>

record 'a fragment =
  root :: "string option"
  runroot :: "string option"
  storage_driver :: "string option"
  storage_option :: "string list option"
  registries :: "string list option"
  other_keys :: "'a tomlConfig_scheme \<Rightarrow> 'a tomlConfig_scheme"

definition set_key :: "'v option \<Rightarrow> 'v \<Rightarrow> 'v" where
  "set_key k old = (case k of None \<Rightarrow> old | Some v \<Rightarrow> v)"

definition unify :: "'a fragment \<Rightarrow> 'a tomlConfig_scheme \<Rightarrow> 'a tomlConfig_scheme" where
  "unify f t =
     (let r = Crio_RootConfig t; i = Crio_Image t; t' = other_keys f t in
      t'\<lparr>Crio_RootConfig := (Crio_RootConfig t')
            \<lparr>Root := set_key (root f) (Root r),
             RunRoot := set_key (runroot f) (RunRoot r),
             Storage := set_key (storage_driver f) (Storage r),
             StorageOptions := set_key (storage_option f) (StorageOptions r)\<rparr>,
          Crio_Image := (Crio_Image t')
            \<lparr>Registries := set_key (registries f) (Registries i)\<rparr>\<rparr>)"

text \<open>
  A text that does not parse is an error, and nothing is written. A text that parses
  but has a key that does not fit the struct is an error too, met while the keys are
  being written: the keys before it have been written by then. The struct that
  \<open>UpdateFromDropInFile\<close> hands to the decoder is the copy made by \<open>fromConfig\<close>, which
  copies the embedded structs by value: a string, a bool or a number of the copy is the
  copy's own, but a slice of the copy has the array of the receiver's slice, and a map or
  a pointer of the copy is the receiver's. The decoder writes an array into a slice in
  place when the slice has the capacity for it, and into a new array otherwise. So a
  failed \<open>Decode\<close> can have changed elements that the receiver sees, never the length
  of a slice of the receiver nor a field that is not a slice, a map or a pointer.

  \<open>written\<close> is what a failed \<open>Decode\<close> wrote in place: for each slice of the two
  structs above, the array it wrote into the slice's own array (\<open>None\<close> when it wrote
  none there), and in \<open>in_other\<close> what became of the other tables.
  \<open>written_through\<close> is the receiver as it is then: of an array written in place, the
  receiver sees the elements below the length of its slice.
\<close>

record 'a written =
  in_StorageOptions :: "string list option"
  in_PinnedImages :: "string list option"
  in_InsecureRegistries :: "string list option"
  in_Registries :: "string list option"
  in_other :: "'a \<Rightarrow> 'a"

definition overwrite :: "string list option \<Rightarrow> string list \<Rightarrow> string list" where
  "overwrite k old =
     (case k of None \<Rightarrow> old | Some new \<Rightarrow> take (length old) new @ drop (length new) old)"

definition written_through :: "'a written \<Rightarrow> 'a Config_scheme \<Rightarrow> 'a Config_scheme" where
  "written_through w c =
     c\<lparr>RootConfig := (RootConfig c)
          \<lparr>StorageOptions := overwrite (in_StorageOptions w) (StorageOptions (RootConfig c))\<rparr>,
       ImageConfig := (ImageConfig c)
          \<lparr>PinnedImages := overwrite (in_PinnedImages w) (PinnedImages (ImageConfig c)),
           InsecureRegistries := overwrite (in_InsecureRegistries w) (InsecureRegistries (ImageConfig c)),
           Registries := overwrite (in_Registries w) (Registries (ImageConfig c))\<rparr>,
       Config.more := in_other w (Config.more c)\<rparr>"

subsection \<open>The host\<close>

text \<open>
  \<open>filepath.Walk\<close> calls its function once for every entry under the path, in lexical
  order, with the entry's \<open>FileInfo\<close> or with the error met there; \<open>walk\<close> is that list
  of calls.
\<close>

datatype visit = WalkErr oserr | IsDir | IsFile

text \<open>
  The host is what the calls into \<open>os\<close>, \<open>os/exec\<close>, \<open>path/filepath\<close>, \<open>net\<close> and
  \<open>time\<close> return: for a call that reads, its result; for a call that writes, whether it
  fails. \<open>IsDirectory\<close> is \<open>utils.IsDirectory\<close>, \<open>CombinedOutput\<close> the output of
  \<open>cmdrunner.Command(path, args...).CombinedOutput()\<close>, \<open>DialTimeout\<close> the error of
  \<open>net.DialTimeout("unix", path, 0)\<close>.
\<close>

record host =
  ReadFile :: "string \<Rightarrow> oserr + string"
  Stat :: "string \<Rightarrow> oserr option"
  walk :: "string \<Rightarrow> (string \<times> visit) list"
  IsDirectory :: "string \<Rightarrow> oserr option"
  LookPath :: "string \<Rightarrow> oserr + string"
  LoadLocation :: "string \<Rightarrow> oserr option"
  DialTimeout :: "string \<Rightarrow> oserr option"
  MkdirAll :: "string \<Rightarrow> oserr option"
  Remove :: "string \<Rightarrow> oserr option"
  CombinedOutput :: "string \<Rightarrow> string list \<Rightarrow> oserr + string"

text \<open>
  The calls that write to the host are recorded, in the order they are made and whether
  or not they succeed.
\<close>

datatype effect =
    CallMkdirAll string
  | CallRemove string
  | CallCommand string "string list"
  | CallPrependCommandsWith string "string list"

text \<open>
  \<open>parse\<close> is the decoder's reading of a text: the fragment, or the error with what was
  written in place before it. \<open>Decode\<close> returns the struct with the keys written, or the
  error with what was written in place.
\<close>

type_synonym 'a parser = "string \<Rightarrow> (tomlerr \<times> 'a written) + 'a fragment"

definition Decode ::
  "'a parser \<Rightarrow> string \<Rightarrow> 'a tomlConfig_scheme \<Rightarrow> (tomlerr \<times> 'a written) + 'a tomlConfig_scheme" where
  "Decode parse data t =
     (case parse data of Inl (e, w) \<Rightarrow> Inl (e, w) | Inr f \<Rightarrow> Inr (unify f t))"

section \<open>The merge\<close>

definition fromConfig :: "'a Config_scheme \<Rightarrow> 'a tomlConfig_scheme" where
  "fromConfig c = \<lparr>Crio_RootConfig = RootConfig c, Crio_Image = ImageConfig c, \<dots> = Config.more c\<rparr>"

definition toConfig :: "'a tomlConfig_scheme \<Rightarrow> 'a Config_scheme \<Rightarrow> 'a Config_scheme" where
  "toConfig t c =
     c\<lparr>Comment := ''# '',
       RootConfig := Crio_RootConfig t,
       ImageConfig := Crio_Image t,
       SystemContext_BigFilesTemporaryDir := BigFilesTemporaryDir (Crio_Image t),
       Config.more := tomlConfig.more t\<rparr>"

text \<open>
  \<open>removeDupStorageOpts\<close>: the first loop runs over the slice from its last index down
  to 0, with the map \<open>opts\<close> of the strings seen; the second loop reverses the result in
  place, with two \<open>int\<close> indices.
\<close>

fun scan_from_end :: "string list \<Rightarrow> (string \<Rightarrow> bool) \<Rightarrow> string list \<Rightarrow> string list" where
  "scan_from_end [] opts resOpts = resOpts"
| "scan_from_end (x # xs) opts resOpts =
     (if opts x then scan_from_end xs opts resOpts
      else scan_from_end xs (opts(x := True)) (resOpts @ [x]))"

function swap_loop :: "string list \<Rightarrow> int \<Rightarrow> int \<Rightarrow> string list" where
  "swap_loop resOpts i j =
     (if i < j
      then swap_loop (resOpts[nat i := resOpts ! nat j, nat j := resOpts ! nat i]) (i + 1) (j - 1)
      else resOpts)"
  by pat_completeness auto
termination
  by (relation "measure (\<lambda>(resOpts, i, j). nat (j - i))") auto

declare swap_loop.simps [simp del]

definition removeDupStorageOpts :: "string list \<Rightarrow> string list" where
  "removeDupStorageOpts storageOpts =
     (let resOpts = scan_from_end (rev storageOpts) (\<lambda>_. False) [] in
      swap_loop resOpts 0 (int (length resOpts) - 1))"

text \<open>
  The methods change the receiver and return an error or nil: the model returns the
  error, if any, with the configuration as the call leaves it. Log lines are left out.
  \<open>storageOpts\<close> is a new array (\<open>append\<close> to a nil slice), so the decoder does not
  reach it.
\<close>

definition UpdateFromDropInFile ::
  "'a parser \<Rightarrow> host \<Rightarrow> 'a Config_scheme \<Rightarrow> string \<Rightarrow> error option \<times> 'a Config_scheme" where
  "UpdateFromDropInFile parse h c path =
     (let storageOpts = [] @ StorageOptions (RootConfig c);
          graphRoot = Root (RootConfig c);
          runRoot = RunRoot (RootConfig c);
          storageDriver = Storage (RootConfig c)
      in case ReadFile h path of
           Inl err \<Rightarrow> (Some (OSError err), c)
         | Inr data \<Rightarrow>
            (case Decode parse data (fromConfig c) of
               Inl (err, w) \<Rightarrow> (Some (UnableToDecode path err), written_through w c)
             | Inr t \<Rightarrow>
                (let storageOpts = storageOpts @ StorageOptions (Crio_RootConfig t);
                     storageOpts = removeDupStorageOpts storageOpts;
                     r = (Crio_RootConfig t)\<lparr>StorageOptions := storageOpts\<rparr>;
                     r = (if Root r = [] then r\<lparr>Root := graphRoot\<rparr> else r);
                     r = (if RunRoot r = [] then r\<lparr>RunRoot := runRoot\<rparr> else r);
                     r = (if Storage r = [] then r\<lparr>Storage := storageDriver\<rparr> else r);
                     i = Crio_Image t;
                     i = (if length (Registries i) > 0 then i\<lparr>Registries := []\<rparr> else i)
                 in (None, toConfig (t\<lparr>Crio_RootConfig := r, Crio_Image := i\<rparr>) c))))"

definition UpdateFromFile ::
  "'a parser \<Rightarrow> host \<Rightarrow> 'a Config_scheme \<Rightarrow> string \<Rightarrow> error option \<times> 'a Config_scheme" where
  "UpdateFromFile parse h c path =
     (case UpdateFromDropInFile parse h c path of
        (Some err, c') \<Rightarrow> (Some err, c')
      | (None, c') \<Rightarrow> (None, c'\<lparr>singleConfigPath := path\<rparr>))"

fun walk_calls ::
  "'a parser \<Rightarrow> host \<Rightarrow> 'a Config_scheme \<Rightarrow> (string \<times> visit) list \<Rightarrow>
   error option \<times> 'a Config_scheme" where
  "walk_calls parse h c [] = (None, c)"
| "walk_calls parse h c ((p, WalkErr err) # rest) = (Some (OSError err), c)"
| "walk_calls parse h c ((p, IsDir) # rest) = walk_calls parse h c rest"
| "walk_calls parse h c ((p, IsFile) # rest) =
     (case UpdateFromDropInFile parse h c p of
        (Some err, c') \<Rightarrow> (Some err, c')
      | (None, c') \<Rightarrow> walk_calls parse h c' rest)"

definition UpdateFromPath ::
  "'a parser \<Rightarrow> host \<Rightarrow> 'a Config_scheme \<Rightarrow> string \<Rightarrow> error option \<times> 'a Config_scheme" where
  "UpdateFromPath parse h c path =
     (if (case Stat h path of None \<Rightarrow> False | Some err \<Rightarrow> IsNotExist err) then (None, c)
      else
        (case walk_calls parse h c (walk h path) of
           (Some err, c') \<Rightarrow> (Some err, c')
         | (None, c') \<Rightarrow> (None, c'\<lparr>dropInConfigDir := path\<rparr>)))"

section \<open>Data model of the validation\<close>

text \<open>
  \<open>int64\<close> and (on the 64-bit platforms CRI-O runs on) \<open>int\<close> are 64-bit words, read
  as signed by \<open>sint\<close>.
\<close>

type_synonym int64 = "64 word"

definition defaultGRPCMaxMsgSize :: int64 where
  "defaultGRPCMaxMsgSize = 80 * 1024 * 1024"

definition OCIBufSize :: int64 where
  "OCIBufSize = 8192"

definition RuntimeTypeVM :: string where
  "RuntimeTypeVM = ''vm''"

definition RuntimeTypePod :: string where
  "RuntimeTypePod = ''pod''"

definition defaultCtrStopTimeout :: int64 where
  "defaultCtrStopTimeout = 30"

definition tasksetBinary :: string where
  "tasksetBinary = ''taskset''"

text \<open>
  Modelled from the spec: \<open>DefaultRuntimeType\<close> is declared in another file of the
  package; the spec gives the closed enumeration of backend types as default/"oci", "vm",
  "pod".
\<close>

definition DefaultRuntimeType :: string where
  "DefaultRuntimeType = ''oci''"

text \<open>
  The other constants that \<open>config.go\<close> takes from elsewhere in the repository are
  parameters: the built-in default runtime name and root, the default monitor cgroup,
  the two annotations of the default handler and the list of all annotations
  (\<open>pkg/annotations\<close>), and \<open>utils.PodCgroupName\<close>.
\<close>

record builtin =
  defaultRuntime :: string
  DefaultRuntimeRoot :: string
  defaultMonitorCgroup :: string
  OCISeccompBPFHookAnnotation :: string
  DevicesAnnotation :: string
  AllAllowedAnnotations :: "string list"
  PodCgroupName :: string

record RuntimeHandler =
  RuntimeConfigPath :: string
  RuntimePath :: string
  RuntimeType :: string
  RuntimeRoot :: string
  PrivilegedWithoutHostDevices :: bool
  AllowedAnnotations :: "string list"
  DisallowedAnnotations :: "string list"
  MonitorPath :: string
  MonitorCgroup :: string
  MonitorEnv :: "string list"
  MonitorExecCgroup :: string
  PlatformRuntimePaths :: "string \<rightharpoonup> string"
  RuntimePullImage :: bool
  features :: "string option"

text \<open>
  \<open>features\<close> holds the decoded answer of the runtime's \<open>features\<close> subcommand, \<open>None\<close>
  while there is none. \<open>cgmgr.CgroupManager\<close> is an interface of which this file calls
  \<open>IsSystemd\<close> only.
\<close>

datatype CgroupManager = CgroupfsManager | SystemdManager

fun IsSystemd :: "CgroupManager \<Rightarrow> bool" where
  "IsSystemd SystemdManager = True"
| "IsSystemd CgroupfsManager = False"

text \<open>
  \<open>RuntimeConfig\<close>, with the fields that the functions below read or write, in the order
  of the source; the other fields are the extension part of the record. \<open>Workloads\<close> is
  declared in another file and its type is the parameter \<open>'w\<close>. Of the private helper
  objects, the record keeps those that \<open>config.go\<close> assigns: the cgroup manager, the
  conmon manager (the monitor path it was made for) and the namespace manager (the
  directory and pinns path it was made for).
\<close>

record 'w RuntimeConfig =
  SeccompUseDefaultWhenEmpty :: bool
  ConmonEnv :: "string list"
  HooksDir :: "string list"
  DefaultCapabilities :: "string list"
  DefaultSysctls :: "string list"
  DefaultUlimits :: "string list"
  AdditionalDevices :: "string list"
  CDISpecDirs :: "string list"
  DefaultRuntime :: string
  Conmon :: string
  ConmonCgroup :: string
  SeccompProfile :: string
  ApparmorProfile :: string
  BlockIOConfigFile :: string
  BlockIOReload :: bool
  RdtConfigFile :: string
  CgroupManagerName :: string
  NamespacesDir :: string
  PinnsPath :: string
  EnableCriuSupport :: bool
  Runtimes :: "string \<rightharpoonup> RuntimeHandler"
  Workloads :: 'w
  LogSizeMax :: int64
  CtrStopTimeout :: int64
  InfraCtrCPUSet :: string
  cgroupManager :: CgroupManager
  conmonManager :: "string option"
  namespaceManager :: "string \<times> string"
  Timezone :: string

record APIConfig =
  GRPCMaxSendMsgSize :: int64
  GRPCMaxRecvMsgSize :: int64
  Listen :: string

subsection \<open>Packages outside this file\<close>

text \<open>
  The checks that \<open>config.go\<close> delegates are parameters, each applied to what the source
  passes it: \<open>ulimits.Config.LoadUlimits\<close>, \<open>device.Config.LoadDevices\<close>,
  \<open>strings.EqualFold\<close>, \<open>RuntimeConfig.Sysctls\<close> (it parses \<open>DefaultSysctls\<close>),
  \<open>capabilities.Capabilities.Validate\<close>, \<open>cpuset.Parse\<close> followed by \<open>String\<close>,
  \<open>Workloads.Validate\<close>, \<open>cgmgr.SetCgroupManager\<close>, \<open>sysregistriesv2.GetRegistries\<close>,
  \<open>RuntimeConfig.ValidatePinnsPath\<close> (declared in another file: it checks the executable
  against \<open>PinnsPath\<close> and stores a path there), \<open>nsmgr.NamespaceManager.Initialize\<close>, the profile
  loaders of seccomp, AppArmor, blockio and RDT, \<open>conmonmgr.New\<close>, \<open>filepath.Base\<close>,
  \<open>filepath.Dir\<close>, \<open>regexp.MatchString\<close> with \<open>RuntimeTypeVMBinaryPattern\<close>, and
  \<open>json.Unmarshal\<close> into the features record. What these do to the host themselves is
  not recorded.
\<close>

record ('w, 'sc) lib =
  LoadUlimits :: "string list \<Rightarrow> liberr option"
  LoadDevices :: "string list \<Rightarrow> liberr option"
  EqualFold :: "string \<Rightarrow> string \<Rightarrow> bool"
  Sysctls :: "string list \<Rightarrow> liberr option"
  Capabilities_Validate :: "string list \<Rightarrow> liberr option"
  cpuset_Parse :: "string \<Rightarrow> liberr + string"
  Workloads_Validate :: "'w \<Rightarrow> liberr option"
  SetCgroupManager :: "string \<Rightarrow> liberr + CgroupManager"
  GetRegistries :: "'sc \<Rightarrow> liberr option"
  ValidatePinnsPath :: "string \<Rightarrow> string \<Rightarrow> liberr option \<times> string"
  nsmgr_Initialize :: "string \<times> string \<Rightarrow> liberr option"
  seccomp_LoadProfile :: "string \<Rightarrow> liberr option"
  seccomp_LoadDefaultProfile :: "liberr option"
  apparmor_LoadProfile :: "string \<Rightarrow> liberr option"
  blockio_Load :: "string \<Rightarrow> liberr option"
  rdt_Load :: "string \<Rightarrow> liberr option"
  conmonmgr_New :: "string \<Rightarrow> liberr option"
  Base :: "string \<Rightarrow> string"
  Dir :: "string \<Rightarrow> string"
  MatchVMBinaryPattern :: "string \<Rightarrow> liberr + bool"
  Unmarshal_features :: "string \<Rightarrow> liberr + string"

text \<open>
  Go ranges over a map in an order of its own choosing, anew each time. A range loop is
  modelled as a pass over an enumeration of candidate keys that skips the keys not in
  the map; \<open>range_runtimes n\<close> is the enumeration for the \<open>n\<close>-th loop over \<open>Runtimes\<close>
  in \<open>Validate\<close> and \<open>range_annotations name\<close> the one for the annotation map of the
  handler \<open>name\<close>.
\<close>

record schedule =
  range_runtimes :: "nat \<Rightarrow> string list"
  range_annotations :: "string \<Rightarrow> string list"

section \<open>Validation\<close>

text \<open>
  A method returns the error, if any, the receiver as the call leaves it, and the writes
  it made to the host. \<open>run_steps\<close> runs the statements of a function body in order and
  stops at the first that returns an error.
\<close>

type_synonym 'c outcome = "error option \<times> 'c \<times> effect list"

fun run_steps :: "('c \<Rightarrow> 'c outcome) list \<Rightarrow> 'c \<Rightarrow> 'c outcome" where
  "run_steps [] c = (None, c, [])"
| "run_steps (step # steps) c =
     (case step c of
        (Some err, c', w) \<Rightarrow> (Some err, c', w)
      | (None, c', w) \<Rightarrow> (case run_steps steps c' of (r, c'', w') \<Rightarrow> (r, c'', w @ w')))"

definition check :: "error option \<Rightarrow> 'c \<Rightarrow> 'c outcome" where
  "check r c = (r, c, [])"

definition wrap :: "string \<Rightarrow> error option \<Rightarrow> error option" where
  "wrap text r = (case r of None \<Rightarrow> None | Some err \<Rightarrow> Some (Errorf text err))"

definition lib_error :: "liberr option \<Rightarrow> error option" where
  "lib_error r = (case r of None \<Rightarrow> None | Some err \<Rightarrow> Some (LibError err))"

subsection \<open>The default runtime\<close>

definition defaultRuntimeHandler :: "builtin \<Rightarrow> RuntimeHandler" where
  "defaultRuntimeHandler b =
     \<lparr>RuntimeConfigPath = [], RuntimePath = [], RuntimeType = DefaultRuntimeType,
      RuntimeRoot = DefaultRuntimeRoot b, PrivilegedWithoutHostDevices = False,
      AllowedAnnotations = [OCISeccompBPFHookAnnotation b, DevicesAnnotation b],
      DisallowedAnnotations = [], MonitorPath = [], MonitorCgroup = defaultMonitorCgroup b,
      MonitorEnv = [''PATH=/usr/local/sbin:/usr/local/bin:/usr/sbin:/usr/bin:/sbin:/bin''],
      MonitorExecCgroup = [], PlatformRuntimePaths = Map.empty, RuntimePullImage = False,
      features = None\<rparr>"

definition ValidateDefaultRuntime ::
  "builtin \<Rightarrow> ('w, 'x) RuntimeConfig_scheme \<Rightarrow> error option \<times> ('w, 'x) RuntimeConfig_scheme" where
  "ValidateDefaultRuntime b c =
     (if Runtimes c (DefaultRuntime c) \<noteq> None then (None, c)
      else if DefaultRuntime c \<noteq> [] then (Some (DefaultRuntimeNotFound (DefaultRuntime c)), c)
      else
        (let c = (if Runtimes c (defaultRuntime b) = None
                  then c\<lparr>Runtimes := (Runtimes c)(defaultRuntime b \<mapsto> defaultRuntimeHandler b)\<rparr>
                  else c)
         in (None, c\<lparr>DefaultRuntime := defaultRuntime b\<rparr>)))"

subsection \<open>Runtime handlers\<close>

fun delete_allowed ::
  "string list \<Rightarrow> (string \<Rightarrow> bool) \<Rightarrow> error + (string \<Rightarrow> bool)" where
  "delete_allowed [] disallowedMap = Inr disallowedMap"
| "delete_allowed (ann # allowed) disallowedMap =
     (if \<not> disallowedMap ann then Inl (InvalidAllowedAnnotation ann)
      else delete_allowed allowed (disallowedMap(ann := False)))"

definition validateAllowedAndGenerateDisallowedAnnotations ::
  "builtin \<Rightarrow> string list \<Rightarrow> string list \<Rightarrow> error + string list" where
  "validateAllowedAndGenerateDisallowedAnnotations b keys allowed =
     (let disallowedMap = (\<lambda>ann. ann \<in> set (AllAllowedAnnotations b)) in
      case delete_allowed allowed disallowedMap of
        Inl err \<Rightarrow> Inl err
      | Inr disallowedMap \<Rightarrow> Inr (filter disallowedMap keys))"

definition ValidateRuntimeAllowedAnnotations ::
  "builtin \<Rightarrow> string list \<Rightarrow> RuntimeHandler \<Rightarrow> error option \<times> RuntimeHandler" where
  "ValidateRuntimeAllowedAnnotations b keys r =
     (case validateAllowedAndGenerateDisallowedAnnotations b keys (AllowedAnnotations r) of
        Inl err \<Rightarrow> (Some err, r)
      | Inr disallowed \<Rightarrow> (None, r\<lparr>DisallowedAnnotations := disallowed\<rparr>))"

definition ValidateRuntimeVMBinaryPattern :: "('w, 'sc) lib \<Rightarrow> RuntimeHandler \<Rightarrow> bool" where
  "ValidateRuntimeVMBinaryPattern L r =
     (if RuntimeType r \<noteq> RuntimeTypeVM then True
      else (case MatchVMBinaryPattern L (Base L (RuntimePath r)) of
              Inl err \<Rightarrow> False
            | Inr matched \<Rightarrow> matched))"

definition ValidateRuntimePath ::
  "('w, 'sc) lib \<Rightarrow> host \<Rightarrow> RuntimeHandler \<Rightarrow> string \<Rightarrow> error option \<times> RuntimeHandler" where
  "ValidateRuntimePath L h r name =
     (let pattern = (\<lambda>r. if \<not> ValidateRuntimeVMBinaryPattern L r
                          then (Some (Message ''invalid runtime_path: containerd binary naming pattern is not followed''), r)
                          else (None, r))
      in if RuntimePath r = []
         then (case LookPath h name of
                 Inl err \<Rightarrow> (Some (Errorf ''not found in $PATH'' (OSError err)), r)
               | Inr executable \<Rightarrow> pattern (r\<lparr>RuntimePath := executable\<rparr>))
         else (case Stat h (RuntimePath r) of
                 None \<Rightarrow> pattern r
               | Some err \<Rightarrow>
                   if IsNotExist err then (Some (Message ''invalid runtime_path''), r)
                   else pattern r))"

definition ValidateRuntimeType :: "RuntimeHandler \<Rightarrow> string \<Rightarrow> error option" where
  "ValidateRuntimeType r name =
     (if RuntimeType r \<noteq> [] \<and> RuntimeType r \<noteq> DefaultRuntimeType \<and>
         RuntimeType r \<noteq> RuntimeTypeVM \<and> RuntimeType r \<noteq> RuntimeTypePod
      then Some (Message ''invalid runtime_type'') else None)"

definition ValidateRuntimeConfigPath :: "host \<Rightarrow> RuntimeHandler \<Rightarrow> string \<Rightarrow> error option" where
  "ValidateRuntimeConfigPath h r name =
     (if RuntimeConfigPath r = [] then None
      else if RuntimeType r \<noteq> RuntimeTypeVM
      then Some (Message ''runtime_config_path can only be used with the 'vm' runtime type'')
      else (case Stat h (RuntimeConfigPath r) of
              None \<Rightarrow> None
            | Some err \<Rightarrow> if IsNotExist err then Some (Message ''invalid runtime_config_path'') else None))"

definition RuntimeHandler_Validate ::
  "('w, 'sc) lib \<Rightarrow> host \<Rightarrow> builtin \<Rightarrow> string list \<Rightarrow> RuntimeHandler \<Rightarrow> string \<Rightarrow>
   error option \<times> RuntimeHandler" where
  "RuntimeHandler_Validate L h b keys r name =
     (case ValidateRuntimePath L h r name of
        (Some err, r) \<Rightarrow> (Some err, r)
      | (None, r) \<Rightarrow>
        (case ValidateRuntimeConfigPath h r name of
           Some err \<Rightarrow> (Some err, r)
         | None \<Rightarrow>
           (case ValidateRuntimeAllowedAnnotations b keys r of
              (Some err, r) \<Rightarrow> (Some err, r)
            | (None, r) \<Rightarrow> (ValidateRuntimeType r name, r))))"

fun validate_each ::
  "('w, 'sc) lib \<Rightarrow> host \<Rightarrow> builtin \<Rightarrow> schedule \<Rightarrow> ('w, 'x) RuntimeConfig_scheme \<Rightarrow>
   string list \<Rightarrow> string list \<Rightarrow> error option \<times> ('w, 'x) RuntimeConfig_scheme \<times> string list" where
  "validate_each L h b sched c [] failedValidation = (None, c, failedValidation)"
| "validate_each L h b sched c (name # keys) failedValidation =
     (case Runtimes c name of
        None \<Rightarrow> validate_each L h b sched c keys failedValidation
      | Some handler \<Rightarrow>
        (case RuntimeHandler_Validate L h b (range_annotations sched name) handler name of
           (r, handler') \<Rightarrow>
             (let c' = c\<lparr>Runtimes := (Runtimes c)(name \<mapsto> handler')\<rparr> in
              case r of
                None \<Rightarrow> validate_each L h b sched c' keys failedValidation
              | Some err \<Rightarrow>
                  if DefaultRuntime c = name then (Some err, c', failedValidation)
                  else validate_each L h b sched c' keys (failedValidation @ [name]))))"

fun delete_each :: "string list \<Rightarrow> (string \<rightharpoonup> RuntimeHandler) \<Rightarrow> (string \<rightharpoonup> RuntimeHandler)" where
  "delete_each [] runtimes = runtimes"
| "delete_each (invalidHandlerName # names) runtimes =
     delete_each names (runtimes(invalidHandlerName := None))"

fun initializeRuntimeFeatures ::
  "('w, 'sc) lib \<Rightarrow> host \<Rightarrow> ('w, 'x) RuntimeConfig_scheme \<Rightarrow> string list \<Rightarrow>
   ('w, 'x) RuntimeConfig_scheme \<times> effect list" where
  "initializeRuntimeFeatures L h c [] = (c, [])"
| "initializeRuntimeFeatures L h c (name # keys) =
     (case Runtimes c name of
        None \<Rightarrow> initializeRuntimeFeatures L h c keys
      | Some handler \<Rightarrow>
        (let c' = (case CombinedOutput h (RuntimePath handler) [''features''] of
                     Inl err \<Rightarrow> c
                   | Inr output \<Rightarrow>
                     (case Unmarshal_features L output of
                        Inl err \<Rightarrow> c
                      | Inr f \<Rightarrow> c\<lparr>Runtimes := (Runtimes c)(name \<mapsto> handler\<lparr>features := Some f\<rparr>)\<rparr>))
         in case initializeRuntimeFeatures L h c' keys of
              (c'', w) \<Rightarrow> (c'', CallCommand (RuntimePath handler) [''features''] # w)))"

definition ValidateRuntimes ::
  "('w, 'sc) lib \<Rightarrow> host \<Rightarrow> builtin \<Rightarrow> schedule \<Rightarrow> ('w, 'x) RuntimeConfig_scheme \<Rightarrow>
   ('w, 'x) RuntimeConfig_scheme outcome" where
  "ValidateRuntimes L h b sched c =
     (case validate_each L h b sched c (range_runtimes sched 0) [] of
        (Some err, c', failedValidation) \<Rightarrow> (Some err, c', [])
      | (None, c', failedValidation) \<Rightarrow>
        (case initializeRuntimeFeatures L h
                (c'\<lparr>Runtimes := delete_each failedValidation (Runtimes c')\<rparr>)
                (range_runtimes sched 1) of
           (c'', w) \<Rightarrow> (None, c'', w)))"

subsection \<open>Monitor fields\<close>

definition validateExecutablePath :: "host \<Rightarrow> string \<Rightarrow> string \<Rightarrow> error + string" where
  "validateExecutablePath h executable currentPath =
     (if currentPath = []
      then (case LookPath h executable of
              Inl err \<Rightarrow> Inl (OSError err)
            | Inr path \<Rightarrow> Inr path)
      else (case Stat h currentPath of
              Some err \<Rightarrow> Inl (Errorf ''invalid path'' (OSError err))
            | None \<Rightarrow> Inr currentPath))"

definition validateCriuInPath :: "host \<Rightarrow> error option" where
  "validateCriuInPath h =
     (case validateExecutablePath h ''criu'' [] of Inl err \<Rightarrow> Some err | Inr _ \<Rightarrow> None)"

definition ValidateConmonPath ::
  "('w, 'sc) lib \<Rightarrow> host \<Rightarrow> ('w, 'x) RuntimeConfig_scheme \<Rightarrow> string \<Rightarrow> RuntimeHandler \<Rightarrow>
   error option \<times> ('w, 'x) RuntimeConfig_scheme \<times> RuntimeHandler" where
  "ValidateConmonPath L h c executable handler =
     (case validateExecutablePath h executable (MonitorPath handler) of
        Inl err \<Rightarrow> (Some err, c, handler\<lparr>MonitorPath := []\<rparr>)
      | Inr path \<Rightarrow>
        (case conmonmgr_New L path of
           Some err \<Rightarrow>
             (Some (LibError err), c\<lparr>conmonManager := None\<rparr>, handler\<lparr>MonitorPath := path\<rparr>)
         | None \<Rightarrow> (None, c\<lparr>conmonManager := Some path\<rparr>, handler\<lparr>MonitorPath := path\<rparr>)))"

definition HasSuffix :: "string \<Rightarrow> string \<Rightarrow> bool" where
  "HasSuffix s suffix =
     (length suffix \<le> length s \<and> drop (length s - length suffix) s = suffix)"

definition TranslateMonitorFieldsForHandler ::
  "('w, 'sc) lib \<Rightarrow> host \<Rightarrow> builtin \<Rightarrow> ('w, 'x) RuntimeConfig_scheme \<Rightarrow> RuntimeHandler \<Rightarrow> bool \<Rightarrow>
   error option \<times> ('w, 'x) RuntimeConfig_scheme \<times> RuntimeHandler" where
  "TranslateMonitorFieldsForHandler L h b c handler onExecution =
     (let handler = (if ConmonCgroup c \<noteq> [] then handler\<lparr>MonitorCgroup := ConmonCgroup c\<rparr>
                     else handler);
          handler = (if Conmon c \<noteq> [] then handler\<lparr>MonitorPath := Conmon c\<rparr> else handler);
          handler = (if length (ConmonEnv c) \<noteq> 0 then handler\<lparr>MonitorEnv := ConmonEnv c\<rparr>
                     else handler);
          handler = (if MonitorCgroup handler = []
                     then handler\<lparr>MonitorCgroup := defaultMonitorCgroup b\<rparr> else handler)
      in if onExecution
         then (case ValidateConmonPath L h c ''conmon'' handler of
                 (Some err, c, handler) \<Rightarrow> (Some err, c, handler)
               | (None, c, handler) \<Rightarrow>
                   if \<not> IsSystemd (cgroupManager c)
                   then (if MonitorCgroup handler \<noteq> PodCgroupName b \<and> MonitorCgroup handler \<noteq> []
                         then (Some (Message ''cgroupfs manager conmon cgroup should be 'pod' or empty''),
                               c, handler)
                         else (None, c, handler))
                   else if \<not> (MonitorCgroup handler = PodCgroupName b \<or>
                                HasSuffix (MonitorCgroup handler) ''.slice'')
                   then (Some (Message ''conmon cgroup should be 'pod' or a systemd slice''), c, handler)
                   else (None, c, handler))
         else (None, c, handler))"

fun TranslateMonitorFields ::
  "('w, 'sc) lib \<Rightarrow> host \<Rightarrow> builtin \<Rightarrow> ('w, 'x) RuntimeConfig_scheme \<Rightarrow> bool \<Rightarrow> string list \<Rightarrow>
   error option \<times> ('w, 'x) RuntimeConfig_scheme" where
  "TranslateMonitorFields L h b c onExecution [] = (None, c)"
| "TranslateMonitorFields L h b c onExecution (name # keys) =
     (case Runtimes c name of
        None \<Rightarrow> TranslateMonitorFields L h b c onExecution keys
      | Some handler \<Rightarrow>
          if RuntimeType handler = DefaultRuntimeType \<or> RuntimeType handler = []
          then (case TranslateMonitorFieldsForHandler L h b c handler onExecution of
                  (r, c', handler') \<Rightarrow>
                    (let c'' = c'\<lparr>Runtimes := (Runtimes c')(name \<mapsto> handler')\<rparr> in
                     case r of
                       Some err \<Rightarrow>
                         (Some (Errorf (''failed to translate monitor fields for runtime '' @ name) err), c'')
                     | None \<Rightarrow> TranslateMonitorFields L h b c'' onExecution keys))
          else TranslateMonitorFields L h b c onExecution keys)"

subsection \<open>The runtime table\<close>

fun hooks_loop :: "host \<Rightarrow> string list \<Rightarrow> string list \<Rightarrow> string list \<times> effect list" where
  "hooks_loop h [] hooksDirs = (hooksDirs, [])"
| "hooks_loop h (hooksDir # rest) hooksDirs =
     (case IsDirectory h hooksDir of
        None \<Rightarrow> hooks_loop h rest (hooksDirs @ [hooksDir])
      | Some err \<Rightarrow>
          if \<not> IsNotExist err then hooks_loop h rest hooksDirs
          else (case hooks_loop h rest
                       (case MkdirAll h hooksDir of
                          Some err \<Rightarrow> hooksDirs
                        | None \<Rightarrow> hooksDirs @ [hooksDir]) of
                  (dirs, w) \<Rightarrow> (dirs, CallMkdirAll hooksDir # w)))"

text \<open>
  The body of \<open>if onExecution\<close> in \<open>RuntimeConfig.Validate\<close>, statement by statement.
  \<open>cdi.GetRegistry\<close> and the setters of the seccomp and blockio helpers return nothing
  and change no field of the configuration.
\<close>

definition Validate_onExecution ::
  "('w, 'sc) lib \<Rightarrow> host \<Rightarrow> builtin \<Rightarrow> schedule \<Rightarrow> 'sc \<Rightarrow>
   ('w, 'x) RuntimeConfig_scheme \<Rightarrow> ('w, 'x) RuntimeConfig_scheme outcome" where
  "Validate_onExecution L h b sched systemContext =
     run_steps
      [\<lambda>c. (case SetCgroupManager L (CgroupManagerName c) of
               Inl err \<Rightarrow> (Some (Errorf ''unable to update cgroup manager'' (LibError err)), c, [])
             | Inr m \<Rightarrow> (None, c\<lparr>cgroupManager := m\<rparr>, [])),
       \<lambda>c. (case ValidateRuntimes L h b sched c of
               (r, c', w) \<Rightarrow> (wrap ''runtime validation'' r, c', w)),
       \<lambda>c. check (wrap ''invalid registries'' (lib_error (GetRegistries L systemContext))) c,
       \<lambda>c. (case hooks_loop h (HooksDir c) [] of
               (hooksDirs, w) \<Rightarrow> (None, c\<lparr>HooksDir := hooksDirs\<rparr>, w)),
       \<lambda>c. (case ValidatePinnsPath L ''pinns'' (PinnsPath c) of
               (r, path) \<Rightarrow> (wrap ''pinns validation'' (lib_error r), c\<lparr>PinnsPath := path\<rparr>, [])),
       \<lambda>c. check (wrap ''initialize nsmgr'' (lib_error (nsmgr_Initialize L (NamespacesDir c, PinnsPath c))))
                 (c\<lparr>namespaceManager := (NamespacesDir c, PinnsPath c)\<rparr>),
       \<lambda>c. (if EnableCriuSupport c
             then (case validateCriuInPath h of
                     Some err \<Rightarrow>
                       (Some (Message ''cannot enable checkpoint/restore support without the criu binary in $PATH''),
                        c\<lparr>EnableCriuSupport := False\<rparr>, [])
                   | None \<Rightarrow> (None, c, []))
             else (None, c, [])),
       \<lambda>c. (case seccomp_LoadProfile L (SeccompProfile c) of
               None \<Rightarrow> (None, c, [])
             | Some err \<Rightarrow>
                 if \<not> Is_ErrNotExist (LibError err)
                 then (Some (Errorf ''unable to load seccomp profile'' (LibError err)), c, [])
                 else check (wrap ''load default seccomp profile'' (lib_error (seccomp_LoadDefaultProfile L))) c),
       \<lambda>c. check (wrap ''unable to load AppArmor profile'' (lib_error (apparmor_LoadProfile L (ApparmorProfile c)))) c,
       \<lambda>c. check (wrap ''blockio configuration'' (lib_error (blockio_Load L (BlockIOConfigFile c)))) c,
       \<lambda>c. check (wrap ''rdt configuration'' (lib_error (rdt_Load L (RdtConfigFile c)))) c]"

text \<open>\<open>RuntimeConfig.Validate\<close>, statement by statement.\<close>

definition Validate_Timezone ::
  "('w, 'sc) lib \<Rightarrow> host \<Rightarrow> ('w, 'x) RuntimeConfig_scheme \<Rightarrow> ('w, 'x) RuntimeConfig_scheme outcome" where
  "Validate_Timezone L h c =
     (if Timezone c \<noteq> [] \<and> \<not> EqualFold L (Timezone c) ''local''
      then (case LoadLocation h (Timezone c) of
              Some err \<Rightarrow> (Some (InvalidTimezone (Timezone c)), c, [])
            | None \<Rightarrow> (None, c, []))
      else (None, c, []))"

definition Validate_LogSizeMax ::
  "('w, 'x) RuntimeConfig_scheme \<Rightarrow> ('w, 'x) RuntimeConfig_scheme outcome" where
  "Validate_LogSizeMax c =
     (if 0 \<le> sint (LogSizeMax c) \<and> sint (LogSizeMax c) < sint OCIBufSize
      then (Some LogSizeMaxTooSmall, c, [])
      else (None, c, []))"

definition Validate_CtrStopTimeout ::
  "('w, 'x) RuntimeConfig_scheme \<Rightarrow> ('w, 'x) RuntimeConfig_scheme outcome" where
  "Validate_CtrStopTimeout c =
     (if sint (CtrStopTimeout c) < sint defaultCtrStopTimeout
      then (None, c\<lparr>CtrStopTimeout := defaultCtrStopTimeout\<rparr>, [])
      else (None, c, []))"

definition Validate_InfraCtrCPUSet ::
  "('w, 'sc) lib \<Rightarrow> host \<Rightarrow> ('w, 'x) RuntimeConfig_scheme \<Rightarrow> ('w, 'x) RuntimeConfig_scheme outcome" where
  "Validate_InfraCtrCPUSet L h c =
     (if InfraCtrCPUSet c \<noteq> []
      then (case cpuset_Parse L (InfraCtrCPUSet c) of
              Inl err \<Rightarrow> (Some (Errorf ''invalid infra_ctr_cpuset'' (LibError err)), c, [])
            | Inr cpus \<Rightarrow>
              (case LookPath h tasksetBinary of
                 Inl err \<Rightarrow> (Some (Errorf ''taskset not found in $PATH'' (OSError err)), c, [])
               | Inr executable \<Rightarrow>
                   (None, c, [CallPrependCommandsWith executable [''--cpu-list'', cpus]])))
      else (None, c, []))"

definition Validate ::
  "('w, 'sc) lib \<Rightarrow> host \<Rightarrow> builtin \<Rightarrow> schedule \<Rightarrow> ('w, 'x) RuntimeConfig_scheme \<Rightarrow> 'sc \<Rightarrow> bool \<Rightarrow>
   ('w, 'x) RuntimeConfig_scheme outcome" where
  "Validate L h b sched c systemContext onExecution =
     run_steps
      [\<lambda>c. check (lib_error (LoadUlimits L (DefaultUlimits c))) c,
       \<lambda>c. check (lib_error (LoadDevices L (AdditionalDevices c))) c,
       \<lambda>c. (case ValidateDefaultRuntime b c of (r, c') \<Rightarrow> (r, c', [])),
       Validate_Timezone L h,
       Validate_LogSizeMax,
       Validate_CtrStopTimeout,
       \<lambda>c. check (wrap ''invalid default_sysctls'' (lib_error (Sysctls L (DefaultSysctls c)))) c,
       \<lambda>c. check (wrap ''invalid capabilities'' (lib_error (Capabilities_Validate L (DefaultCapabilities c)))) c,
       Validate_InfraCtrCPUSet L h,
       \<lambda>c. check (wrap ''workloads validation'' (lib_error (Workloads_Validate L (Workloads c)))) c,
       \<lambda>c. (if onExecution then Validate_onExecution L h b sched systemContext c
             else (None, c, [])),
       \<lambda>c. (case TranslateMonitorFields L h b c onExecution (range_runtimes sched 2) of
               (r, c') \<Rightarrow> (wrap ''monitor fields translation'' r, c', []))]
      c"

subsection \<open>The API socket\<close>

definition RemoveUnusedSocket :: "('w, 'sc) lib \<Rightarrow> host \<Rightarrow> string \<Rightarrow> error option \<times> effect list" where
  "RemoveUnusedSocket L h path =
     (case MkdirAll h (Dir L path) of
        Some err \<Rightarrow>
          (Some (Errorf ''creating socket directories'' (OSError err)), [CallMkdirAll (Dir L path)])
      | None \<Rightarrow>
          if Stat h path = None
          then (if DialTimeout h path = None
                then (Some (AlreadyExistingConnection path), [CallMkdirAll (Dir L path)])
                else (case Remove h path of
                        Some err \<Rightarrow>
                          (Some (Errorf (''removing '' @ path) (OSError err)),
                           [CallMkdirAll (Dir L path), CallRemove path])
                      | None \<Rightarrow> (None, [CallMkdirAll (Dir L path), CallRemove path])))
          else (None, [CallMkdirAll (Dir L path)]))"

definition APIConfig_Validate ::
  "('w, 'sc) lib \<Rightarrow> host \<Rightarrow> 'x APIConfig_scheme \<Rightarrow> bool \<Rightarrow> 'x APIConfig_scheme outcome" where
  "APIConfig_Validate L h c onExecution =
     (let c = (if sint (GRPCMaxSendMsgSize c) \<le> 0
               then c\<lparr>GRPCMaxSendMsgSize := defaultGRPCMaxMsgSize\<rparr> else c);
          c = (if sint (GRPCMaxRecvMsgSize c) \<le> 0
               then c\<lparr>GRPCMaxRecvMsgSize := defaultGRPCMaxMsgSize\<rparr> else c)
      in if onExecution
         then (case RemoveUnusedSocket L h (Listen c) of (r, w) \<Rightarrow> (r, c, w))
         else (None, c, []))"

section \<open>The merge rule in the words of the specification\<close>

text \<open>
  The specification's rule for a list with override semantics: de-duplicate by exact
  string equality, keeping each string at the position of its last occurrence. An index
  stays exactly when its string does not occur again after it.
\<close>

definition keep_last_spec :: "string list \<Rightarrow> string list" where
  "keep_last_spec xs =
     map (\<lambda>i. xs ! i) (filter (\<lambda>i. xs ! i \<notin> set (drop (Suc i) xs)) [0..<length xs])"

section \<open>Example configurations and hosts\<close>

definition no_host :: host where
  "no_host =
     \<lparr>ReadFile = (\<lambda>p. Inl ErrNotExist), Stat = (\<lambda>p. Some ErrNotExist),
      walk = (\<lambda>p. [(p, WalkErr ErrNotExist)]), IsDirectory = (\<lambda>p. Some ErrNotExist),
      LookPath = (\<lambda>p. Inl ErrNotExist), LoadLocation = (\<lambda>tz. Some ErrNotExist),
      DialTimeout = (\<lambda>p. Some ErrNotExist), MkdirAll = (\<lambda>p. None), Remove = (\<lambda>p. None),
      CombinedOutput = (\<lambda>p args. Inl ErrNotExist)\<rparr>"

definition base_config :: Config where
  "base_config =
     \<lparr>Comment = [], singleConfigPath = [], dropInConfigDir = [],
      RootConfig = \<lparr>Root = ''/r'', RunRoot = ''/run'', ImageStore = [], Storage = ''overlay'',
        StorageOptions = [''a'', ''b''], LogDir = ''/var/log/crio/pods'', VersionFile = [],
        VersionFilePersist = [], CleanShutdownFile = [], InternalWipe = True,
        InternalRepair = False\<rparr>,
      ImageConfig = \<lparr>DefaultTransport = ''docker://'', GlobalAuthFile = [], PauseImage = [],
        PauseImageAuthFile = [], PauseCommand = ''/pause'', PinnedImages = [],
        SignaturePolicyPath = [], SignaturePolicyDir = ''/etc/crio/policies'',
        InsecureRegistries = [], ImageVolumes = ''mkdir'', Registries = [],
        BigFilesTemporaryDir = []\<rparr>,
      SystemContext_BigFilesTemporaryDir = []\<rparr>"

definition no_keys :: "unit fragment" where
  "no_keys = \<lparr>root = None, runroot = None, storage_driver = None, storage_option = None,
              registries = None, other_keys = (\<lambda>t. t)\<rparr>"

definition dropin_host :: host where
  "dropin_host = no_host
     \<lparr>ReadFile := (\<lambda>p.
        if p = ''/d/01-opts.conf'' then Inr ''storage_option = [c, a]''
        else if p = ''/d/02-driver.conf'' then Inr ''storage_driver = vfs''
        else if p = ''/d/03-broken.conf'' then Inr ''[crio''
        else if p = ''/d/04-mistyped.conf'' then Inr ''storage_option = [x], log_dir = 5''
        else Inl ErrNotExist),
      Stat := (\<lambda>p. if p = ''/d'' then None else Some ErrNotExist),
      walk := (\<lambda>p. if p = ''/d''
        then [(''/d'', IsDir), (''/d/02-driver.conf'', IsFile), (''/d/03-broken.conf'', IsFile)]
        else [(p, WalkErr ErrNotExist)])\<rparr>"

text \<open>
  A text that does not parse is refused with nothing written. The text of
  \<open>04-mistyped.conf\<close> parses, and its second key does not fit the struct: the decoder has
  written the array of the first key by then, in place.
\<close>

definition nothing_written :: "unit written" where
  "nothing_written = \<lparr>in_StorageOptions = None, in_PinnedImages = None,
                       in_InsecureRegistries = None, in_Registries = None, in_other = (\<lambda>m. m)\<rparr>"

definition dropin_parse :: "unit parser" where
  "dropin_parse data =
     (if data = ''storage_option = [c, a]'' then Inr (no_keys\<lparr>storage_option := Some [''c'', ''a'']\<rparr>)
      else if data = ''storage_driver = vfs'' then Inr (no_keys\<lparr>storage_driver := Some ''vfs''\<rparr>)
      else if data = ''storage_option = [x], log_dir = 5''
      then Inl (''incompatible types: string and integer'',
                nothing_written\<lparr>in_StorageOptions := Some [''x'']\<rparr>)
      else Inl (''expected a closing bracket'', nothing_written))"

section \<open>What a failed merge keeps\<close>

text \<open>
  \<open>values_kept c' c\<close>: the markers, and every field of the root and image tables that is
  not a slice, are in \<open>c'\<close> as they are in \<open>c\<close>, and every slice of \<open>c'\<close> has the length
  it has in \<open>c\<close>.
\<close>

definition values_kept :: "'a Config_scheme \<Rightarrow> 'a Config_scheme \<Rightarrow> bool" where
  "values_kept c' c =
     (Comment c' = Comment c \<and> singleConfigPath c' = singleConfigPath c \<and>
      dropInConfigDir c' = dropInConfigDir c \<and>
      SystemContext_BigFilesTemporaryDir c' = SystemContext_BigFilesTemporaryDir c \<and>
      (RootConfig c')\<lparr>StorageOptions := StorageOptions (RootConfig c)\<rparr> = RootConfig c \<and>
      length (StorageOptions (RootConfig c')) = length (StorageOptions (RootConfig c)) \<and>
      (ImageConfig c')\<lparr>PinnedImages := PinnedImages (ImageConfig c),
                       InsecureRegistries := InsecureRegistries (ImageConfig c),
                       Registries := Registries (ImageConfig c)\<rparr> = ImageConfig c \<and>
      length (PinnedImages (ImageConfig c')) = length (PinnedImages (ImageConfig c)) \<and>
      length (InsecureRegistries (ImageConfig c')) = length (InsecureRegistries (ImageConfig c)) \<and>
      length (Registries (ImageConfig c')) = length (Registries (ImageConfig c)))"

text \<open>
  An example of the parameters: the built-in names of a Linux build, with the
  annotations that the comment on \<open>AllowedAnnotations\<close> lists; packages whose checks all
  pass; and range loops that go through the runtime names in one fixed order.
\<close>

definition example_builtin :: builtin where
  "example_builtin =
     \<lparr>defaultRuntime = ''runc'', DefaultRuntimeRoot = ''/run/runc'',
      defaultMonitorCgroup = ''system.slice'',
      OCISeccompBPFHookAnnotation = ''io.containers.trace-syscall'',
      DevicesAnnotation = ''io.kubernetes.cri-o.Devices'',
      AllAllowedAnnotations =
        [''io.kubernetes.cri-o.userns-mode'', ''io.kubernetes.cri-o.Devices'',
         ''io.kubernetes.cri-o.ShmSize'', ''io.kubernetes.cri-o.UnifiedCgroup'',
         ''io.containers.trace-syscall'', ''io.kubernetes.cri-o.LinkLogs'',
         ''seccomp-profile.kubernetes.cri-o.io''],
      PodCgroupName = ''pod''\<rparr>"

definition example_lib :: "(unit, unit) lib" where
  "example_lib =
     \<lparr>LoadUlimits = (\<lambda>_. None), LoadDevices = (\<lambda>_. None),
      EqualFold = (\<lambda>s t. s = t),
      Sysctls = (\<lambda>_. None), Capabilities_Validate = (\<lambda>_. None),
      cpuset_Parse = (\<lambda>s. Inr s), Workloads_Validate = (\<lambda>_. None),
      SetCgroupManager = (\<lambda>name. if name = ''systemd'' then Inr SystemdManager else Inr CgroupfsManager),
      GetRegistries = (\<lambda>_. None),
      ValidatePinnsPath = (\<lambda>executable path. (None, path)),
      nsmgr_Initialize = (\<lambda>_. None),
      seccomp_LoadProfile = (\<lambda>_. None), seccomp_LoadDefaultProfile = None,
      apparmor_LoadProfile = (\<lambda>_. None), blockio_Load = (\<lambda>_. None), rdt_Load = (\<lambda>_. None),
      conmonmgr_New = (\<lambda>_. None),
      Base = (\<lambda>p. p), Dir = (\<lambda>p. ''/var/run/crio''),
      MatchVMBinaryPattern = (\<lambda>_. Inr True),
      Unmarshal_features = (\<lambda>s. Inr s)\<rparr>"

definition example_schedule :: schedule where
  "example_schedule =
     \<lparr>range_runtimes = (\<lambda>n. [''runc'', ''kata'', ''ghost'']),
      range_annotations = (\<lambda>name. AllAllowedAnnotations example_builtin)\<rparr>"

definition example_runtime :: "unit RuntimeConfig" where
  "example_runtime =
     \<lparr>SeccompUseDefaultWhenEmpty = True, ConmonEnv = [], HooksDir = [],
      DefaultCapabilities = [], DefaultSysctls = [], DefaultUlimits = [],
      AdditionalDevices = [], CDISpecDirs = [], DefaultRuntime = ''runc'',
      Conmon = [], ConmonCgroup = [], SeccompProfile = [], ApparmorProfile = [],
      BlockIOConfigFile = [], BlockIOReload = False, RdtConfigFile = [],
      CgroupManagerName = ''systemd'', NamespacesDir = ''/var/run'', PinnsPath = [],
      EnableCriuSupport = False,
      Runtimes = [''runc'' \<mapsto> defaultRuntimeHandler example_builtin],
      Workloads = (), LogSizeMax = - 1, CtrStopTimeout = 30, InfraCtrCPUSet = [],
      cgroupManager = SystemdManager, conmonManager = None,
      namespaceManager = (''/var/run'', []), Timezone = []\<rparr>"

definition kata_handler :: RuntimeHandler where
  "kata_handler = (defaultRuntimeHandler example_builtin)
     \<lparr>RuntimePath := ''/usr/bin/containerd-shim-kata-v2'', RuntimeType := ''vm'',
      MonitorCgroup := [], MonitorEnv := []\<rparr>"

definition two_runtimes :: "unit RuntimeConfig" where
  "two_runtimes = example_runtime
     \<lparr>Conmon := ''/usr/bin/conmon'',
      Runtimes := [''runc'' \<mapsto> defaultRuntimeHandler example_builtin, ''kata'' \<mapsto> kata_handler]\<rparr>"

definition only_kata :: "unit RuntimeConfig" where
  "only_kata = example_runtime
     \<lparr>Conmon := ''/usr/bin/conmon'', DefaultRuntime := ''kata'',
      Runtimes := [''kata'' \<mapsto> kata_handler]\<rparr>"

definition example_api :: APIConfig where
  "example_api =
     \<lparr>GRPCMaxSendMsgSize = 0, GRPCMaxRecvMsgSize = 0, Listen = ''/var/run/crio/live.sock''\<rparr>"

definition socket_host :: host where
  "socket_host = no_host
     \<lparr>Stat := (\<lambda>p. if p = ''/var/run/crio/live.sock'' \<or> p = ''/var/run/crio/stale.sock''
                    then None else Some ErrNotExist),
      DialTimeout := (\<lambda>p. if p = ''/var/run/crio/live.sock'' then None
                           else Some (ErrOther ''connection refused''))\<rparr>"

section \<open>Auxiliary notions for the statements\<close>

text \<open>
  The handler that the first four statements of \<open>TranslateMonitorFieldsForHandler\<close>
  leave, written as one update; and the test of \<open>TranslateMonitorFields\<close> on a runtime
  name.
\<close>

definition migrated :: "builtin \<Rightarrow> ('w, 'x) RuntimeConfig_scheme \<Rightarrow> RuntimeHandler \<Rightarrow> RuntimeHandler" where
  "migrated b c handler =
     handler\<lparr>MonitorCgroup :=
               (if ConmonCgroup c \<noteq> [] then ConmonCgroup c
                else if MonitorCgroup handler = [] then defaultMonitorCgroup b
                else MonitorCgroup handler),
             MonitorPath := (if Conmon c \<noteq> [] then Conmon c else MonitorPath handler),
             MonitorEnv := (if ConmonEnv c \<noteq> [] then ConmonEnv c else MonitorEnv handler)\<rparr>"

definition applies :: "('w, 'x) RuntimeConfig_scheme \<Rightarrow> string \<Rightarrow> bool" where
  "applies c name =
     (case Runtimes c name of
        None \<Rightarrow> False
      | Some handler \<Rightarrow> RuntimeType handler = DefaultRuntimeType \<or> RuntimeType handler = [])"

text \<open>The test that \<open>TranslateMonitorFieldsForHandler\<close> makes of the monitor cgroup on execution.\<close>

definition monitor_cgroup_check ::
  "builtin \<Rightarrow> CgroupManager \<Rightarrow> RuntimeHandler \<Rightarrow> error option" where
  "monitor_cgroup_check b m handler =
     (if \<not> IsSystemd m
      then (if MonitorCgroup handler \<noteq> PodCgroupName b \<and> MonitorCgroup handler \<noteq> []
            then Some (Message ''cgroupfs manager conmon cgroup should be 'pod' or empty'') else None)
      else if \<not> (MonitorCgroup handler = PodCgroupName b \<or> HasSuffix (MonitorCgroup handler) ''.slice'')
      then Some (Message ''conmon cgroup should be 'pod' or a systemd slice'') else None)"

text \<open>
  Two fields of \<open>RuntimeConfig\<close> set at once, and an outcome with its configuration
  changed; they serve to say that a statement neither reads nor writes the two fields.
\<close>

definition set_limits ::
  "int64 \<Rightarrow> int64 \<Rightarrow> ('w, 'x) RuntimeConfig_scheme \<Rightarrow> ('w, 'x) RuntimeConfig_scheme" where
  "set_limits t l c = c\<lparr>CtrStopTimeout := t, LogSizeMax := l\<rparr>"

definition with_config :: "('c \<Rightarrow> 'c) \<Rightarrow> 'c outcome \<Rightarrow> 'c outcome" where
  "with_config u out = (case out of (r, c, w) \<Rightarrow> (r, u c, w))"

text \<open>
  The statements of \<open>RuntimeConfig.Validate\<close> that come before the check of \<open>LogSizeMax\<close>,
  and those that come after the floor of \<open>CtrStopTimeout\<close>.
\<close>

definition before_limits ::
  "('w, 'sc) lib \<Rightarrow> host \<Rightarrow> builtin \<Rightarrow>
   (('w, 'x) RuntimeConfig_scheme \<Rightarrow> ('w, 'x) RuntimeConfig_scheme outcome) list" where
  "before_limits L h b =
      [\<lambda>c. check (lib_error (LoadUlimits L (DefaultUlimits c))) c,
       \<lambda>c. check (lib_error (LoadDevices L (AdditionalDevices c))) c,
       \<lambda>c. (case ValidateDefaultRuntime b c of (r, c') \<Rightarrow> (r, c', [])),
       Validate_Timezone L h]"

definition after_limits ::
  "('w, 'sc) lib \<Rightarrow> host \<Rightarrow> builtin \<Rightarrow> schedule \<Rightarrow> 'sc \<Rightarrow> bool \<Rightarrow>
   (('w, 'x) RuntimeConfig_scheme \<Rightarrow> ('w, 'x) RuntimeConfig_scheme outcome) list" where
  "after_limits L h b sched systemContext onExecution =
      [\<lambda>c. check (wrap ''invalid default_sysctls'' (lib_error (Sysctls L (DefaultSysctls c)))) c,
       \<lambda>c. check (wrap ''invalid capabilities'' (lib_error (Capabilities_Validate L (DefaultCapabilities c)))) c,
       Validate_InfraCtrCPUSet L h,
       \<lambda>c. check (wrap ''workloads validation'' (lib_error (Workloads_Validate L (Workloads c)))) c,
       \<lambda>c. (if onExecution then Validate_onExecution L h b sched systemContext c
             else (None, c, [])),
       \<lambda>c. (case TranslateMonitorFields L h b c onExecution (range_runtimes sched 2) of
               (r, c') \<Rightarrow> (wrap ''monitor fields translation'' r, c', []))]"

text \<open>A host that has the time zone database, and a configuration that names a zone.\<close>

definition zoneinfo_host :: host where
  "zoneinfo_host = no_host\<lparr>LoadLocation := (\<lambda>tz. None)\<rparr>"

definition berlin_runtime :: "unit RuntimeConfig" where
  "berlin_runtime = example_runtime\<lparr>Timezone := ''Europe/Berlin''\<rparr>"

text \<open>
  The statements before the check of \<open>LogSizeMax\<close> all pass: the ulimits and the devices
  load, the default runtime resolves, and the time zone, if one is named, is found.
\<close>

definition earlier_checks_pass ::
  "('w, 'sc) lib \<Rightarrow> host \<Rightarrow> builtin \<Rightarrow> ('w, 'x) RuntimeConfig_scheme \<Rightarrow> bool" where
  "earlier_checks_pass L h b c =
     (LoadUlimits L (DefaultUlimits c) = None \<and> LoadDevices L (AdditionalDevices c) = None \<and>
      fst (ValidateDefaultRuntime b c) = None \<and>
      (if Timezone c \<noteq> [] \<and> \<not> EqualFold L (Timezone c) ''local''
       then LoadLocation h (Timezone c) = None else True))"

text \<open>A host with \<open>taskset\<close> on the search path, and a configuration that pins the infra containers.\<close>

definition taskset_host :: host where
  "taskset_host = no_host
     \<lparr>LookPath := (\<lambda>name. if name = ''taskset'' then Inr ''/usr/bin/taskset'' else Inl ErrNotExist)\<rparr>"

definition pinned_runtime :: "unit RuntimeConfig" where
  "pinned_runtime = example_runtime\<lparr>InfraCtrCPUSet := ''0-1''\<rparr>"

text \<open>A host with the time zone database and with \<open>taskset\<close>.\<close>

definition zoneinfo_taskset_host :: host where
  "zoneinfo_taskset_host = taskset_host\<lparr>LoadLocation := (\<lambda>tz. None)\<rparr>"

text \<open>
  Two hosts answer alike for the time zone of a configuration: the zone is not looked
  up, or both hosts find it, or neither does.
\<close>

definition same_zone_answer ::
  "('w, 'sc) lib \<Rightarrow> host \<Rightarrow> host \<Rightarrow> ('w, 'x) RuntimeConfig_scheme \<Rightarrow> bool" where
  "same_zone_answer L h h' c =
     (if Timezone c \<noteq> [] \<and> \<not> EqualFold L (Timezone c) ''local''
      then (LoadLocation h' (Timezone c) = None) = (LoadLocation h (Timezone c) = None)
      else True)"

section \<open>The merge: de-duplication\<close>

lemma keep_last_spec_remdups: "keep_last_spec xs = remdups xs"
proof (induction xs)
  case Nil show ?case by (simp add: keep_last_spec_def)
next
  case (Cons x xs)
  have "keep_last_spec (x # xs) = (if x \<in> set xs then [] else [x]) @ keep_last_spec xs"
    unfolding keep_last_spec_def
    by (simp add: upt_conv_Cons map_Suc_upt[symmetric] filter_map comp_def del: upt_Suc)
  with Cons show ?case by simp
qed

lemma remdups_snoc: "remdups (zs @ [y]) = remdups (filter (\<lambda>x. x \<noteq> y) zs) @ [y]"
  by (induction zs) auto

lemma remdups_twice: "remdups (xs @ xs) = remdups xs"
  by (simp add: remdups_append)

text \<open>The first loop keeps, of the strings not yet seen, the first occurrence of each.\<close>

lemma scan_from_end_eq:
  "scan_from_end ys opts res = res @ rev (remdups (rev (filter (\<lambda>x. \<not> opts x) ys)))"
proof (induction ys arbitrary: opts res)
  case Nil show ?case by simp
next
  case (Cons y ys)
  show ?case
  proof (cases "opts y")
    case True with Cons show ?thesis by simp
  next
    case False
    let ?F = "filter (\<lambda>x. \<not> opts x) ys"
    have f: "filter (\<lambda>x. \<not> (opts(y := True)) x) ys = filter (\<lambda>x. x \<noteq> y) ?F"
      by (induction ys) auto
    have "scan_from_end (y # ys) opts res = scan_from_end ys (opts(y := True)) (res @ [y])"
      using False by simp
    also have "\<dots> = (res @ [y]) @ rev (remdups (rev (filter (\<lambda>x. \<not> (opts(y := True)) x) ys)))"
      by (rule Cons)
    also have "\<dots> = res @ y # rev (remdups (filter (\<lambda>x. x \<noteq> y) (rev ?F)))"
      unfolding f by (simp add: rev_filter del: filter_filter)
    also have "\<dots> = res @ rev (remdups (rev ?F @ [y]))"
      unfolding remdups_snoc by simp
    also have "\<dots> = res @ rev (remdups (rev (filter (\<lambda>x. \<not> opts x) (y # ys))))"
      using False by simp
    finally show ?thesis .
  qed
qed

text \<open>The second loop mirrors the slice between its two indices.\<close>

lemma swap_loop_nth:
  "0 \<le> i \<Longrightarrow> j < int (length xs) \<Longrightarrow>
   length (swap_loop xs i j) = length xs \<and>
   (\<forall>k < length xs. swap_loop xs i j ! k =
       (if i \<le> int k \<and> int k \<le> j then xs ! nat (i + j - int k) else xs ! k))"
proof (induction xs i j rule: swap_loop.induct)
  case (1 xs i j)
  show ?case
  proof (cases "i < j")
    case False
    have "nat (i + j - int k) = k" if "i \<le> int k" "int k \<le> j" for k
      using that False by linarith
    moreover have "swap_loop xs i j = xs"
      using False by (subst swap_loop.simps) simp
    ultimately show ?thesis by auto
  next
    case True
    let ?xs' = "xs[nat i := xs ! nat j, nat j := xs ! nat i]"
    have ih: "length (swap_loop ?xs' (i + 1) (j - 1)) = length ?xs' \<and>
      (\<forall>k < length ?xs'. swap_loop ?xs' (i + 1) (j - 1) ! k =
       (if i + 1 \<le> int k \<and> int k \<le> j - 1 then ?xs' ! nat (i + 1 + (j - 1) - int k) else ?xs' ! k))"
      using 1 True by simp
    have eq: "swap_loop xs i j = swap_loop ?xs' (i + 1) (j - 1)"
      using True by (subst swap_loop.simps) simp
    show ?thesis
    proof (intro conjI allI impI)
      show "length (swap_loop xs i j) = length xs" using ih eq by simp
    next
      fix k assume k: "k < length xs"
      have "swap_loop xs i j ! k = (if i + 1 \<le> int k \<and> int k \<le> j - 1 then ?xs' ! nat (i + 1 + (j - 1) - int k) else ?xs' ! k)"
        using ih eq k by simp
      also have "\<dots> = (if i \<le> int k \<and> int k \<le> j then xs ! nat (i + j - int k) else xs ! k)"
        using True 1(2,3) k by (auto simp: nth_list_update nat_eq_iff)
      finally show "swap_loop xs i j ! k = (if i \<le> int k \<and> int k \<le> j then xs ! nat (i + j - int k) else xs ! k)" .
    qed
  qed
qed

lemma swap_loop_rev: "swap_loop xs 0 (int (length xs) - 1) = rev xs"
proof (rule nth_equalityI)
  show "length (swap_loop xs 0 (int (length xs) - 1)) = length (rev xs)"
    using swap_loop_nth[of 0 "int (length xs) - 1" xs] by simp
next
  fix k assume "k < length (swap_loop xs 0 (int (length xs) - 1))"
  then have k: "k < length xs" using swap_loop_nth[of 0 "int (length xs) - 1" xs] by simp
  then have "nat (int (length xs) - 1 - int k) = length xs - Suc k" by linarith
  then show "swap_loop xs 0 (int (length xs) - 1) ! k = rev xs ! k"
    using swap_loop_nth[of 0 "int (length xs) - 1" xs] k by (simp add: rev_nth)
qed

lemma removeDupStorageOpts_remdups: "removeDupStorageOpts xs = remdups xs"
  by (simp add: removeDupStorageOpts_def Let_def swap_loop_rev scan_from_end_eq)

section \<open>The merge: one fragment\<close>

lemma decoded_root:
  "Crio_RootConfig (unify f (fromConfig c)) =
     (Crio_RootConfig (other_keys f (fromConfig c)))
       \<lparr>Root := set_key (root f) (Root (RootConfig c)),
        RunRoot := set_key (runroot f) (RunRoot (RootConfig c)),
        Storage := set_key (storage_driver f) (Storage (RootConfig c)),
        StorageOptions := set_key (storage_option f) (StorageOptions (RootConfig c))\<rparr>"
  by (simp add: unify_def fromConfig_def Let_def)

lemma UpdateFromDropInFile_ok:
  assumes "ReadFile h path = Inr data" and "parse data = Inr f"
  shows "fst (UpdateFromDropInFile parse h c path) = None"
    and "StorageOptions (RootConfig (snd (UpdateFromDropInFile parse h c path))) =
           remdups (StorageOptions (RootConfig c) @ set_key (storage_option f) (StorageOptions (RootConfig c)))"
    and "Root (RootConfig (snd (UpdateFromDropInFile parse h c path))) =
           (if set_key (root f) (Root (RootConfig c)) = [] then Root (RootConfig c)
            else set_key (root f) (Root (RootConfig c)))"
    and "RunRoot (RootConfig (snd (UpdateFromDropInFile parse h c path))) =
           (if set_key (runroot f) (RunRoot (RootConfig c)) = [] then RunRoot (RootConfig c)
            else set_key (runroot f) (RunRoot (RootConfig c)))"
    and "Storage (RootConfig (snd (UpdateFromDropInFile parse h c path))) =
           (if set_key (storage_driver f) (Storage (RootConfig c)) = [] then Storage (RootConfig c)
            else set_key (storage_driver f) (Storage (RootConfig c)))"
  using assms
  by (simp_all add: UpdateFromDropInFile_def Decode_def Let_def toConfig_def decoded_root
                    removeDupStorageOpts_remdups)

lemma UpdateFromDropInFile_unreadable:
  assumes "ReadFile h p = Inl oe"
  shows "UpdateFromDropInFile parse h c p = (Some (OSError oe), c)"
  using assms by (simp add: UpdateFromDropInFile_def Let_def)

lemma UpdateFromDropInFile_undecodable:
  assumes "ReadFile h p = Inr data" and "parse data = Inl (te, w)"
  shows "UpdateFromDropInFile parse h c p = (Some (UnableToDecode p te), written_through w c)"
  using assms by (simp add: UpdateFromDropInFile_def Decode_def Let_def)

lemma length_overwrite: "length (overwrite k old) = length old"
  by (cases k) (simp_all add: overwrite_def)

lemma written_through_values: "values_kept (written_through w c) c"
  by (simp add: values_kept_def written_through_def length_overwrite)

lemma UpdateFromDropInFile_markers:
  "dropInConfigDir (snd (UpdateFromDropInFile parse h c p)) = dropInConfigDir c"
  "singleConfigPath (snd (UpdateFromDropInFile parse h c p)) = singleConfigPath c"
  by (auto simp: UpdateFromDropInFile_def Decode_def Let_def toConfig_def written_through_def
        split: sum.splits)

lemma dropin_host_simps:
  "ReadFile dropin_host ''/d/01-opts.conf'' = Inr ''storage_option = [c, a]''"
  "ReadFile dropin_host ''/d/02-driver.conf'' = Inr ''storage_driver = vfs''"
  "ReadFile dropin_host ''/d/03-broken.conf'' = Inr ''[crio''"
  "Stat dropin_host ''/d'' = None"
  "walk dropin_host ''/d'' = [(''/d'', IsDir), (''/d/02-driver.conf'', IsFile), (''/d/03-broken.conf'', IsFile)]"
  "ReadFile dropin_host ''/d/04-mistyped.conf'' = Inr ''storage_option = [x], log_dir = 5''"
  "ReadFile dropin_host ''/d/05-missing.conf'' = Inl ErrNotExist"
  by (simp_all add: dropin_host_def no_host_def)

lemma dropin_parse_simps:
  "dropin_parse ''storage_option = [c, a]'' = Inr (no_keys\<lparr>storage_option := Some [''c'', ''a'']\<rparr>)"
  "dropin_parse ''storage_driver = vfs'' = Inr (no_keys\<lparr>storage_driver := Some ''vfs''\<rparr>)"
  "dropin_parse ''[crio'' = Inl (''expected a closing bracket'', nothing_written)"
  "dropin_parse ''storage_option = [x], log_dir = 5'' =
     Inl (''incompatible types: string and integer'', nothing_written\<lparr>in_StorageOptions := Some [''x'']\<rparr>)"
  by (simp_all add: dropin_parse_def)

text \<open>
  C1. For every starting list of storage driver options and every fragment that is read
  and decoded, \<open>UpdateFromDropInFile\<close> leaves as storage options the pre-existing options
  followed by the fragment's options (none when the fragment has no such key),
  de-duplicated by string equality with each string kept at its last occurrence and the
  order of the kept entries unchanged.
\<close>

theorem storage_options_merge:
  assumes "ReadFile h path = Inr data" and "parse data = Inr f"
  shows "fst (UpdateFromDropInFile parse h c path) = None \<and>
         StorageOptions (RootConfig (snd (UpdateFromDropInFile parse h c path))) =
           keep_last_spec (StorageOptions (RootConfig c) @
                           (case storage_option f of None \<Rightarrow> [] | Some opts \<Rightarrow> opts))"
  using UpdateFromDropInFile_ok(1,2)[where parse=parse and c=c, OF assms]
  by (cases "storage_option f") (simp_all add: set_key_def keep_last_spec_remdups remdups_twice)

text \<open>The example of C1: base \<open>["a","b"]\<close>, fragment \<open>["c","a"]\<close>, result \<open>["b","c","a"]\<close>.\<close>

theorem storage_options_merge_witness:
  "ReadFile dropin_host ''/d/01-opts.conf'' = Inr ''storage_option = [c, a]'' \<and>
   dropin_parse ''storage_option = [c, a]'' = Inr (no_keys\<lparr>storage_option := Some [''c'', ''a'']\<rparr>) \<and>
   StorageOptions (RootConfig base_config) = [''a'', ''b''] \<and>
   fst (UpdateFromDropInFile dropin_parse dropin_host base_config ''/d/01-opts.conf'') = None \<and>
   StorageOptions (RootConfig (snd (UpdateFromDropInFile dropin_parse dropin_host base_config ''/d/01-opts.conf'')))
     = [''b'', ''c'', ''a'']"
proof -
  have k: "keep_last_spec [''a'', ''b'', ''c'', ''a''] = [''b'', ''c'', ''a'']"
    by (simp add: keep_last_spec_def upt_conv_Cons)
  show ?thesis
    using storage_options_merge[where parse=dropin_parse and c=base_config,
        OF dropin_host_simps(1) dropin_parse_simps(1)] k
    by (simp add: dropin_host_simps dropin_parse_simps base_config_def no_keys_def)
qed

text \<open>
  C3. For every configuration and every fragment that is read and decoded: where the
  fragment has no root directory, run directory or storage driver, or has the empty
  string for it, the field keeps its value from before the fragment; where the fragment
  has a non-empty value, that value replaces the previous one.
\<close>

theorem inherit_root_run_driver:
  assumes "ReadFile h path = Inr data" and "parse data = Inr f"
  shows "Root (RootConfig (snd (UpdateFromDropInFile parse h c path))) =
           (case root f of None \<Rightarrow> Root (RootConfig c)
            | Some v \<Rightarrow> if v = [] then Root (RootConfig c) else v) \<and>
         RunRoot (RootConfig (snd (UpdateFromDropInFile parse h c path))) =
           (case runroot f of None \<Rightarrow> RunRoot (RootConfig c)
            | Some v \<Rightarrow> if v = [] then RunRoot (RootConfig c) else v) \<and>
         Storage (RootConfig (snd (UpdateFromDropInFile parse h c path))) =
           (case storage_driver f of None \<Rightarrow> Storage (RootConfig c)
            | Some v \<Rightarrow> if v = [] then Storage (RootConfig c) else v)"
  using UpdateFromDropInFile_ok(3,4,5)[where parse=parse and c=c, OF assms]
  by (simp add: set_key_def split: option.splits)

text \<open>
  The example of C3: base \<open>("/r", "/run", "overlay")\<close> and a fragment that sets only the
  driver, to \<open>"vfs"\<close>.
\<close>

theorem inherit_root_run_driver_witness:
  "ReadFile dropin_host ''/d/02-driver.conf'' = Inr ''storage_driver = vfs'' \<and>
   dropin_parse ''storage_driver = vfs'' = Inr (no_keys\<lparr>storage_driver := Some ''vfs''\<rparr>) \<and>
   (Root (RootConfig base_config), RunRoot (RootConfig base_config), Storage (RootConfig base_config))
     = (''/r'', ''/run'', ''overlay'') \<and>
   Root (RootConfig (snd (UpdateFromDropInFile dropin_parse dropin_host base_config ''/d/02-driver.conf''))) = ''/r'' \<and>
   RunRoot (RootConfig (snd (UpdateFromDropInFile dropin_parse dropin_host base_config ''/d/02-driver.conf''))) = ''/run'' \<and>
   Storage (RootConfig (snd (UpdateFromDropInFile dropin_parse dropin_host base_config ''/d/02-driver.conf''))) = ''vfs''"
  using inherit_root_run_driver[where parse=dropin_parse and c=base_config,
      OF dropin_host_simps(2) dropin_parse_simps(2)]
  by (simp add: dropin_host_simps dropin_parse_simps base_config_def no_keys_def)

section \<open>The merge: a directory of fragments\<close>

lemma walk_calls_markers:
  "dropInConfigDir (snd (walk_calls parse h c vs)) = dropInConfigDir c"
proof (induction parse h c vs rule: walk_calls.induct)
  case (4 parse h c p rest)
  then show ?case
    using UpdateFromDropInFile_markers(1)[of parse h c p]
    by (cases "UpdateFromDropInFile parse h c p") (auto split: option.splits)
qed simp_all

lemma walk_calls_append:
  "walk_calls parse h c (before @ rest) =
     (case walk_calls parse h c before of
        (Some e, c') \<Rightarrow> (Some e, c')
      | (None, c') \<Rightarrow> walk_calls parse h c' rest)"
proof (induction parse h c before rule: walk_calls.induct)
  case (4 parse h c p vs)
  then show ?case
    by (cases "UpdateFromDropInFile parse h c p") (auto split: option.splits)
qed simp_all

lemma written_through_nothing: "written_through nothing_written c = c"
  by (simp add: written_through_def nothing_written_def overwrite_def)

lemma merge_driver_fragment:
  "UpdateFromDropInFile dropin_parse dropin_host base_config ''/d/02-driver.conf'' =
   (None, base_config\<lparr>Comment := ''# '',
      RootConfig := (RootConfig base_config)\<lparr>Storage := ''vfs''\<rparr>\<rparr>)"
  by (simp add: UpdateFromDropInFile_def dropin_host_simps dropin_parse_simps Decode_def Let_def
        unify_def set_key_def no_keys_def fromConfig_def toConfig_def removeDupStorageOpts_remdups
        base_config_def)

lemma merge_broken_fragment:
  "UpdateFromDropInFile dropin_parse dropin_host c ''/d/03-broken.conf'' =
   (Some (UnableToDecode ''/d/03-broken.conf'' ''expected a closing bracket''), c)"
  by (simp add: UpdateFromDropInFile_undecodable[where parse = dropin_parse, OF dropin_host_simps(3) dropin_parse_simps(3)]
        written_through_nothing)

lemma merge_mistyped_fragment:
  "UpdateFromDropInFile dropin_parse dropin_host base_config ''/d/04-mistyped.conf'' =
   (Some (UnableToDecode ''/d/04-mistyped.conf'' ''incompatible types: string and integer''),
    base_config\<lparr>RootConfig := (RootConfig base_config)\<lparr>StorageOptions := [''x'', ''b'']\<rparr>\<rparr>)"
  by (simp add: UpdateFromDropInFile_undecodable[where parse = dropin_parse, OF dropin_host_simps(6) dropin_parse_simps(4)])
     (simp add: written_through_def nothing_written_def overwrite_def base_config_def)

lemma merge_dropin_dir:
  "UpdateFromPath dropin_parse dropin_host base_config ''/d'' =
   (Some (UnableToDecode ''/d/03-broken.conf'' ''expected a closing bracket''),
    base_config\<lparr>Comment := ''# '',
      RootConfig := (RootConfig base_config)\<lparr>Storage := ''vfs''\<rparr>\<rparr>)"
  by (simp add: UpdateFromPath_def dropin_host_simps merge_driver_fragment merge_broken_fragment)

text \<open>
  C8, as stated, fails: the directory \<open>/d\<close> holds a fragment that sets the storage driver
  and, after it, a fragment that does not decode. \<open>UpdateFromPath\<close> returns the decode
  error of the second, and the configuration it leaves has the driver of the first.
\<close>

theorem partial_merge_counterexample:
  "fst (UpdateFromPath dropin_parse dropin_host base_config ''/d'') =
     Some (UnableToDecode ''/d/03-broken.conf'' ''expected a closing bracket'') \<and>
   Storage (RootConfig base_config) = ''overlay'' \<and>
   Storage (RootConfig (snd (UpdateFromPath dropin_parse dropin_host base_config ''/d''))) = ''vfs''"
  by (simp add: merge_dropin_dir) (simp add: base_config_def)

text \<open>
  C8, amended. A fragment that cannot be read makes \<open>UpdateFromDropInFile\<close> and
  \<open>UpdateFromFile\<close> return the error of reading it, with the configuration as it was
  before the call. A fragment that does not decode makes them return the decoder's
  error wrapped with the fragment's path; the configuration is then as it was before the
  call but for what the decoder wrote in place: the markers and every field of the root
  and image tables that is not a slice are as before, and every slice has the length it
  had. \<open>UpdateFromPath\<close>, unless the path is reported missing, stops at the first entry of the walk
  that fails (the walk's own error for the entry, a fragment that cannot be read, or one
  that does not decode) and returns that error; the configuration it leaves is the one
  with the entries before it merged (and, after a decode error, with what the decoder
  wrote in place), and the drop-in directory marker is not updated.
\<close>

theorem failed_merge_state:
  "(ReadFile h path = Inl oe \<longrightarrow>
      UpdateFromDropInFile parse h c path = (Some (OSError oe), c) \<and>
      UpdateFromFile parse h c path = (Some (OSError oe), c)) \<and>
   (ReadFile h path = Inr data \<and> parse data = Inl (te, w) \<longrightarrow>
      UpdateFromDropInFile parse h c path = (Some (UnableToDecode path te), written_through w c) \<and>
      UpdateFromFile parse h c path = (Some (UnableToDecode path te), written_through w c) \<and>
      values_kept (written_through w c) c) \<and>
   (Stat h dir \<noteq> Some ErrNotExist \<and> walk h dir = before @ (p, v) # rest \<and>
    walk_calls parse h c before = (None, cb) \<longrightarrow>
      dropInConfigDir cb = dropInConfigDir c \<and>
      (v = WalkErr oe \<longrightarrow> UpdateFromPath parse h c dir = (Some (OSError oe), cb)) \<and>
      (v = IsFile \<and> ReadFile h p = Inl oe \<longrightarrow>
         UpdateFromPath parse h c dir = (Some (OSError oe), cb)) \<and>
      (v = IsFile \<and> ReadFile h p = Inr data \<and> parse data = Inl (te, w) \<longrightarrow>
         UpdateFromPath parse h c dir = (Some (UnableToDecode p te), written_through w cb) \<and>
         values_kept (written_through w cb) cb))"
proof (intro conjI impI)
  assume r: "ReadFile h path = Inl oe"
  show "UpdateFromDropInFile parse h c path = (Some (OSError oe), c)"
    by (rule UpdateFromDropInFile_unreadable[OF r])
  then show "UpdateFromFile parse h c path = (Some (OSError oe), c)"
    by (simp add: UpdateFromFile_def)
next
  assume "ReadFile h path = Inr data \<and> parse data = Inl (te, w)"
  then have r: "ReadFile h path = Inr data" and d: "parse data = Inl (te, w)"
    by simp_all
  show u: "UpdateFromDropInFile parse h c path = (Some (UnableToDecode path te), written_through w c)"
    by (rule UpdateFromDropInFile_undecodable[where parse = parse, OF r d])
  then show "UpdateFromFile parse h c path = (Some (UnableToDecode path te), written_through w c)"
    by (simp add: UpdateFromFile_def)
  show "values_kept (written_through w c) c"
    by (rule written_through_values)
next
  assume a: "Stat h dir \<noteq> Some ErrNotExist \<and> walk h dir = before @ (p, v) # rest \<and>
    walk_calls parse h c before = (None, cb)"
  then have s: "\<not> (case Stat h dir of None \<Rightarrow> False | Some err \<Rightarrow> IsNotExist err)"
    by (cases "Stat h dir") (auto elim: IsNotExist.elims)
  from a have k: "walk h dir = before @ (p, v) # rest"
    and b: "walk_calls parse h c before = (None, cb)"
    by simp_all
  have w: "walk_calls parse h c (walk h dir) = walk_calls parse h cb ((p, v) # rest)"
    unfolding k walk_calls_append b by simp
  show "dropInConfigDir cb = dropInConfigDir c"
    using walk_calls_markers[of parse h c before] b by simp
  {
    assume "v = WalkErr oe"
    then show "UpdateFromPath parse h c dir = (Some (OSError oe), cb)"
      using s w by (simp add: UpdateFromPath_def)
  }
  {
    assume "v = IsFile \<and> ReadFile h p = Inl oe"
    then show "UpdateFromPath parse h c dir = (Some (OSError oe), cb)"
      using s w UpdateFromDropInFile_unreadable[of h p oe parse cb] by (simp add: UpdateFromPath_def)
  }
  {
    assume "v = IsFile \<and> ReadFile h p = Inr data \<and> parse data = Inl (te, w)"
    then show "UpdateFromPath parse h c dir = (Some (UnableToDecode p te), written_through w cb)"
      using s w UpdateFromDropInFile_undecodable[of h p data parse te w cb]
      by (simp add: UpdateFromPath_def)
  }
  show "values_kept (written_through w cb) cb"
    by (rule written_through_values)
qed

text \<open>
  Examples of C8: a fragment that is missing; a fragment whose second key does not fit,
  after the decoder has written the first, \<open>["x"]\<close>, into the array of \<open>["a","b"]\<close>; and a
  directory with a fragment that sets the storage driver before one that does not parse.
\<close>

theorem failed_merge_state_witness:
  "ReadFile dropin_host ''/d/05-missing.conf'' = Inl ErrNotExist \<and>
   UpdateFromFile dropin_parse dropin_host base_config ''/d/05-missing.conf'' =
     (Some (OSError ErrNotExist), base_config) \<and>
   ReadFile dropin_host ''/d/04-mistyped.conf'' = Inr ''storage_option = [x], log_dir = 5'' \<and>
   dropin_parse ''storage_option = [x], log_dir = 5'' =
     Inl (''incompatible types: string and integer'', nothing_written\<lparr>in_StorageOptions := Some [''x'']\<rparr>) \<and>
   UpdateFromFile dropin_parse dropin_host base_config ''/d/04-mistyped.conf'' =
     (Some (UnableToDecode ''/d/04-mistyped.conf'' ''incompatible types: string and integer''),
      base_config\<lparr>RootConfig := (RootConfig base_config)\<lparr>StorageOptions := [''x'', ''b'']\<rparr>\<rparr>) \<and>
   Stat dropin_host ''/d'' \<noteq> Some ErrNotExist \<and>
   walk dropin_host ''/d'' =
     [(''/d'', IsDir), (''/d/02-driver.conf'', IsFile)] @ (''/d/03-broken.conf'', IsFile) # [] \<and>
   walk_calls dropin_parse dropin_host base_config [(''/d'', IsDir), (''/d/02-driver.conf'', IsFile)] =
     (None, base_config\<lparr>Comment := ''# '', RootConfig := (RootConfig base_config)\<lparr>Storage := ''vfs''\<rparr>\<rparr>) \<and>
   UpdateFromPath dropin_parse dropin_host base_config ''/d'' =
     (Some (UnableToDecode ''/d/03-broken.conf'' ''expected a closing bracket''),
      base_config\<lparr>Comment := ''# '', RootConfig := (RootConfig base_config)\<lparr>Storage := ''vfs''\<rparr>\<rparr>)"
proof -
  let ?m = "base_config\<lparr>Comment := ''# '', RootConfig := (RootConfig base_config)\<lparr>Storage := ''vfs''\<rparr>\<rparr>"
  have s: "Stat dropin_host ''/d'' \<noteq> Some ErrNotExist"
    by (simp add: dropin_host_simps)
  have k: "walk dropin_host ''/d'' =
     [(''/d'', IsDir), (''/d/02-driver.conf'', IsFile)] @ (''/d/03-broken.conf'', IsFile) # []"
    by (simp add: dropin_host_simps)
  have b: "walk_calls dropin_parse dropin_host base_config [(''/d'', IsDir), (''/d/02-driver.conf'', IsFile)] =
     (None, ?m)"
    by (simp add: merge_driver_fragment)
  have m: "written_through (nothing_written\<lparr>in_StorageOptions := Some [''x'']\<rparr>) base_config =
     base_config\<lparr>RootConfig := (RootConfig base_config)\<lparr>StorageOptions := [''x'', ''b'']\<rparr>\<rparr>"
    by (simp add: written_through_def nothing_written_def overwrite_def base_config_def)
  have 1: "UpdateFromFile dropin_parse dropin_host base_config ''/d/05-missing.conf'' =
     (Some (OSError ErrNotExist), base_config)"
    using failed_merge_state[where h = dropin_host and path = "''/d/05-missing.conf''"
        and oe = ErrNotExist and parse = dropin_parse and c = base_config, THEN conjunct1]
      dropin_host_simps(7)
    by simp
  have 2: "UpdateFromFile dropin_parse dropin_host base_config ''/d/04-mistyped.conf'' =
     (Some (UnableToDecode ''/d/04-mistyped.conf'' ''incompatible types: string and integer''),
      written_through (nothing_written\<lparr>in_StorageOptions := Some [''x'']\<rparr>) base_config)"
    using failed_merge_state[where h = dropin_host and path = "''/d/04-mistyped.conf''"
        and data = "''storage_option = [x], log_dir = 5''" and parse = dropin_parse
        and te = "''incompatible types: string and integer''"
        and w = "nothing_written\<lparr>in_StorageOptions := Some [''x'']\<rparr>" and c = base_config,
        THEN conjunct2, THEN conjunct1]
      dropin_host_simps(6) dropin_parse_simps(4)
    by simp
  have 3: "UpdateFromPath dropin_parse dropin_host base_config ''/d'' =
     (Some (UnableToDecode ''/d/03-broken.conf'' ''expected a closing bracket''),
      written_through nothing_written ?m)"
    using failed_merge_state[where h = dropin_host and dir = "''/d''" and parse = dropin_parse
        and c = base_config and before = "[(''/d'', IsDir), (''/d/02-driver.conf'', IsFile)]"
        and p = "''/d/03-broken.conf''" and v = IsFile and rest = "[]" and cb = ?m
        and data = "''[crio''" and te = "''expected a closing bracket''" and w = nothing_written,
        THEN conjunct2, THEN conjunct2]
      s k b dropin_host_simps(3) dropin_parse_simps(3)
    by simp
  show ?thesis
    using 1 2 3 s k b dropin_host_simps(6,7) dropin_parse_simps(4)
    by (simp only: m written_through_nothing simp_thms)
qed

section \<open>The default runtime\<close>

lemma example_defaultRuntime: "defaultRuntime example_builtin = ''runc''"
  by (simp add: example_builtin_def)

text \<open>
  C2, as stated, fails where the empty string is itself a key of \<open>Runtimes\<close>: with an
  empty \<open>DefaultRuntime\<close> the first test of \<open>ValidateDefaultRuntime\<close> finds that key and
  returns, so \<open>DefaultRuntime\<close> stays empty and is not set to the built-in name.
\<close>

theorem empty_key_counterexample:
  "ValidateDefaultRuntime example_builtin
     (example_runtime\<lparr>DefaultRuntime := [], Runtimes := [[] \<mapsto> kata_handler]\<rparr>) =
     (None, example_runtime\<lparr>DefaultRuntime := [], Runtimes := [[] \<mapsto> kata_handler]\<rparr>) \<and>
   DefaultRuntime (snd (ValidateDefaultRuntime example_builtin
     (example_runtime\<lparr>DefaultRuntime := [], Runtimes := [[] \<mapsto> kata_handler]\<rparr>))) = [] \<and>
   defaultRuntime example_builtin = ''runc''"
  by (simp add: ValidateDefaultRuntime_def example_defaultRuntime)

text \<open>
  C2, amended. \<open>ValidateDefaultRuntime\<close> succeeds and leaves the configuration unchanged
  when \<open>DefaultRuntime\<close> is a key of \<open>Runtimes\<close>; it returns an error, and changes
  nothing, when \<open>DefaultRuntime\<close> is a non-empty name that is not a key; when
  \<open>DefaultRuntime\<close> is empty and the empty name is not a key, it sets \<open>DefaultRuntime\<close>
  to the built-in name and, if no handler is registered under that name, registers the
  built-in handler there (a handler already registered under it is kept). After every
  successful call \<open>DefaultRuntime\<close> is a key of \<open>Runtimes\<close>.
\<close>

theorem default_runtime_resolution:
  "(Runtimes c (DefaultRuntime c) \<noteq> None \<longrightarrow> ValidateDefaultRuntime b c = (None, c)) \<and>
   (DefaultRuntime c \<noteq> [] \<and> Runtimes c (DefaultRuntime c) = None \<longrightarrow>
      ValidateDefaultRuntime b c = (Some (DefaultRuntimeNotFound (DefaultRuntime c)), c)) \<and>
   (DefaultRuntime c = [] \<and> Runtimes c [] = None \<longrightarrow>
      ValidateDefaultRuntime b c =
        (None, c\<lparr>Runtimes := (case Runtimes c (defaultRuntime b) of
                                 None \<Rightarrow> (Runtimes c)(defaultRuntime b \<mapsto> defaultRuntimeHandler b)
                               | Some handler \<Rightarrow> Runtimes c),
                  DefaultRuntime := defaultRuntime b\<rparr>)) \<and>
   (fst (ValidateDefaultRuntime b c) = None \<longrightarrow>
      Runtimes (snd (ValidateDefaultRuntime b c))
               (DefaultRuntime (snd (ValidateDefaultRuntime b c))) \<noteq> None)"
  by (auto simp: ValidateDefaultRuntime_def Let_def split: option.splits)

text \<open>
  The examples of the specification: a default runtime that is in the table; the name
  \<open>"ghost"\<close> that is not; and an empty name with an empty table, which resolves to
  exactly the built-in handler under the built-in name.
\<close>

theorem default_runtime_resolution_witness:
  "ValidateDefaultRuntime example_builtin example_runtime = (None, example_runtime) \<and>
   ValidateDefaultRuntime example_builtin (example_runtime\<lparr>DefaultRuntime := ''ghost''\<rparr>) =
     (Some (DefaultRuntimeNotFound ''ghost''), example_runtime\<lparr>DefaultRuntime := ''ghost''\<rparr>) \<and>
   ValidateDefaultRuntime example_builtin (example_runtime\<lparr>DefaultRuntime := [], Runtimes := Map.empty\<rparr>) =
     (None, example_runtime\<lparr>DefaultRuntime := ''runc'',
              Runtimes := [''runc'' \<mapsto> defaultRuntimeHandler example_builtin]\<rparr>)"
proof -
  have 1: "Runtimes example_runtime (DefaultRuntime example_runtime) \<noteq> None"
    by (simp add: example_runtime_def)
  have 2: "DefaultRuntime (example_runtime\<lparr>DefaultRuntime := ''ghost''\<rparr>) \<noteq> [] \<and>
           Runtimes (example_runtime\<lparr>DefaultRuntime := ''ghost''\<rparr>)
                    (DefaultRuntime (example_runtime\<lparr>DefaultRuntime := ''ghost''\<rparr>)) = None"
    by (simp add: example_runtime_def)
  have 3: "DefaultRuntime (example_runtime\<lparr>DefaultRuntime := [], Runtimes := Map.empty\<rparr>) = [] \<and>
           Runtimes (example_runtime\<lparr>DefaultRuntime := [], Runtimes := Map.empty\<rparr>) [] = None"
    by simp
  show ?thesis
    using default_runtime_resolution[of example_runtime example_builtin] 1
          default_runtime_resolution[of "example_runtime\<lparr>DefaultRuntime := ''ghost''\<rparr>" example_builtin] 2
          default_runtime_resolution[of "example_runtime\<lparr>DefaultRuntime := [], Runtimes := Map.empty\<rparr>"
                                        example_builtin] 3
    by (simp add: example_defaultRuntime)
qed

section \<open>Allowed and disallowed annotations\<close>

lemma delete_allowed_distinct:
  "distinct allowed \<Longrightarrow> \<forall>ann \<in> set allowed. m ann \<Longrightarrow>
   delete_allowed allowed m = Inr (\<lambda>ann. m ann \<and> ann \<notin> set allowed)"
proof (induction allowed arbitrary: m)
  case Nil
  then show ?case by simp
next
  case (Cons a allowed)
  have "delete_allowed allowed (m(a := False)) =
          Inr (\<lambda>ann. (m(a := False)) ann \<and> ann \<notin> set allowed)"
    using Cons.prems by (intro Cons.IH) auto
  moreover have "(\<lambda>ann. (m(a := False)) ann \<and> ann \<notin> set allowed) =
                 (\<lambda>ann. m ann \<and> ann \<notin> set (a # allowed))"
    by auto
  ultimately show ?case using Cons.prems by simp
qed

lemma delete_allowed_unknown:
  "\<not> (\<forall>ann \<in> set allowed. ann \<in> U) \<Longrightarrow> \<forall>ann. m ann \<longrightarrow> ann \<in> U \<Longrightarrow>
   \<exists>ann. delete_allowed allowed m = Inl (InvalidAllowedAnnotation ann)"
proof (induction allowed arbitrary: m)
  case Nil
  then show ?case by simp
next
  case (Cons a allowed)
  show ?case
  proof (cases "m a")
    case False
    then show ?thesis by simp
  next
    case True
    with Cons.prems have "a \<in> U" by blast
    with Cons.prems have "\<not> (\<forall>ann \<in> set allowed. ann \<in> U)" by simp
    moreover have "\<forall>ann. (m(a := False)) ann \<longrightarrow> ann \<in> U" using Cons.prems(2) by simp
    ultimately obtain ann where "delete_allowed allowed (m(a := False)) = Inl (InvalidAllowedAnnotation ann)"
      using Cons.IH by blast
    with True show ?thesis by simp
  qed
qed

text \<open>
  On a list of allowed annotations without repetition the function does what C4 says:
  an annotation outside the universe is an error, and otherwise the disallowed
  annotations are the universe without the allowed ones, whatever order the range over
  the map takes.
\<close>

lemma disallowed_is_complement:
  assumes "distinct allowed" and "set keys = set (AllAllowedAnnotations b)"
  shows "set allowed \<subseteq> set (AllAllowedAnnotations b) \<Longrightarrow>
           \<exists>disallowed. validateAllowedAndGenerateDisallowedAnnotations b keys allowed = Inr disallowed \<and>
              set disallowed = set (AllAllowedAnnotations b) - set allowed"
    and "\<not> set allowed \<subseteq> set (AllAllowedAnnotations b) \<Longrightarrow>
           \<exists>ann. validateAllowedAndGenerateDisallowedAnnotations b keys allowed =
                   Inl (InvalidAllowedAnnotation ann)"
proof -
  assume sub: "set allowed \<subseteq> set (AllAllowedAnnotations b)"
  then have "delete_allowed allowed (\<lambda>ann. ann \<in> set (AllAllowedAnnotations b)) =
        Inr (\<lambda>ann. ann \<in> set (AllAllowedAnnotations b) \<and> ann \<notin> set allowed)"
    using assms(1) by (intro delete_allowed_distinct) auto
  then show "\<exists>disallowed. validateAllowedAndGenerateDisallowedAnnotations b keys allowed = Inr disallowed \<and>
              set disallowed = set (AllAllowedAnnotations b) - set allowed"
    using assms(2) by (auto simp: validateAllowedAndGenerateDisallowedAnnotations_def)
next
  assume "\<not> set allowed \<subseteq> set (AllAllowedAnnotations b)"
  then have "\<not> (\<forall>ann \<in> set allowed. ann \<in> set (AllAllowedAnnotations b))" by blast
  from delete_allowed_unknown[OF this, of "\<lambda>ann. ann \<in> set (AllAllowedAnnotations b)"]
  show "\<exists>ann. validateAllowedAndGenerateDisallowedAnnotations b keys allowed =
                   Inl (InvalidAllowedAnnotation ann)"
    by (auto simp: validateAllowedAndGenerateDisallowedAnnotations_def)
qed

text \<open>
  C4 speaks of every list; the code fails on a list that names a recognized
  annotation twice: the first occurrence deletes the annotation from the map
  that also serves as the membership test, so the second occurrence is reported as
  \<open>invalid allowed_annotation\<close> although it is in the universe.
\<close>

theorem repeated_annotation_rejected:
  "set [''io.kubernetes.cri-o.Devices'', ''io.kubernetes.cri-o.Devices'']
     \<subseteq> set (AllAllowedAnnotations example_builtin) \<and>
   validateAllowedAndGenerateDisallowedAnnotations example_builtin
     (AllAllowedAnnotations example_builtin)
     [''io.kubernetes.cri-o.Devices'', ''io.kubernetes.cri-o.Devices''] =
     Inl (InvalidAllowedAnnotation ''io.kubernetes.cri-o.Devices'') \<and>
   fst (ValidateRuntimeAllowedAnnotations example_builtin (AllAllowedAnnotations example_builtin)
     (kata_handler\<lparr>AllowedAnnotations :=
        [''io.kubernetes.cri-o.Devices'', ''io.kubernetes.cri-o.Devices'']\<rparr>)) =
     Some (InvalidAllowedAnnotation ''io.kubernetes.cri-o.Devices'')"
  by (simp add: validateAllowedAndGenerateDisallowedAnnotations_def
        ValidateRuntimeAllowedAnnotations_def example_builtin_def)

section \<open>The API socket\<close>

text \<open>
  C9. Where the socket path exists and a connection to it succeeds, \<open>RemoveUnusedSocket\<close>
  returns an error and makes no call to remove the path, and validation of the API
  configuration on execution fails. Once the parent directory is ensured: where the path
  exists and no peer answers, the path is removed and, unless the removal fails, the
  result is nil; where the path does not exist the result is nil and nothing is removed.
\<close>

theorem remove_unused_socket:
  "(Stat h path = None \<and> DialTimeout h path = None \<longrightarrow>
      fst (RemoveUnusedSocket L h path) \<noteq> None \<and>
      CallRemove path \<notin> set (snd (RemoveUnusedSocket L h path)) \<and>
      (Listen c = path \<longrightarrow> fst (APIConfig_Validate L h c True) \<noteq> None)) \<and>
   (MkdirAll h (Dir L path) = None \<longrightarrow>
      (Stat h path = None \<and> DialTimeout h path = None \<longrightarrow>
         RemoveUnusedSocket L h path =
           (Some (AlreadyExistingConnection path), [CallMkdirAll (Dir L path)])) \<and>
      (Stat h path = None \<and> DialTimeout h path \<noteq> None \<and> Remove h path = None \<longrightarrow>
         RemoveUnusedSocket L h path = (None, [CallMkdirAll (Dir L path), CallRemove path])) \<and>
      (Stat h path \<noteq> None \<longrightarrow>
         RemoveUnusedSocket L h path = (None, [CallMkdirAll (Dir L path)])))"
  by (auto simp: RemoveUnusedSocket_def APIConfig_Validate_def Let_def split: option.splits)

theorem remove_unused_socket_witness:
  "RemoveUnusedSocket example_lib socket_host ''/var/run/crio/live.sock'' =
     (Some (AlreadyExistingConnection ''/var/run/crio/live.sock''), [CallMkdirAll ''/var/run/crio'']) \<and>
   RemoveUnusedSocket example_lib socket_host ''/var/run/crio/stale.sock'' =
     (None, [CallMkdirAll ''/var/run/crio'', CallRemove ''/var/run/crio/stale.sock'']) \<and>
   RemoveUnusedSocket example_lib socket_host ''/var/run/crio/crio.sock'' =
     (None, [CallMkdirAll ''/var/run/crio'']) \<and>
   fst (APIConfig_Validate example_lib socket_host example_api True) \<noteq> None"
proof -
  have l: "Listen example_api = ''/var/run/crio/live.sock''"
    by (simp add: example_api_def)
  have m: "MkdirAll socket_host (Dir example_lib p) = None" for p
    by (simp add: socket_host_def no_host_def)
  have d: "Dir example_lib p = ''/var/run/crio''" for p
    by (simp add: example_lib_def)
  have s: "Stat socket_host ''/var/run/crio/live.sock'' = None"
          "Stat socket_host ''/var/run/crio/stale.sock'' = None"
          "Stat socket_host ''/var/run/crio/crio.sock'' \<noteq> None"
          "DialTimeout socket_host ''/var/run/crio/live.sock'' = None"
          "DialTimeout socket_host ''/var/run/crio/stale.sock'' \<noteq> None"
          "Remove socket_host ''/var/run/crio/stale.sock'' = None"
    by (simp_all add: socket_host_def no_host_def)
  show ?thesis
    using remove_unused_socket[of socket_host "''/var/run/crio/live.sock''" example_lib example_api]
          remove_unused_socket[of socket_host "''/var/run/crio/stale.sock''" example_lib example_api]
          remove_unused_socket[of socket_host "''/var/run/crio/crio.sock''" example_lib example_api]
          m s l
    by (simp add: d)
qed

section \<open>Monitor fields\<close>

lemma ValidateConmonPath_cases:
  "ValidateConmonPath L h c executable handler = (r, c', handler') \<Longrightarrow>
     (\<exists>m. c' = c\<lparr>conmonManager := m\<rparr>) \<and> (\<exists>p. handler' = handler\<lparr>MonitorPath := p\<rparr>)"
proof -
  assume a: "ValidateConmonPath L h c executable handler = (r, c', handler')"
  have id: "c = c\<lparr>conmonManager := conmonManager c\<rparr>" by simp
  show ?thesis
  proof (cases "validateExecutablePath h executable (MonitorPath handler)")
    case (Inl err)
    with a have "c' = c" "handler' = handler\<lparr>MonitorPath := []\<rparr>"
      by (simp_all add: ValidateConmonPath_def)
    with id show ?thesis by metis
  next
    case (Inr path)
    with a have "(c' = c\<lparr>conmonManager := None\<rparr> \<or> c' = c\<lparr>conmonManager := Some path\<rparr>) \<and>
                 handler' = handler\<lparr>MonitorPath := path\<rparr>"
      by (cases "conmonmgr_New L path") (simp_all add: ValidateConmonPath_def)
    then show ?thesis by blast
  qed
qed

lemma ValidateConmonPath_indep:
  "fst (ValidateConmonPath L h c1 executable handler) = fst (ValidateConmonPath L h c2 executable handler)"
  "snd (snd (ValidateConmonPath L h c1 executable handler)) =
   snd (snd (ValidateConmonPath L h c2 executable handler))"
  by (simp_all add: ValidateConmonPath_def split: sum.splits option.splits)

lemma migrated_chain:
  "(if MonitorCgroup
         (if length (ConmonEnv c) \<noteq> 0
          then (if Conmon c \<noteq> []
                then (if ConmonCgroup c \<noteq> [] then handler\<lparr>MonitorCgroup := ConmonCgroup c\<rparr> else handler)
                     \<lparr>MonitorPath := Conmon c\<rparr>
                else (if ConmonCgroup c \<noteq> [] then handler\<lparr>MonitorCgroup := ConmonCgroup c\<rparr> else handler))
               \<lparr>MonitorEnv := ConmonEnv c\<rparr>
          else (if Conmon c \<noteq> []
                then (if ConmonCgroup c \<noteq> [] then handler\<lparr>MonitorCgroup := ConmonCgroup c\<rparr> else handler)
                     \<lparr>MonitorPath := Conmon c\<rparr>
                else (if ConmonCgroup c \<noteq> [] then handler\<lparr>MonitorCgroup := ConmonCgroup c\<rparr> else handler))) = []
    then (if length (ConmonEnv c) \<noteq> 0
          then (if Conmon c \<noteq> []
                then (if ConmonCgroup c \<noteq> [] then handler\<lparr>MonitorCgroup := ConmonCgroup c\<rparr> else handler)
                     \<lparr>MonitorPath := Conmon c\<rparr>
                else (if ConmonCgroup c \<noteq> [] then handler\<lparr>MonitorCgroup := ConmonCgroup c\<rparr> else handler))
               \<lparr>MonitorEnv := ConmonEnv c\<rparr>
          else (if Conmon c \<noteq> []
                then (if ConmonCgroup c \<noteq> [] then handler\<lparr>MonitorCgroup := ConmonCgroup c\<rparr> else handler)
                     \<lparr>MonitorPath := Conmon c\<rparr>
                else (if ConmonCgroup c \<noteq> [] then handler\<lparr>MonitorCgroup := ConmonCgroup c\<rparr> else handler)))
         \<lparr>MonitorCgroup := defaultMonitorCgroup b\<rparr>
    else (if length (ConmonEnv c) \<noteq> 0
          then (if Conmon c \<noteq> []
                then (if ConmonCgroup c \<noteq> [] then handler\<lparr>MonitorCgroup := ConmonCgroup c\<rparr> else handler)
                     \<lparr>MonitorPath := Conmon c\<rparr>
                else (if ConmonCgroup c \<noteq> [] then handler\<lparr>MonitorCgroup := ConmonCgroup c\<rparr> else handler))
               \<lparr>MonitorEnv := ConmonEnv c\<rparr>
          else (if Conmon c \<noteq> []
                then (if ConmonCgroup c \<noteq> [] then handler\<lparr>MonitorCgroup := ConmonCgroup c\<rparr> else handler)
                     \<lparr>MonitorPath := Conmon c\<rparr>
                else (if ConmonCgroup c \<noteq> [] then handler\<lparr>MonitorCgroup := ConmonCgroup c\<rparr> else handler))))
   = migrated b c handler"
  by (simp add: migrated_def)

lemma TranslateMonitorFieldsForHandler_unfold:
  "TranslateMonitorFieldsForHandler L h b c handler onExecution =
     (if onExecution
      then (case ValidateConmonPath L h c ''conmon'' (migrated b c handler) of
              (Some err, c', handler') \<Rightarrow> (Some err, c', handler')
            | (None, c', handler') \<Rightarrow> (monitor_cgroup_check b (cgroupManager c') handler', c', handler'))
      else (None, c, migrated b c handler))"
  unfolding TranslateMonitorFieldsForHandler_def Let_def migrated_chain
  by (cases "ValidateConmonPath L h c ''conmon'' (migrated b c handler)")
     (simp add: monitor_cgroup_check_def split: option.splits)

lemma TranslateMonitorFieldsForHandler_result:
  assumes "TranslateMonitorFieldsForHandler L h b c handler onExecution = (r, c', handler')"
  shows "\<exists>m. c' = c\<lparr>conmonManager := m\<rparr>"
    and "\<exists>p. handler' = (migrated b c handler)\<lparr>MonitorPath := p\<rparr>"
proof -
  have both: "(\<exists>m. c' = c\<lparr>conmonManager := m\<rparr>) \<and>
              (\<exists>p. handler' = (migrated b c handler)\<lparr>MonitorPath := p\<rparr>)"
  proof (cases onExecution)
    case False
    have "TranslateMonitorFieldsForHandler L h b c handler False = (None, c, migrated b c handler)"
      by (simp add: TranslateMonitorFieldsForHandler_unfold)
    with assms False have e: "c' = c" "handler' = migrated b c handler"
      by auto
    have "c' = c\<lparr>conmonManager := conmonManager c\<rparr>"
      unfolding e by simp
    moreover have "handler' =
        (migrated b c handler)\<lparr>MonitorPath := MonitorPath (migrated b c handler)\<rparr>"
      unfolding e by simp
    ultimately show ?thesis by blast
  next
    case True
    obtain r1 c1 h1 where v: "ValidateConmonPath L h c ''conmon'' (migrated b c handler) = (r1, c1, h1)"
      by (cases "ValidateConmonPath L h c ''conmon'' (migrated b c handler)")
    have "TranslateMonitorFieldsForHandler L h b c handler onExecution =
          (case r1 of Some err \<Rightarrow> Some err | None \<Rightarrow> monitor_cgroup_check b (cgroupManager c1) h1, c1, h1)"
      using True v by (simp add: TranslateMonitorFieldsForHandler_unfold split: option.splits)
    with assms have "c' = c1" "handler' = h1" by simp_all
    with ValidateConmonPath_cases[OF v] show ?thesis by simp
  qed
  from both show "\<exists>m. c' = c\<lparr>conmonManager := m\<rparr>" by blast
  from both show "\<exists>p. handler' = (migrated b c handler)\<lparr>MonitorPath := p\<rparr>" by blast
qed

lemma migrated_RuntimeType: "RuntimeType ((migrated b c handler)\<lparr>MonitorPath := p\<rparr>) = RuntimeType handler"
  by (simp add: migrated_def)

lemma migrated_cong:
  "Conmon c1 = Conmon c2 \<Longrightarrow> ConmonCgroup c1 = ConmonCgroup c2 \<Longrightarrow> ConmonEnv c1 = ConmonEnv c2 \<Longrightarrow>
   migrated b c1 handler = migrated b c2 handler"
  by (simp add: migrated_def)

text \<open>
  What a handler becomes depends on the configuration through the legacy fields only.
\<close>

lemma TranslateMonitorFieldsForHandler_cong:
  assumes "Conmon c1 = Conmon c2" "ConmonCgroup c1 = ConmonCgroup c2" "ConmonEnv c1 = ConmonEnv c2"
  shows "snd (snd (TranslateMonitorFieldsForHandler L h b c1 handler onExecution)) =
         snd (snd (TranslateMonitorFieldsForHandler L h b c2 handler onExecution))"
proof -
  have m: "migrated b c1 handler = migrated b c2 handler"
    using assms by (rule migrated_cong)
  have t1: "snd (snd (TranslateMonitorFieldsForHandler L h b c1 handler onExecution)) =
           (if onExecution then snd (snd (ValidateConmonPath L h c1 ''conmon'' (migrated b c1 handler)))
            else migrated b c1 handler)"
    by (simp add: TranslateMonitorFieldsForHandler_unfold split: prod.splits option.splits)
  have t2: "snd (snd (TranslateMonitorFieldsForHandler L h b c2 handler onExecution)) =
           (if onExecution then snd (snd (ValidateConmonPath L h c2 ''conmon'' (migrated b c2 handler)))
            else migrated b c2 handler)"
    by (simp add: TranslateMonitorFieldsForHandler_unfold split: prod.splits option.splits)
  show ?thesis
    unfolding t1 t2 m
    using ValidateConmonPath_indep(2)[of L h c1 "''conmon''" "migrated b c2 handler" c2]
    by simp
qed

text \<open>One turn of the loop of \<open>TranslateMonitorFields\<close>, on a name the test lets through.\<close>

lemma TranslateMonitorFields_step:
  assumes "Runtimes c k = Some hk" and "RuntimeType hk = DefaultRuntimeType \<or> RuntimeType hk = []"
  obtains r m p where
    "TranslateMonitorFieldsForHandler L h b c hk onExecution =
       (r, c\<lparr>conmonManager := m\<rparr>, (migrated b c hk)\<lparr>MonitorPath := p\<rparr>)"
    and "TranslateMonitorFields L h b c onExecution (k # keys) =
       (case r of
          Some err \<Rightarrow> (Some (Errorf (''failed to translate monitor fields for runtime '' @ k) err),
                       c\<lparr>conmonManager := m, Runtimes := (Runtimes c)(k \<mapsto> (migrated b c hk)\<lparr>MonitorPath := p\<rparr>)\<rparr>)
        | None \<Rightarrow> TranslateMonitorFields L h b
                   (c\<lparr>conmonManager := m, Runtimes := (Runtimes c)(k \<mapsto> (migrated b c hk)\<lparr>MonitorPath := p\<rparr>)\<rparr>)
                   onExecution keys)"
proof -
  obtain r c' hk' where t: "TranslateMonitorFieldsForHandler L h b c hk onExecution = (r, c', hk')"
    by (cases "TranslateMonitorFieldsForHandler L h b c hk onExecution")
  from TranslateMonitorFieldsForHandler_result[OF t] obtain m p where
    mp: "c' = c\<lparr>conmonManager := m\<rparr>" "hk' = (migrated b c hk)\<lparr>MonitorPath := p\<rparr>"
    by blast
  have t': "TranslateMonitorFieldsForHandler L h b c hk onExecution =
       (r, c\<lparr>conmonManager := m\<rparr>, (migrated b c hk)\<lparr>MonitorPath := p\<rparr>)"
    using t mp by simp
  have "TranslateMonitorFields L h b c onExecution (k # keys) =
       (case r of
          Some err \<Rightarrow> (Some (Errorf (''failed to translate monitor fields for runtime '' @ k) err),
                       c\<lparr>conmonManager := m, Runtimes := (Runtimes c)(k \<mapsto> (migrated b c hk)\<lparr>MonitorPath := p\<rparr>)\<rparr>)
        | None \<Rightarrow> TranslateMonitorFields L h b
                   (c\<lparr>conmonManager := m, Runtimes := (Runtimes c)(k \<mapsto> (migrated b c hk)\<lparr>MonitorPath := p\<rparr>)\<rparr>)
                   onExecution keys)"
    using assms t' by (simp add: Let_def split: option.splits)
  with t' show thesis by (rule that)
qed

lemma TranslateMonitorFields_skip:
  assumes "\<not> applies c k"
  shows "TranslateMonitorFields L h b c onExecution (k # keys) =
         TranslateMonitorFields L h b c onExecution keys"
  using assms by (cases "Runtimes c k") (auto simp: applies_def)

declare TranslateMonitorFields.simps(2) [simp del]

lemma applies_iff:
  "applies c k \<longleftrightarrow>
     (\<exists>hk. Runtimes c k = Some hk \<and> (RuntimeType hk = DefaultRuntimeType \<or> RuntimeType hk = []))"
  by (simp add: applies_def split: option.splits)

lemma TranslateMonitorFields_other_names:
  "name \<notin> set keys \<Longrightarrow>
   Runtimes (snd (TranslateMonitorFields L h b c onExecution keys)) name = Runtimes c name"
proof (induction keys arbitrary: c)
  case Nil
  then show ?case by simp
next
  case (Cons k keys)
  then have neq: "k \<noteq> name" and notin: "name \<notin> set keys" by auto
  show ?case
  proof (cases "applies c k")
    case False
    then show ?thesis
      using Cons.IH[OF notin, of c] by (simp add: TranslateMonitorFields_skip)
  next
    case True
    then obtain hk where hk: "Runtimes c k = Some hk"
      "RuntimeType hk = DefaultRuntimeType \<or> RuntimeType hk = []"
      unfolding applies_iff by blast
    obtain r m p where
      s: "TranslateMonitorFields L h b c onExecution (k # keys) =
       (case r of
          Some err \<Rightarrow> (Some (Errorf (''failed to translate monitor fields for runtime '' @ k) err),
                       c\<lparr>conmonManager := m, Runtimes := (Runtimes c)(k \<mapsto> (migrated b c hk)\<lparr>MonitorPath := p\<rparr>)\<rparr>)
        | None \<Rightarrow> TranslateMonitorFields L h b
                   (c\<lparr>conmonManager := m, Runtimes := (Runtimes c)(k \<mapsto> (migrated b c hk)\<lparr>MonitorPath := p\<rparr>)\<rparr>)
                   onExecution keys)"
      by (rule TranslateMonitorFields_step[OF hk, of L h b onExecution keys])
    show ?thesis
      unfolding s using neq Cons.IH[OF notin] by (cases r) simp_all
  qed
qed

text \<open>A handler of any other type is never written.\<close>

lemma TranslateMonitorFields_frame:
  "Runtimes c name = Some handler \<Longrightarrow>
   \<not> (RuntimeType handler = DefaultRuntimeType \<or> RuntimeType handler = []) \<Longrightarrow>
   Runtimes (snd (TranslateMonitorFields L h b c onExecution keys)) name = Some handler"
proof (induction keys arbitrary: c)
  case Nil
  then show ?case by simp
next
  case (Cons k keys)
  show ?case
  proof (cases "applies c k")
    case False
    then show ?thesis
      using Cons.IH[OF Cons.prems] by (simp add: TranslateMonitorFields_skip)
  next
    case True
    then obtain hk where hk: "Runtimes c k = Some hk"
      "RuntimeType hk = DefaultRuntimeType \<or> RuntimeType hk = []"
      unfolding applies_iff by blast
    with Cons.prems have neq: "k \<noteq> name" by auto
    obtain r m p where
      s: "TranslateMonitorFields L h b c onExecution (k # keys) =
       (case r of
          Some err \<Rightarrow> (Some (Errorf (''failed to translate monitor fields for runtime '' @ k) err),
                       c\<lparr>conmonManager := m, Runtimes := (Runtimes c)(k \<mapsto> (migrated b c hk)\<lparr>MonitorPath := p\<rparr>)\<rparr>)
        | None \<Rightarrow> TranslateMonitorFields L h b
                   (c\<lparr>conmonManager := m, Runtimes := (Runtimes c)(k \<mapsto> (migrated b c hk)\<lparr>MonitorPath := p\<rparr>)\<rparr>)
                   onExecution keys)"
      by (rule TranslateMonitorFields_step[OF hk, of L h b onExecution keys])
    let ?c2 = "c\<lparr>conmonManager := m, Runtimes := (Runtimes c)(k \<mapsto> (migrated b c hk)\<lparr>MonitorPath := p\<rparr>)\<rparr>"
    have "Runtimes ?c2 name = Some handler" using neq Cons.prems(1) by simp
    from Cons.IH[OF this Cons.prems(2)] show ?thesis
      unfolding s using neq Cons.prems(1) by (cases r) simp_all
  qed
qed

text \<open>The names the test turns away contribute nothing to the result.\<close>

lemma TranslateMonitorFields_filter:
  "TranslateMonitorFields L h b c onExecution keys =
   TranslateMonitorFields L h b c onExecution (filter (applies c) keys)"
proof (induction keys arbitrary: c)
  case Nil
  then show ?case by simp
next
  case (Cons k keys)
  show ?case
  proof (cases "applies c k")
    case False
    then show ?thesis
      using Cons.IH[of c] by (simp add: TranslateMonitorFields_skip)
  next
    case True
    then obtain hk where hk: "Runtimes c k = Some hk"
      "RuntimeType hk = DefaultRuntimeType \<or> RuntimeType hk = []"
      unfolding applies_iff by blast
    obtain r m p where
      t: "TranslateMonitorFieldsForHandler L h b c hk onExecution =
            (r, c\<lparr>conmonManager := m\<rparr>, (migrated b c hk)\<lparr>MonitorPath := p\<rparr>)"
      by (rule TranslateMonitorFields_step[OF hk, of L h b onExecution keys])
    let ?c2 = "c\<lparr>conmonManager := m, Runtimes := (Runtimes c)(k \<mapsto> (migrated b c hk)\<lparr>MonitorPath := p\<rparr>)\<rparr>"
    have s: "TranslateMonitorFields L h b c onExecution (k # ks) =
       (case r of
          Some err \<Rightarrow> (Some (Errorf (''failed to translate monitor fields for runtime '' @ k) err), ?c2)
        | None \<Rightarrow> TranslateMonitorFields L h b ?c2 onExecution ks)" for ks
      using hk t by (simp add: TranslateMonitorFields.simps(2) Let_def split: option.splits)
    have "applies ?c2 = applies c"
      by (rule ext) (simp add: applies_def hk migrated_RuntimeType)
    with Cons.IH[of ?c2] have
      "TranslateMonitorFields L h b ?c2 onExecution keys =
       TranslateMonitorFields L h b ?c2 onExecution (filter (applies c) keys)"
      by simp
    then show ?thesis
      using True by (simp only: filter.simps if_True s)
  qed
qed

text \<open>A handler the test lets through becomes what \<open>TranslateMonitorFieldsForHandler\<close> makes of it.\<close>

lemma TranslateMonitorFields_applied:
  "distinct keys \<Longrightarrow> name \<in> set keys \<Longrightarrow> Runtimes c name = Some handler \<Longrightarrow>
   RuntimeType handler = DefaultRuntimeType \<or> RuntimeType handler = [] \<Longrightarrow>
   fst (TranslateMonitorFields L h b c onExecution keys) = None \<Longrightarrow>
   Runtimes (snd (TranslateMonitorFields L h b c onExecution keys)) name =
     Some (snd (snd (TranslateMonitorFieldsForHandler L h b c handler onExecution)))"
proof (induction keys arbitrary: c)
  case Nil
  then show ?case by simp
next
  case (Cons k keys)
  show ?case
  proof (cases "applies c k")
    case False
    with Cons.prems(3,4) have "k \<noteq> name" unfolding applies_iff by auto
    with Cons.prems have "distinct keys" "name \<in> set keys"
      "fst (TranslateMonitorFields L h b c onExecution keys) = None"
      using False by (simp_all add: TranslateMonitorFields_skip)
    from Cons.IH[OF this(1,2) Cons.prems(3,4) this(3)] show ?thesis
      using False by (simp add: TranslateMonitorFields_skip)
  next
    case True
    then obtain hk where hk: "Runtimes c k = Some hk"
      "RuntimeType hk = DefaultRuntimeType \<or> RuntimeType hk = []"
      unfolding applies_iff by blast
    obtain r m p where
      t: "TranslateMonitorFieldsForHandler L h b c hk onExecution =
            (r, c\<lparr>conmonManager := m\<rparr>, (migrated b c hk)\<lparr>MonitorPath := p\<rparr>)"
      and s: "TranslateMonitorFields L h b c onExecution (k # keys) =
       (case r of
          Some err \<Rightarrow> (Some (Errorf (''failed to translate monitor fields for runtime '' @ k) err),
                       c\<lparr>conmonManager := m, Runtimes := (Runtimes c)(k \<mapsto> (migrated b c hk)\<lparr>MonitorPath := p\<rparr>)\<rparr>)
        | None \<Rightarrow> TranslateMonitorFields L h b
                   (c\<lparr>conmonManager := m, Runtimes := (Runtimes c)(k \<mapsto> (migrated b c hk)\<lparr>MonitorPath := p\<rparr>)\<rparr>)
                   onExecution keys)"
      by (rule TranslateMonitorFields_step[OF hk, of L h b onExecution keys])
    let ?c2 = "c\<lparr>conmonManager := m, Runtimes := (Runtimes c)(k \<mapsto> (migrated b c hk)\<lparr>MonitorPath := p\<rparr>)\<rparr>"
    from Cons.prems(5) s have r: "r = None" by (cases r) simp_all
    then have s': "TranslateMonitorFields L h b c onExecution (k # keys) =
                   TranslateMonitorFields L h b ?c2 onExecution keys"
      using s by simp
    show ?thesis
    proof (cases "k = name")
      case True
      with hk Cons.prems(3) have "hk = handler" by simp
      moreover from True Cons.prems(1) have "name \<notin> set keys" by simp
      ultimately show ?thesis
        unfolding s' using TranslateMonitorFields_other_names[of name keys L h b ?c2 onExecution] t True
        by simp
    next
      case False
      with Cons.prems have d: "distinct keys" "name \<in> set keys" by simp_all
      have rn: "Runtimes ?c2 name = Some handler" using False Cons.prems(3) by simp
      have f: "fst (TranslateMonitorFields L h b ?c2 onExecution keys) = None"
        using Cons.prems(5) unfolding s' .
      have "snd (snd (TranslateMonitorFieldsForHandler L h b ?c2 handler onExecution)) =
            snd (snd (TranslateMonitorFieldsForHandler L h b c handler onExecution))"
        by (rule TranslateMonitorFieldsForHandler_cong) simp_all
      with Cons.IH[OF d rn Cons.prems(4) f] show ?thesis
        unfolding s' by simp
    qed
  qed
qed

text \<open>
  C10. \<open>TranslateMonitorFields\<close> leaves every handler of type \<open>"vm"\<close> or \<open>"pod"\<close> exactly
  as it was, on execution or not and whether or not the call returns an error; its
  result is the result of the loop over the names whose handler has the default type or
  no type, so the other handlers are not validated; a handler of the default type or of
  no type, once the call has returned without error, is what
  \<open>TranslateMonitorFieldsForHandler\<close> makes of it; and off execution that is the handler
  with the legacy \<open>Conmon\<close>, \<open>ConmonCgroup\<close> and \<open>ConmonEnv\<close>, where set, in place of its
  own monitor path, cgroup and environment, and the default cgroup where the cgroup is
  empty.
\<close>

theorem monitor_fields_only_default_type:
  "(Runtimes c name = Some handler \<and>
      (RuntimeType handler = RuntimeTypeVM \<or> RuntimeType handler = RuntimeTypePod) \<longrightarrow>
      Runtimes (snd (TranslateMonitorFields L h b c onExecution keys)) name = Some handler) \<and>
   TranslateMonitorFields L h b c onExecution keys =
     TranslateMonitorFields L h b c onExecution (filter (applies c) keys) \<and>
   (distinct keys \<and> name \<in> set keys \<and> Runtimes c name = Some handler \<and>
      (RuntimeType handler = DefaultRuntimeType \<or> RuntimeType handler = []) \<and>
      fst (TranslateMonitorFields L h b c onExecution keys) = None \<longrightarrow>
      Runtimes (snd (TranslateMonitorFields L h b c onExecution keys)) name =
        Some (snd (snd (TranslateMonitorFieldsForHandler L h b c handler onExecution)))) \<and>
   TranslateMonitorFieldsForHandler L h b c handler False = (None, c, migrated b c handler)"
proof (intro conjI impI)
  assume a: "Runtimes c name = Some handler \<and>
      (RuntimeType handler = RuntimeTypeVM \<or> RuntimeType handler = RuntimeTypePod)"
  then have "\<not> (RuntimeType handler = DefaultRuntimeType \<or> RuntimeType handler = [])"
    by (auto simp: RuntimeTypeVM_def RuntimeTypePod_def DefaultRuntimeType_def)
  with a show "Runtimes (snd (TranslateMonitorFields L h b c onExecution keys)) name = Some handler"
    by (intro TranslateMonitorFields_frame) simp_all
next
  show "TranslateMonitorFields L h b c onExecution keys =
     TranslateMonitorFields L h b c onExecution (filter (applies c) keys)"
    by (rule TranslateMonitorFields_filter)
next
  assume "distinct keys \<and> name \<in> set keys \<and> Runtimes c name = Some handler \<and>
      (RuntimeType handler = DefaultRuntimeType \<or> RuntimeType handler = []) \<and>
      fst (TranslateMonitorFields L h b c onExecution keys) = None"
  then show "Runtimes (snd (TranslateMonitorFields L h b c onExecution keys)) name =
        Some (snd (snd (TranslateMonitorFieldsForHandler L h b c handler onExecution)))"
    by (intro TranslateMonitorFields_applied) simp_all
next
  show "TranslateMonitorFieldsForHandler L h b c handler False = (None, c, migrated b c handler)"
    by (simp add: TranslateMonitorFieldsForHandler_unfold)
qed

text \<open>
  An example with a default handler and a \<open>"vm"\<close> handler and the legacy \<open>Conmon\<close> set:
  the default handler takes the legacy path, the \<open>"vm"\<close> handler is untouched; and on a
  host without a monitor binary a table that holds the \<open>"vm"\<close> handler alone passes on
  execution.
\<close>

theorem monitor_fields_only_default_type_witness:
  "fst (TranslateMonitorFields example_lib no_host example_builtin two_runtimes False
          [''runc'', ''kata'', ''ghost'']) = None \<and>
   Runtimes (snd (TranslateMonitorFields example_lib no_host example_builtin two_runtimes False
          [''runc'', ''kata'', ''ghost''])) ''kata'' = Some kata_handler \<and>
   Runtimes (snd (TranslateMonitorFields example_lib no_host example_builtin two_runtimes False
          [''runc'', ''kata'', ''ghost''])) ''runc'' =
     Some ((defaultRuntimeHandler example_builtin)\<lparr>MonitorPath := ''/usr/bin/conmon''\<rparr>) \<and>
   TranslateMonitorFields example_lib no_host example_builtin only_kata True
          [''runc'', ''kata'', ''ghost''] = (None, only_kata)"
proof -
  let ?keys = "[''runc'', ''kata'', ''ghost'']"
  let ?d = "defaultRuntimeHandler example_builtin"
  have rk: "Runtimes two_runtimes ''kata'' = Some kata_handler"
    and rr: "Runtimes two_runtimes ''runc'' = Some ?d"
    by (simp_all add: two_runtimes_def)
  have tk: "RuntimeType kata_handler = RuntimeTypeVM"
    and td: "RuntimeType ?d = DefaultRuntimeType"
    by (simp_all add: kata_handler_def RuntimeTypeVM_def defaultRuntimeHandler_def)
  have ap: "filter (applies two_runtimes) ?keys = [''runc'']"
    by (simp add: applies_def two_runtimes_def kata_handler_def defaultRuntimeHandler_def
          DefaultRuntimeType_def)
  have ak: "filter (applies only_kata) ?keys = []"
    by (simp add: applies_def only_kata_def kata_handler_def defaultRuntimeHandler_def
          DefaultRuntimeType_def)
  note thm_runc = monitor_fields_only_default_type[of two_runtimes "''runc''" ?d example_lib no_host
            example_builtin False ?keys]
  note thm_kata = monitor_fields_only_default_type[of two_runtimes "''kata''" kata_handler example_lib
            no_host example_builtin False ?keys]
  note thm_only = monitor_fields_only_default_type[of only_kata "''kata''" kata_handler example_lib
            no_host example_builtin True ?keys]
  have static: "TranslateMonitorFieldsForHandler example_lib no_host example_builtin two_runtimes ?d False =
                  (None, two_runtimes, migrated example_builtin two_runtimes ?d)"
    by (rule thm_runc[THEN conjunct2, THEN conjunct2, THEN conjunct2])
  have m: "migrated example_builtin two_runtimes ?d = ?d\<lparr>MonitorPath := ''/usr/bin/conmon''\<rparr>"
    by (simp add: migrated_def two_runtimes_def example_runtime_def defaultRuntimeHandler_def
          example_builtin_def)
  have "TranslateMonitorFields example_lib no_host example_builtin two_runtimes False ?keys =
        TranslateMonitorFields example_lib no_host example_builtin two_runtimes False
          (filter (applies two_runtimes) ?keys)"
    by (rule thm_runc[THEN conjunct2, THEN conjunct1])
  then have e: "TranslateMonitorFields example_lib no_host example_builtin two_runtimes False ?keys =
        TranslateMonitorFields example_lib no_host example_builtin two_runtimes False [''runc'']"
    unfolding ap .
  have ok: "fst (TranslateMonitorFields example_lib no_host example_builtin two_runtimes False ?keys) = None"
    unfolding e by (simp add: TranslateMonitorFields.simps(2) rr td static)
  have "TranslateMonitorFields example_lib no_host example_builtin only_kata True ?keys =
        TranslateMonitorFields example_lib no_host example_builtin only_kata True
          (filter (applies only_kata) ?keys)"
    by (rule thm_only[THEN conjunct2, THEN conjunct1])
  then have only: "TranslateMonitorFields example_lib no_host example_builtin only_kata True ?keys =
        (None, only_kata)"
    unfolding ak by simp
  have kata: "Runtimes (snd (TranslateMonitorFields example_lib no_host example_builtin two_runtimes False
          ?keys)) ''kata'' = Some kata_handler"
    using thm_kata[THEN conjunct1] rk tk by simp
  have "Runtimes (snd (TranslateMonitorFields example_lib no_host example_builtin two_runtimes False
          ?keys)) ''runc'' =
        Some (snd (snd (TranslateMonitorFieldsForHandler example_lib no_host example_builtin
                          two_runtimes ?d False)))"
    using thm_runc[THEN conjunct2, THEN conjunct2, THEN conjunct1] rr td ok by simp
  then have runc: "Runtimes (snd (TranslateMonitorFields example_lib no_host example_builtin two_runtimes False
          ?keys)) ''runc'' = Some (?d\<lparr>MonitorPath := ''/usr/bin/conmon''\<rparr>)"
    unfolding static m by simp
  from ok kata runc only show ?thesis by simp
qed

section \<open>Sequences of statements\<close>

lemma run_steps_append:
  "run_steps (xs @ ys) c =
     (case run_steps xs c of
        (Some err, c', w) \<Rightarrow> (Some err, c', w)
      | (None, c', w) \<Rightarrow> (case run_steps ys c' of (r, c'', w') \<Rightarrow> (r, c'', w @ w')))"
proof (induction xs arbitrary: c)
  case Nil
  show ?case by (cases "run_steps ys c") simp
next
  case (Cons x xs)
  obtain r c1 w where x: "x c = (r, c1, w)" by (cases "x c")
  show ?case
  proof (cases r)
    case (Some err)
    with x show ?thesis by simp
  next
    case None
    obtain r2 c2 w2 where xs: "run_steps xs c1 = (r2, c2, w2)" by (cases "run_steps xs c1")
    obtain r3 c3 w3 where ys: "run_steps ys c2 = (r3, c3, w3)" by (cases "run_steps ys c2")
    show ?thesis
      using None x xs ys Cons.IH[of c1] by (cases r2) simp_all
  qed
qed

lemma run_steps_commute:
  assumes "\<And>s c. s \<in> set ss \<Longrightarrow> s (u c) = with_config u (s c)"
  shows "run_steps ss (u c) = with_config u (run_steps ss c)"
  using assms
proof (induction ss arbitrary: c)
  case Nil
  show ?case by (simp add: with_config_def)
next
  case (Cons s ss)
  obtain r c1 w where s: "s c = (r, c1, w)" by (cases "s c")
  have su: "s (u c) = (r, u c1, w)"
    using Cons.prems[of s c] s by (simp add: with_config_def)
  show ?case
  proof (cases r)
    case (Some err)
    with s su show ?thesis by (simp add: with_config_def)
  next
    case None
    obtain r2 c2 w2 where ss: "run_steps ss c1 = (r2, c2, w2)" by (cases "run_steps ss c1")
    have "run_steps ss (u c1) = with_config u (run_steps ss c1)"
      using Cons.prems by (intro Cons.IH) simp
    with None s su ss show ?thesis by (simp add: with_config_def)
  qed
qed

lemma run_steps_never:
  assumes "\<And>s c. s \<in> set ss \<Longrightarrow> fst (s c) \<noteq> Some e"
  shows "fst (run_steps ss c) \<noteq> Some e"
  using assms
proof (induction ss arbitrary: c)
  case Nil
  show ?case by simp
next
  case (Cons s ss)
  obtain r c1 w where s: "s c = (r, c1, w)" by (cases "s c")
  obtain r2 c2 w2 where ss: "run_steps ss c1 = (r2, c2, w2)" by (cases "run_steps ss c1")
  have "r \<noteq> Some e" using Cons.prems[of s c] s by simp
  moreover have "r2 \<noteq> Some e" using Cons.IH[of c1] Cons.prems ss by simp
  ultimately show ?case using s ss by (cases r) auto
qed

section \<open>Statements that leave the two limits alone\<close>

lemma check_commute: "check r (u c) = with_config u (check r c)"
  by (simp add: check_def with_config_def)

lemma ValidateDefaultRuntime_commute:
  "ValidateDefaultRuntime b (set_limits t l c) =
     (fst (ValidateDefaultRuntime b c), set_limits t l (snd (ValidateDefaultRuntime b c)))"
  by (simp add: ValidateDefaultRuntime_def set_limits_def Let_def)

lemma Validate_Timezone_commute:
  "Validate_Timezone L h (set_limits t l c) = with_config (set_limits t l) (Validate_Timezone L h c)"
  by (simp add: Validate_Timezone_def set_limits_def with_config_def split: option.splits)

lemma Validate_InfraCtrCPUSet_commute:
  "Validate_InfraCtrCPUSet L h (set_limits t l c) =
     with_config (set_limits t l) (Validate_InfraCtrCPUSet L h c)"
  by (simp add: Validate_InfraCtrCPUSet_def set_limits_def with_config_def split: sum.splits)

lemma set_limits_simps:
  "Runtimes (set_limits t l c) = Runtimes c"
  "DefaultRuntime (set_limits t l c) = DefaultRuntime c"
  "cgroupManager (set_limits t l c) = cgroupManager c"
  "set_limits t l (c\<lparr>Runtimes := rs\<rparr>) = (set_limits t l c)\<lparr>Runtimes := rs\<rparr>"
  "set_limits t l (c\<lparr>conmonManager := m\<rparr>) = (set_limits t l c)\<lparr>conmonManager := m\<rparr>"
  "CtrStopTimeout (set_limits t l c) = t"
  "LogSizeMax (set_limits t l c) = l"
  by (simp_all add: set_limits_def)

lemma migrated_set_limits: "migrated b (set_limits t l c) handler = migrated b c handler"
  by (simp add: migrated_def set_limits_def)

lemma ValidateConmonPath_commute:
  "ValidateConmonPath L h (set_limits t l c) executable handler =
     (case ValidateConmonPath L h c executable handler of
        (r, c', handler') \<Rightarrow> (r, set_limits t l c', handler'))"
  by (simp add: ValidateConmonPath_def set_limits_def split: sum.splits option.splits)

lemma TranslateMonitorFieldsForHandler_commute:
  "TranslateMonitorFieldsForHandler L h b (set_limits t l c) handler onExecution =
     (case TranslateMonitorFieldsForHandler L h b c handler onExecution of
        (r, c', handler') \<Rightarrow> (r, set_limits t l c', handler'))"
proof -
  obtain r1 c1 h1 where v: "ValidateConmonPath L h c ''conmon'' (migrated b c handler) = (r1, c1, h1)"
    by (cases "ValidateConmonPath L h c ''conmon'' (migrated b c handler)")
  then have v': "ValidateConmonPath L h (set_limits t l c) ''conmon'' (migrated b c handler) =
                   (r1, set_limits t l c1, h1)"
    by (simp add: ValidateConmonPath_commute)
  show ?thesis
    unfolding TranslateMonitorFieldsForHandler_unfold migrated_set_limits
    using v v' by (cases r1) (simp_all add: set_limits_simps)
qed

lemma TranslateMonitorFields_commute:
  "TranslateMonitorFields L h b (set_limits t l c) onExecution keys =
     (fst (TranslateMonitorFields L h b c onExecution keys),
      set_limits t l (snd (TranslateMonitorFields L h b c onExecution keys)))"
proof (induction keys arbitrary: c)
  case Nil
  show ?case by simp
next
  case (Cons k keys)
  show ?case
  proof (cases "Runtimes c k")
    case None
    then show ?thesis
      using Cons.IH[of c] by (simp add: TranslateMonitorFields.simps(2) set_limits_simps)
  next
    case (Some hk)
    show ?thesis
    proof (cases "RuntimeType hk = DefaultRuntimeType \<or> RuntimeType hk = []")
      case False
      then show ?thesis
        using Some Cons.IH[of c] by (simp add: TranslateMonitorFields.simps(2) set_limits_simps)
    next
      case True
      obtain r c' hk' where t: "TranslateMonitorFieldsForHandler L h b c hk onExecution = (r, c', hk')"
        by (cases "TranslateMonitorFieldsForHandler L h b c hk onExecution")
      then have t': "TranslateMonitorFieldsForHandler L h b (set_limits t l c) hk onExecution =
                       (r, set_limits t l c', hk')"
        by (simp add: TranslateMonitorFieldsForHandler_commute)
      show ?thesis
        using Some True t t' Cons.IH[of "c'\<lparr>Runtimes := (Runtimes c')(k \<mapsto> hk')\<rparr>"]
        by (cases r) (simp_all add: TranslateMonitorFields.simps(2) set_limits_simps Let_def)
    qed
  qed
qed

lemma validate_each_commute:
  "validate_each L h b sched (set_limits t l c) keys failed =
     (case validate_each L h b sched c keys failed of
        (r, c', failed') \<Rightarrow> (r, set_limits t l c', failed'))"
proof (induction keys arbitrary: c failed)
  case Nil
  show ?case by simp
next
  case (Cons k keys)
  show ?case
  proof (cases "Runtimes c k")
    case None
    then show ?thesis using Cons.IH[of c failed] by (simp add: set_limits_simps)
  next
    case (Some hk)
    obtain r hk' where v: "RuntimeHandler_Validate L h b (range_annotations sched k) hk k = (r, hk')"
      by (cases "RuntimeHandler_Validate L h b (range_annotations sched k) hk k")
    let ?c' = "c\<lparr>Runtimes := (Runtimes c)(k \<mapsto> hk')\<rparr>"
    show ?thesis
    proof (cases r)
      case None
      then show ?thesis
        using Some v Cons.IH[of ?c' failed] by (simp add: set_limits_simps Let_def)
    next
      case (Some err)
      then show ?thesis
        using \<open>Runtimes c k = Some hk\<close> v Cons.IH[of ?c' "failed @ [k]"]
        by (simp add: set_limits_simps Let_def)
    qed
  qed
qed

lemma initializeRuntimeFeatures_commute:
  "initializeRuntimeFeatures L h (set_limits t l c) keys =
     (case initializeRuntimeFeatures L h c keys of (c', w) \<Rightarrow> (set_limits t l c', w))"
proof (induction keys arbitrary: c)
  case Nil
  show ?case by simp
next
  case (Cons k keys)
  show ?case
  proof (cases "Runtimes c k")
    case None
    then show ?thesis using Cons.IH[of c] by (simp add: set_limits_simps)
  next
    case (Some hk)
    show ?thesis
    proof (cases "CombinedOutput h (RuntimePath hk) [''features'']")
      case (Inl err)
      then show ?thesis
        using Some Cons.IH[of c] by (simp add: set_limits_simps split: prod.splits)
    next
      case (Inr out)
      show ?thesis
      proof (cases "Unmarshal_features L out")
        case (Inl err)
        then show ?thesis
          using Some Inr Cons.IH[of c] by (simp add: set_limits_simps split: prod.splits)
      next
        case (Inr f)
        then show ?thesis
          using Some \<open>CombinedOutput h (RuntimePath hk) [''features''] = Inr out\<close>
            Cons.IH[of "c\<lparr>Runtimes := (Runtimes c)(k \<mapsto> hk\<lparr>features := Some f\<rparr>)\<rparr>"]
          by (simp add: set_limits_simps split: prod.splits)
      qed
    qed
  qed
qed

lemma ValidateRuntimes_commute:
  "ValidateRuntimes L h b sched (set_limits t l c) =
     with_config (set_limits t l) (ValidateRuntimes L h b sched c)"
proof -
  obtain r c' failed where v: "validate_each L h b sched c (range_runtimes sched 0) [] = (r, c', failed)"
    by (cases "validate_each L h b sched c (range_runtimes sched 0) []")
  then have v': "validate_each L h b sched (set_limits t l c) (range_runtimes sched 0) [] =
                   (r, set_limits t l c', failed)"
    by (simp add: validate_each_commute)
  show ?thesis
  proof (cases r)
    case (Some err)
    then show ?thesis using v v' by (simp add: ValidateRuntimes_def with_config_def)
  next
    case None
    let ?c2 = "c'\<lparr>Runtimes := delete_each failed (Runtimes c')\<rparr>"
    obtain c3 w where i: "initializeRuntimeFeatures L h ?c2 (range_runtimes sched 1) = (c3, w)"
      by (cases "initializeRuntimeFeatures L h ?c2 (range_runtimes sched 1)")
    then have "initializeRuntimeFeatures L h (set_limits t l ?c2) (range_runtimes sched 1) =
                 (set_limits t l c3, w)"
      by (simp add: initializeRuntimeFeatures_commute)
    then show ?thesis
      using None v v' i by (simp add: ValidateRuntimes_def with_config_def set_limits_simps)
  qed
qed

lemma Validate_onExecution_commute:
  "Validate_onExecution L h b sched systemContext (set_limits t l c) =
     with_config (set_limits t l) (Validate_onExecution L h b sched systemContext c)"
  unfolding Validate_onExecution_def
proof (rule run_steps_commute)
  fix s c
  assume "s \<in> set
      [\<lambda>c. (case SetCgroupManager L (CgroupManagerName c) of
               Inl err \<Rightarrow> (Some (Errorf ''unable to update cgroup manager'' (LibError err)), c, [])
             | Inr m \<Rightarrow> (None, c\<lparr>cgroupManager := m\<rparr>, [])),
       \<lambda>c. (case ValidateRuntimes L h b sched c of
               (r, c', w) \<Rightarrow> (wrap ''runtime validation'' r, c', w)),
       \<lambda>c. check (wrap ''invalid registries'' (lib_error (GetRegistries L systemContext))) c,
       \<lambda>c. (case hooks_loop h (HooksDir c) [] of
               (hooksDirs, w) \<Rightarrow> (None, c\<lparr>HooksDir := hooksDirs\<rparr>, w)),
       \<lambda>c. (case ValidatePinnsPath L ''pinns'' (PinnsPath c) of
               (r, path) \<Rightarrow> (wrap ''pinns validation'' (lib_error r), c\<lparr>PinnsPath := path\<rparr>, [])),
       \<lambda>c. check (wrap ''initialize nsmgr'' (lib_error (nsmgr_Initialize L (NamespacesDir c, PinnsPath c))))
                 (c\<lparr>namespaceManager := (NamespacesDir c, PinnsPath c)\<rparr>),
       \<lambda>c. (if EnableCriuSupport c
             then (case validateCriuInPath h of
                     Some err \<Rightarrow>
                       (Some (Message ''cannot enable checkpoint/restore support without the criu binary in $PATH''),
                        c\<lparr>EnableCriuSupport := False\<rparr>, [])
                   | None \<Rightarrow> (None, c, []))
             else (None, c, [])),
       \<lambda>c. (case seccomp_LoadProfile L (SeccompProfile c) of
               None \<Rightarrow> (None, c, [])
             | Some err \<Rightarrow>
                 if \<not> Is_ErrNotExist (LibError err)
                 then (Some (Errorf ''unable to load seccomp profile'' (LibError err)), c, [])
                 else check (wrap ''load default seccomp profile'' (lib_error (seccomp_LoadDefaultProfile L))) c),
       \<lambda>c. check (wrap ''unable to load AppArmor profile'' (lib_error (apparmor_LoadProfile L (ApparmorProfile c)))) c,
       \<lambda>c. check (wrap ''blockio configuration'' (lib_error (blockio_Load L (BlockIOConfigFile c)))) c,
       \<lambda>c. check (wrap ''rdt configuration'' (lib_error (rdt_Load L (RdtConfigFile c)))) c]"
  then consider
      (cg) "s = (\<lambda>c. (case SetCgroupManager L (CgroupManagerName c) of
               Inl err \<Rightarrow> (Some (Errorf ''unable to update cgroup manager'' (LibError err)), c, [])
             | Inr m \<Rightarrow> (None, c\<lparr>cgroupManager := m\<rparr>, [])))"
    | (rt) "s = (\<lambda>c. (case ValidateRuntimes L h b sched c of
               (r, c', w) \<Rightarrow> (wrap ''runtime validation'' r, c', w)))"
    | (reg) "s = (\<lambda>c. check (wrap ''invalid registries'' (lib_error (GetRegistries L systemContext))) c)"
    | (hooks) "s = (\<lambda>c. (case hooks_loop h (HooksDir c) [] of
               (hooksDirs, w) \<Rightarrow> (None, c\<lparr>HooksDir := hooksDirs\<rparr>, w)))"
    | (pinns) "s = (\<lambda>c. (case ValidatePinnsPath L ''pinns'' (PinnsPath c) of
               (r, path) \<Rightarrow> (wrap ''pinns validation'' (lib_error r), c\<lparr>PinnsPath := path\<rparr>, [])))"
    | (ns) "s = (\<lambda>c. check (wrap ''initialize nsmgr'' (lib_error (nsmgr_Initialize L (NamespacesDir c, PinnsPath c))))
                 (c\<lparr>namespaceManager := (NamespacesDir c, PinnsPath c)\<rparr>))"
    | (criu) "s = (\<lambda>c. (if EnableCriuSupport c
             then (case validateCriuInPath h of
                     Some err \<Rightarrow>
                       (Some (Message ''cannot enable checkpoint/restore support without the criu binary in $PATH''),
                        c\<lparr>EnableCriuSupport := False\<rparr>, [])
                   | None \<Rightarrow> (None, c, []))
             else (None, c, [])))"
    | (seccomp) "s = (\<lambda>c. (case seccomp_LoadProfile L (SeccompProfile c) of
               None \<Rightarrow> (None, c, [])
             | Some err \<Rightarrow>
                 if \<not> Is_ErrNotExist (LibError err)
                 then (Some (Errorf ''unable to load seccomp profile'' (LibError err)), c, [])
                 else check (wrap ''load default seccomp profile'' (lib_error (seccomp_LoadDefaultProfile L))) c))"
    | (apparmor) "s = (\<lambda>c. check (wrap ''unable to load AppArmor profile'' (lib_error (apparmor_LoadProfile L (ApparmorProfile c)))) c)"
    | (blockio) "s = (\<lambda>c. check (wrap ''blockio configuration'' (lib_error (blockio_Load L (BlockIOConfigFile c)))) c)"
    | (rdt) "s = (\<lambda>c. check (wrap ''rdt configuration'' (lib_error (rdt_Load L (RdtConfigFile c)))) c)"
    by (simp only: set_simps insert_iff empty_iff) blast
  then show "s (set_limits t l c) = with_config (set_limits t l) (s c)"
  proof cases
    case cg
    then show ?thesis by (simp add: set_limits_def with_config_def split: sum.splits)
  next
    case rt
    then show ?thesis
      by (simp add: ValidateRuntimes_commute) (simp add: with_config_def split: prod.splits)
  next
    case reg
    then show ?thesis by (simp add: check_def with_config_def)
  next
    case hooks
    then show ?thesis by (simp add: set_limits_def with_config_def split: prod.splits)
  next
    case pinns
    then show ?thesis by (simp add: set_limits_def with_config_def split: prod.splits)
  next
    case ns
    then show ?thesis by (simp add: set_limits_def check_def with_config_def)
  next
    case criu
    then show ?thesis by (simp add: set_limits_def with_config_def split: option.splits)
  next
    case seccomp
    then show ?thesis by (simp add: set_limits_def check_def with_config_def split: option.splits)
  next
    case apparmor
    then show ?thesis by (simp add: set_limits_def check_def with_config_def)
  next
    case blockio
    then show ?thesis by (simp add: set_limits_def check_def with_config_def)
  next
    case rdt
    then show ?thesis by (simp add: set_limits_def check_def with_config_def)
  qed
qed

section \<open>The limits in \<open>RuntimeConfig.Validate\<close>\<close>

lemma Validate_split:
  "Validate L h b sched c systemContext onExecution =
     run_steps (before_limits L h b @ [Validate_LogSizeMax, Validate_CtrStopTimeout] @
                after_limits L h b sched systemContext onExecution) c"
  by (simp add: Validate_def before_limits_def after_limits_def)

lemma before_limits_commute:
  assumes "s \<in> set (before_limits L h b)"
  shows "s (set_limits t l c) = with_config (set_limits t l) (s c)"
proof -
  from assms consider
      "s = (\<lambda>c. check (lib_error (LoadUlimits L (DefaultUlimits c))) c)"
    | "s = (\<lambda>c. check (lib_error (LoadDevices L (AdditionalDevices c))) c)"
    | "s = (\<lambda>c. (case ValidateDefaultRuntime b c of (r, c') \<Rightarrow> (r, c', [])))"
    | "s = Validate_Timezone L h"
    unfolding before_limits_def by (simp only: set_simps insert_iff empty_iff) blast
  then show ?thesis
  proof cases
    case 1
    then show ?thesis by (simp add: check_def with_config_def set_limits_def)
  next
    case 2
    then show ?thesis by (simp add: check_def with_config_def set_limits_def)
  next
    case 3
    then show ?thesis
      by (simp add: ValidateDefaultRuntime_commute) (simp add: with_config_def split: prod.splits)
  next
    case 4
    then show ?thesis by (simp add: Validate_Timezone_commute)
  qed
qed

lemma after_limits_commute:
  assumes "s \<in> set (after_limits L h b sched systemContext onExecution)"
  shows "s (set_limits t l c) = with_config (set_limits t l) (s c)"
proof -
  from assms consider
      "s = (\<lambda>c. check (wrap ''invalid default_sysctls'' (lib_error (Sysctls L (DefaultSysctls c)))) c)"
    | "s = (\<lambda>c. check (wrap ''invalid capabilities'' (lib_error (Capabilities_Validate L (DefaultCapabilities c)))) c)"
    | "s = Validate_InfraCtrCPUSet L h"
    | "s = (\<lambda>c. check (wrap ''workloads validation'' (lib_error (Workloads_Validate L (Workloads c)))) c)"
    | "s = (\<lambda>c. (if onExecution then Validate_onExecution L h b sched systemContext c
             else (None, c, [])))"
    | "s = (\<lambda>c. (case TranslateMonitorFields L h b c onExecution (range_runtimes sched 2) of
               (r, c') \<Rightarrow> (wrap ''monitor fields translation'' r, c', [])))"
    unfolding after_limits_def by (simp only: set_simps insert_iff empty_iff) blast
  then show ?thesis
  proof cases
    case 1
    then show ?thesis by (simp add: check_def with_config_def set_limits_def)
  next
    case 2
    then show ?thesis by (simp add: check_def with_config_def set_limits_def)
  next
    case 3
    then show ?thesis by (simp add: Validate_InfraCtrCPUSet_commute)
  next
    case 4
    then show ?thesis by (simp add: check_def with_config_def set_limits_def)
  next
    case 5
    then show ?thesis
      by (cases onExecution) (simp_all add: Validate_onExecution_commute, simp add: with_config_def)
  next
    case 6
    then show ?thesis
      by (simp add: TranslateMonitorFields_commute) (simp add: with_config_def split: prod.splits)
  qed
qed

lemma wrap_never: "wrap text r \<noteq> Some LogSizeMaxTooSmall"
  by (simp add: wrap_def split: option.splits)

lemma lib_error_never: "lib_error r \<noteq> Some LogSizeMaxTooSmall"
  by (simp add: lib_error_def split: option.splits)

lemma before_limits_never:
  assumes "s \<in> set (before_limits L h b)"
  shows "fst (s c) \<noteq> Some LogSizeMaxTooSmall"
proof -
  from assms consider
      "s = (\<lambda>c. check (lib_error (LoadUlimits L (DefaultUlimits c))) c)"
    | "s = (\<lambda>c. check (lib_error (LoadDevices L (AdditionalDevices c))) c)"
    | "s = (\<lambda>c. (case ValidateDefaultRuntime b c of (r, c') \<Rightarrow> (r, c', [])))"
    | "s = Validate_Timezone L h"
    unfolding before_limits_def by (simp only: set_simps insert_iff empty_iff) blast
  then show ?thesis
  proof cases
    case 1
    then show ?thesis by (simp add: check_def lib_error_never)
  next
    case 2
    then show ?thesis by (simp add: check_def lib_error_never)
  next
    case 3
    then show ?thesis by (simp add: ValidateDefaultRuntime_def Let_def)
  next
    case 4
    then show ?thesis by (simp add: Validate_Timezone_def split: option.splits)
  qed
qed

lemma Validate_onExecution_never:
  "fst (Validate_onExecution L h b sched systemContext c) \<noteq> Some LogSizeMaxTooSmall"
  unfolding Validate_onExecution_def
proof (rule run_steps_never)
  fix s c
  assume "s \<in> set
      [\<lambda>c. (case SetCgroupManager L (CgroupManagerName c) of
               Inl err \<Rightarrow> (Some (Errorf ''unable to update cgroup manager'' (LibError err)), c, [])
             | Inr m \<Rightarrow> (None, c\<lparr>cgroupManager := m\<rparr>, [])),
       \<lambda>c. (case ValidateRuntimes L h b sched c of
               (r, c', w) \<Rightarrow> (wrap ''runtime validation'' r, c', w)),
       \<lambda>c. check (wrap ''invalid registries'' (lib_error (GetRegistries L systemContext))) c,
       \<lambda>c. (case hooks_loop h (HooksDir c) [] of
               (hooksDirs, w) \<Rightarrow> (None, c\<lparr>HooksDir := hooksDirs\<rparr>, w)),
       \<lambda>c. (case ValidatePinnsPath L ''pinns'' (PinnsPath c) of
               (r, path) \<Rightarrow> (wrap ''pinns validation'' (lib_error r), c\<lparr>PinnsPath := path\<rparr>, [])),
       \<lambda>c. check (wrap ''initialize nsmgr'' (lib_error (nsmgr_Initialize L (NamespacesDir c, PinnsPath c))))
                 (c\<lparr>namespaceManager := (NamespacesDir c, PinnsPath c)\<rparr>),
       \<lambda>c. (if EnableCriuSupport c
             then (case validateCriuInPath h of
                     Some err \<Rightarrow>
                       (Some (Message ''cannot enable checkpoint/restore support without the criu binary in $PATH''),
                        c\<lparr>EnableCriuSupport := False\<rparr>, [])
                   | None \<Rightarrow> (None, c, []))
             else (None, c, [])),
       \<lambda>c. (case seccomp_LoadProfile L (SeccompProfile c) of
               None \<Rightarrow> (None, c, [])
             | Some err \<Rightarrow>
                 if \<not> Is_ErrNotExist (LibError err)
                 then (Some (Errorf ''unable to load seccomp profile'' (LibError err)), c, [])
                 else check (wrap ''load default seccomp profile'' (lib_error (seccomp_LoadDefaultProfile L))) c),
       \<lambda>c. check (wrap ''unable to load AppArmor profile'' (lib_error (apparmor_LoadProfile L (ApparmorProfile c)))) c,
       \<lambda>c. check (wrap ''blockio configuration'' (lib_error (blockio_Load L (BlockIOConfigFile c)))) c,
       \<lambda>c. check (wrap ''rdt configuration'' (lib_error (rdt_Load L (RdtConfigFile c)))) c]"
  then show "fst (s c) \<noteq> Some LogSizeMaxTooSmall"
    by (auto simp: check_def wrap_never split: sum.splits prod.splits option.splits if_splits)
qed

lemma after_limits_never:
  assumes "s \<in> set (after_limits L h b sched systemContext onExecution)"
  shows "fst (s c) \<noteq> Some LogSizeMaxTooSmall"
proof -
  from assms consider
      "s = (\<lambda>c. check (wrap ''invalid default_sysctls'' (lib_error (Sysctls L (DefaultSysctls c)))) c)"
    | "s = (\<lambda>c. check (wrap ''invalid capabilities'' (lib_error (Capabilities_Validate L (DefaultCapabilities c)))) c)"
    | "s = Validate_InfraCtrCPUSet L h"
    | "s = (\<lambda>c. check (wrap ''workloads validation'' (lib_error (Workloads_Validate L (Workloads c)))) c)"
    | "s = (\<lambda>c. (if onExecution then Validate_onExecution L h b sched systemContext c
             else (None, c, [])))"
    | "s = (\<lambda>c. (case TranslateMonitorFields L h b c onExecution (range_runtimes sched 2) of
               (r, c') \<Rightarrow> (wrap ''monitor fields translation'' r, c', [])))"
    unfolding after_limits_def by (simp only: set_simps insert_iff empty_iff) blast
  then show ?thesis
  proof cases
    case 1
    then show ?thesis by (simp add: check_def wrap_never)
  next
    case 2
    then show ?thesis by (simp add: check_def wrap_never)
  next
    case 3
    then show ?thesis by (simp add: Validate_InfraCtrCPUSet_def split: sum.splits)
  next
    case 4
    then show ?thesis by (simp add: check_def wrap_never)
  next
    case 5
    then show ?thesis by (simp add: Validate_onExecution_never)
  next
    case 6
    then show ?thesis by (simp add: wrap_never split: prod.splits)
  qed
qed

lemma sint_constants: "sint OCIBufSize = 8192" "sint defaultCtrStopTimeout = 30"
  by (simp_all add: OCIBufSize_def defaultCtrStopTimeout_def)

lemma set_limits_same: "set_limits (CtrStopTimeout c) (LogSizeMax c) c = c"
  by (simp add: set_limits_def)

lemma before_limits_run_commute:
  "run_steps (before_limits L h b) (set_limits t l c) =
     with_config (set_limits t l) (run_steps (before_limits L h b) c)"
  by (rule run_steps_commute) (rule before_limits_commute)

lemma after_limits_run_commute:
  "run_steps (after_limits L h b sched systemContext onExecution) (set_limits t l c) =
     with_config (set_limits t l) (run_steps (after_limits L h b sched systemContext onExecution) c)"
  by (rule run_steps_commute) (rule after_limits_commute)

lemma before_limits_keeps:
  assumes "run_steps (before_limits L h b) c = (r, c1, w)"
  shows "CtrStopTimeout c1 = CtrStopTimeout c" and "LogSizeMax c1 = LogSizeMax c"
proof -
  have "run_steps (before_limits L h b) (set_limits (CtrStopTimeout c) (LogSizeMax c) c) =
        (r, set_limits (CtrStopTimeout c) (LogSizeMax c) c1, w)"
    unfolding before_limits_run_commute using assms by (simp add: with_config_def)
  then have "c1 = set_limits (CtrStopTimeout c) (LogSizeMax c) c1"
    unfolding set_limits_same using assms by simp
  then have "CtrStopTimeout c1 = CtrStopTimeout (set_limits (CtrStopTimeout c) (LogSizeMax c) c1)"
    and "LogSizeMax c1 = LogSizeMax (set_limits (CtrStopTimeout c) (LogSizeMax c) c1)"
    by simp_all
  then show "CtrStopTimeout c1 = CtrStopTimeout c" and "LogSizeMax c1 = LogSizeMax c"
    by (simp_all only: set_limits_simps)
qed

lemma after_limits_keeps:
  assumes "run_steps (after_limits L h b sched systemContext onExecution) c = (r, c1, w)"
  shows "CtrStopTimeout c1 = CtrStopTimeout c" and "LogSizeMax c1 = LogSizeMax c"
proof -
  have "run_steps (after_limits L h b sched systemContext onExecution)
          (set_limits (CtrStopTimeout c) (LogSizeMax c) c) =
        (r, set_limits (CtrStopTimeout c) (LogSizeMax c) c1, w)"
    unfolding after_limits_run_commute using assms by (simp add: with_config_def)
  then have "c1 = set_limits (CtrStopTimeout c) (LogSizeMax c) c1"
    unfolding set_limits_same using assms by simp
  then have "CtrStopTimeout c1 = CtrStopTimeout (set_limits (CtrStopTimeout c) (LogSizeMax c) c1)"
    and "LogSizeMax c1 = LogSizeMax (set_limits (CtrStopTimeout c) (LogSizeMax c) c1)"
    by simp_all
  then show "CtrStopTimeout c1 = CtrStopTimeout c" and "LogSizeMax c1 = LogSizeMax c"
    by (simp_all only: set_limits_simps)
qed

lemma before_limits_pass:
  "fst (run_steps (before_limits L h b) c) = None \<longleftrightarrow> earlier_checks_pass L h b c"
proof -
  obtain r c' where v: "ValidateDefaultRuntime b c = (r, c')"
    by (cases "ValidateDefaultRuntime b c")
  then have tz: "Timezone c' = Timezone c"
    by (auto simp: ValidateDefaultRuntime_def Let_def split: if_splits)
  show ?thesis
    using v tz
    by (cases "LoadUlimits L (DefaultUlimits c)"; cases "LoadDevices L (AdditionalDevices c)"; cases r;
        cases "LoadLocation h (Timezone c)")
       (simp_all add: before_limits_def earlier_checks_pass_def check_def lib_error_def
          Validate_Timezone_def)
qed

text \<open>The shape of \<open>Validate\<close> around the two limits.\<close>

lemma Validate_form:
  assumes "run_steps (before_limits L h b) c = (r0, c1, w0)"
  shows "Validate L h b sched c systemContext onExecution =
     (case r0 of
        Some err \<Rightarrow> (Some err, c1, w0)
      | None \<Rightarrow>
          if 0 \<le> sint (LogSizeMax c) \<and> sint (LogSizeMax c) < 8192
          then (Some LogSizeMaxTooSmall, c1, w0)
          else (case run_steps (after_limits L h b sched systemContext onExecution)
                       (c1\<lparr>CtrStopTimeout :=
                             if sint (CtrStopTimeout c) < 30 then 30 else CtrStopTimeout c\<rparr>) of
                  (r, c2, w) \<Rightarrow> (r, c2, w0 @ w)))"
proof (cases r0)
  case (Some err)
  then show ?thesis
    using assms by (simp add: Validate_split run_steps_append)
next
  case None
  note k = before_limits_keeps[OF assms]
  show ?thesis
  proof (cases "0 \<le> sint (LogSizeMax c) \<and> sint (LogSizeMax c) < 8192")
    case True
    then show ?thesis
      using assms None k
      by (simp add: Validate_split run_steps_append[of "before_limits L h b"]
            Validate_LogSizeMax_def sint_constants)
  next
    case False
    define c1' where
      "c1' = c1\<lparr>CtrStopTimeout := if sint (CtrStopTimeout c) < 30 then 30 else CtrStopTimeout c\<rparr>"
    have same: "c1\<lparr>CtrStopTimeout := CtrStopTimeout c\<rparr> = c1"
      using k(1) by simp
    have floor: "Validate_CtrStopTimeout c1 = (None, c1', [])"
      unfolding c1'_def
      using k(1) same by (simp add: Validate_CtrStopTimeout_def sint_constants defaultCtrStopTimeout_def)
    have lsm: "Validate_LogSizeMax c1 = (None, c1, [])"
      using False k(2) by (simp add: Validate_LogSizeMax_def sint_constants)
    obtain r c2 w where a: "run_steps (after_limits L h b sched systemContext onExecution) c1' = (r, c2, w)"
      by (cases "run_steps (after_limits L h b sched systemContext onExecution) c1'")
    have mid: "run_steps ([Validate_LogSizeMax, Validate_CtrStopTimeout] @
                 after_limits L h b sched systemContext onExecution) c1 = (r, c2, w)"
      using lsm floor a by simp
    have "Validate L h b sched c systemContext onExecution = (r, c2, w0 @ w)"
      using assms None mid
      by (simp add: Validate_split run_steps_append[of "before_limits L h b"])
    moreover have "run_steps (after_limits L h b sched systemContext onExecution)
             (c1\<lparr>CtrStopTimeout := if sint (CtrStopTimeout c) < 30 then 30 else CtrStopTimeout c\<rparr>) =
           (r, c2, w)"
      using a unfolding c1'_def .
    ultimately show ?thesis
      unfolding None by (simp only: option.case if_not_P[OF False] prod.case)
  qed
qed

text \<open>
  The error of \<open>Validate\<close> as a function of the two limits: the stop timeout plays no
  part in it, and the log size only through the test against the buffer size.
\<close>

lemma Validate_error:
  assumes "run_steps (before_limits L h b) c = (r0, c1, w0)"
  shows "fst (Validate L h b sched (set_limits t l c) systemContext onExecution) =
     (case r0 of
        Some err \<Rightarrow> Some err
      | None \<Rightarrow>
          if 0 \<le> sint l \<and> sint l < 8192 then Some LogSizeMaxTooSmall
          else fst (run_steps (after_limits L h b sched systemContext onExecution) c1))"
proof -
  have b: "run_steps (before_limits L h b) (set_limits t l c) = (r0, set_limits t l c1, w0)"
    unfolding before_limits_run_commute using assms by (simp add: with_config_def)
  have u: "(set_limits t l c1)\<lparr>CtrStopTimeout := a\<rparr> = set_limits a l c1" for a
    by (simp add: set_limits_def)
  have a: "fst (run_steps (after_limits L h b sched systemContext onExecution) (set_limits a l c1)) =
        fst (run_steps (after_limits L h b sched systemContext onExecution) c1)" for a
    unfolding after_limits_run_commute by (simp add: with_config_def split: prod.splits)
  have f: "fst (case x of (r, c2, w) \<Rightarrow> (r, c2, w0 @ w)) = fst x" for x
    by (cases x) simp
  show ?thesis
  proof (cases r0)
    case (Some err)
    then show ?thesis unfolding Validate_form[OF b] by simp
  next
    case None
    show ?thesis
    proof (cases "0 \<le> sint l \<and> sint l < 8192")
      case True
      then show ?thesis
        unfolding Validate_form[OF b] None set_limits_simps by simp
    next
      case False
      show ?thesis
        unfolding Validate_form[OF b] None set_limits_simps u
        by (simp only: option.case if_not_P[OF False] f a)
    qed
  qed
qed

lemma Validate_timeout:
  assumes "run_steps (before_limits L h b) c = (None, c1, w0)"
    and "\<not> (0 \<le> sint (LogSizeMax c) \<and> sint (LogSizeMax c) < 8192)"
  shows "CtrStopTimeout (fst (snd (Validate L h b sched c systemContext onExecution))) =
           (if sint (CtrStopTimeout c) < 30 then 30 else CtrStopTimeout c)"
proof -
  let ?c1 = "c1\<lparr>CtrStopTimeout := if sint (CtrStopTimeout c) < 30 then 30 else CtrStopTimeout c\<rparr>"
  obtain r c2 w where a: "run_steps (after_limits L h b sched systemContext onExecution) ?c1 = (r, c2, w)"
    by (cases "run_steps (after_limits L h b sched systemContext onExecution) ?c1")
  have "Validate L h b sched c systemContext onExecution = (r, c2, w0 @ w)"
    unfolding Validate_form[OF assms(1)] using a
    by (simp only: option.case if_not_P[OF assms(2)] prod.case)
  moreover have "CtrStopTimeout c2 = CtrStopTimeout ?c1"
    by (rule after_limits_keeps(1)[OF a])
  ultimately show ?thesis by simp
qed

lemma Validate_stopped:
  assumes "run_steps (before_limits L h b) c = (r0, c1, w0)"
    and "r0 \<noteq> None \<or> (0 \<le> sint (LogSizeMax c) \<and> sint (LogSizeMax c) < 8192)"
  shows "CtrStopTimeout (fst (snd (Validate L h b sched c systemContext onExecution))) = CtrStopTimeout c"
proof -
  have k: "CtrStopTimeout c1 = CtrStopTimeout c"
    by (rule before_limits_keeps(1)[OF assms(1)])
  show ?thesis
  proof (cases r0)
    case (Some err)
    then show ?thesis unfolding Validate_form[OF assms(1)] using k by simp
  next
    case None
    with assms(2) have "0 \<le> sint (LogSizeMax c) \<and> sint (LogSizeMax c) < 8192" by simp
    then show ?thesis unfolding Validate_form[OF assms(1)] using k None by simp
  qed
qed

text \<open>
  C6. \<open>Validate\<close> returns the error about the log size exactly when the checks before it
  pass and \<open>LogSizeMax\<close> is non-negative and below 8192; with such a value validation
  always fails; and a value that is negative or at least 8192 has no influence on
  whether, and with which error, validation fails.
\<close>

theorem log_size_max_check:
  "(fst (Validate L h b sched c systemContext onExecution) = Some LogSizeMaxTooSmall \<longleftrightarrow>
      earlier_checks_pass L h b c \<and> 0 \<le> sint (LogSizeMax c) \<and> sint (LogSizeMax c) < 8192) \<and>
   (0 \<le> sint (LogSizeMax c) \<and> sint (LogSizeMax c) < 8192 \<longrightarrow>
      fst (Validate L h b sched c systemContext onExecution) \<noteq> None) \<and>
   ((sint v < 0 \<or> 8192 \<le> sint v) \<and> (sint v' < 0 \<or> 8192 \<le> sint v') \<longrightarrow>
      fst (Validate L h b sched (c\<lparr>LogSizeMax := v\<rparr>) systemContext onExecution) =
      fst (Validate L h b sched (c\<lparr>LogSizeMax := v'\<rparr>) systemContext onExecution))"
proof -
  obtain r0 c1 w0 where b: "run_steps (before_limits L h b) c = (r0, c1, w0)"
    by (cases "run_steps (before_limits L h b) c")
  have pass: "earlier_checks_pass L h b c \<longleftrightarrow> r0 = None"
    using before_limits_pass[of L h b c] b by simp
  have r0: "r0 \<noteq> Some LogSizeMaxTooSmall"
    using run_steps_never[of "before_limits L h b" LogSizeMaxTooSmall c] before_limits_never b
    by fastforce
  have after: "fst (run_steps (after_limits L h b sched systemContext onExecution) c1) \<noteq>
               Some LogSizeMaxTooSmall"
    by (rule run_steps_never) (rule after_limits_never)
  have e: "fst (Validate L h b sched (set_limits t l c) systemContext onExecution) =
     (case r0 of
        Some err \<Rightarrow> Some err
      | None \<Rightarrow>
          if 0 \<le> sint l \<and> sint l < 8192 then Some LogSizeMaxTooSmall
          else fst (run_steps (after_limits L h b sched systemContext onExecution) c1))" for t l
    by (rule Validate_error[OF b])
  have here: "fst (Validate L h b sched c systemContext onExecution) =
     (case r0 of
        Some err \<Rightarrow> Some err
      | None \<Rightarrow>
          if 0 \<le> sint (LogSizeMax c) \<and> sint (LogSizeMax c) < 8192 then Some LogSizeMaxTooSmall
          else fst (run_steps (after_limits L h b sched systemContext onExecution) c1))"
    using e[of "CtrStopTimeout c" "LogSizeMax c"] by (simp only: set_limits_same)
  have upd: "c\<lparr>LogSizeMax := x\<rparr> = set_limits (CtrStopTimeout c) x c" for x
    by (simp add: set_limits_def)
  show ?thesis
  proof (intro conjI impI)
    show "fst (Validate L h b sched c systemContext onExecution) = Some LogSizeMaxTooSmall \<longleftrightarrow>
      earlier_checks_pass L h b c \<and> 0 \<le> sint (LogSizeMax c) \<and> sint (LogSizeMax c) < 8192"
      unfolding here pass using r0 after by (cases r0) auto
  next
    assume "0 \<le> sint (LogSizeMax c) \<and> sint (LogSizeMax c) < 8192"
    then show "fst (Validate L h b sched c systemContext onExecution) \<noteq> None"
      unfolding here by (cases r0) simp_all
  next
    assume "(sint v < 0 \<or> 8192 \<le> sint v) \<and> (sint v' < 0 \<or> 8192 \<le> sint v')"
    then have n: "\<not> (0 \<le> sint v \<and> sint v < 8192)" "\<not> (0 \<le> sint v' \<and> sint v' < 8192)"
      by auto
    show "fst (Validate L h b sched (c\<lparr>LogSizeMax := v\<rparr>) systemContext onExecution) =
      fst (Validate L h b sched (c\<lparr>LogSizeMax := v'\<rparr>) systemContext onExecution)"
      unfolding upd e by (simp only: if_not_P[OF n(1)] if_not_P[OF n(2)])
  qed
qed

text \<open>
  C5, amended. The stop timeout plays no part in whether, and with which error,
  \<open>Validate\<close> fails. After a validation without error, and whenever the statements that
  come before the floor pass (the four earlier checks and the check of \<open>LogSizeMax\<close>),
  \<open>CtrStopTimeout\<close> is 30 if it was below 30 and is unchanged otherwise. When one of
  those statements fails, \<open>Validate\<close> returns before the floor and \<open>CtrStopTimeout\<close> is
  left as it was, below 30 or not.
\<close>

theorem ctr_stop_timeout_floor:
  "fst (Validate L h b sched (c\<lparr>CtrStopTimeout := t\<rparr>) systemContext onExecution) =
     fst (Validate L h b sched c systemContext onExecution) \<and>
   (fst (Validate L h b sched c systemContext onExecution) = None \<longrightarrow>
      CtrStopTimeout (fst (snd (Validate L h b sched c systemContext onExecution))) =
        (if sint (CtrStopTimeout c) < 30 then 30 else CtrStopTimeout c)) \<and>
   (earlier_checks_pass L h b c \<and> \<not> (0 \<le> sint (LogSizeMax c) \<and> sint (LogSizeMax c) < 8192) \<longrightarrow>
      CtrStopTimeout (fst (snd (Validate L h b sched c systemContext onExecution))) =
        (if sint (CtrStopTimeout c) < 30 then 30 else CtrStopTimeout c)) \<and>
   (\<not> earlier_checks_pass L h b c \<or> (0 \<le> sint (LogSizeMax c) \<and> sint (LogSizeMax c) < 8192) \<longrightarrow>
      CtrStopTimeout (fst (snd (Validate L h b sched c systemContext onExecution))) = CtrStopTimeout c)"
proof -
  obtain r0 c1 w0 where b: "run_steps (before_limits L h b) c = (r0, c1, w0)"
    by (cases "run_steps (before_limits L h b) c")
  have pass: "earlier_checks_pass L h b c \<longleftrightarrow> r0 = None"
    using before_limits_pass[of L h b c] b by simp
  have e: "fst (Validate L h b sched (set_limits t l c) systemContext onExecution) =
     (case r0 of
        Some err \<Rightarrow> Some err
      | None \<Rightarrow>
          if 0 \<le> sint l \<and> sint l < 8192 then Some LogSizeMaxTooSmall
          else fst (run_steps (after_limits L h b sched systemContext onExecution) c1))" for t l
    by (rule Validate_error[OF b])
  have upd: "c\<lparr>CtrStopTimeout := x\<rparr> = set_limits x (LogSizeMax c) c" for x
    by (simp add: set_limits_def)
  have same: "fst (Validate L h b sched (c\<lparr>CtrStopTimeout := t\<rparr>) systemContext onExecution) =
     fst (Validate L h b sched c systemContext onExecution)"
    using e[of t "LogSizeMax c"] e[of "CtrStopTimeout c" "LogSizeMax c"]
    by (simp only: upd set_limits_same)
  have floor: "CtrStopTimeout (fst (snd (Validate L h b sched c systemContext onExecution))) =
        (if sint (CtrStopTimeout c) < 30 then 30 else CtrStopTimeout c)"
    if "r0 = None" "\<not> (0 \<le> sint (LogSizeMax c) \<and> sint (LogSizeMax c) < 8192)"
    using Validate_timeout[of L h b c c1 w0] b that by simp
  have ok: "r0 = None \<and> \<not> (0 \<le> sint (LogSizeMax c) \<and> sint (LogSizeMax c) < 8192)"
    if "fst (Validate L h b sched c systemContext onExecution) = None"
    using that e[of "CtrStopTimeout c" "LogSizeMax c"]
    by (cases r0) (simp_all only: set_limits_same option.case split: if_splits, simp_all)
  have stopped: "CtrStopTimeout (fst (snd (Validate L h b sched c systemContext onExecution))) =
        CtrStopTimeout c"
    if "r0 \<noteq> None \<or> (0 \<le> sint (LogSizeMax c) \<and> sint (LogSizeMax c) < 8192)"
    by (rule Validate_stopped[OF b that])
  show ?thesis
  proof (intro conjI impI)
    show "fst (Validate L h b sched (c\<lparr>CtrStopTimeout := t\<rparr>) systemContext onExecution) =
      fst (Validate L h b sched c systemContext onExecution)"
      by (rule same)
  next
    assume "fst (Validate L h b sched c systemContext onExecution) = None"
    then show "CtrStopTimeout (fst (snd (Validate L h b sched c systemContext onExecution))) =
        (if sint (CtrStopTimeout c) < 30 then 30 else CtrStopTimeout c)"
      using ok floor by simp
  next
    assume "earlier_checks_pass L h b c \<and> \<not> (0 \<le> sint (LogSizeMax c) \<and> sint (LogSizeMax c) < 8192)"
    then show "CtrStopTimeout (fst (snd (Validate L h b sched c systemContext onExecution))) =
        (if sint (CtrStopTimeout c) < 30 then 30 else CtrStopTimeout c)"
      using pass floor by simp
  next
    assume "\<not> earlier_checks_pass L h b c \<or> (0 \<le> sint (LogSizeMax c) \<and> sint (LogSizeMax c) < 8192)"
    then have "r0 \<noteq> None \<or> (0 \<le> sint (LogSizeMax c) \<and> sint (LogSizeMax c) < 8192)"
      using pass by simp
    then show "CtrStopTimeout (fst (snd (Validate L h b sched c systemContext onExecution))) =
        CtrStopTimeout c"
      by (rule stopped)
  qed
qed

lemma example_earlier_checks:
  "earlier_checks_pass example_lib h example_builtin (example_runtime\<lparr>LogSizeMax := l\<rparr>)"
  by (simp add: earlier_checks_pass_def example_lib_def example_runtime_def ValidateDefaultRuntime_def)

lemma example_before:
  "run_steps (before_limits example_lib h example_builtin) example_runtime = (None, example_runtime, [])"
  by (simp add: before_limits_def check_def lib_error_def example_lib_def ValidateDefaultRuntime_def
        Validate_Timezone_def example_runtime_def)

lemma example_translate:
  "TranslateMonitorFields example_lib h example_builtin example_runtime False [''runc'', ''kata'', ''ghost''] =
     (None, example_runtime)"
proof -
  have m: "migrated example_builtin example_runtime (defaultRuntimeHandler example_builtin) =
           defaultRuntimeHandler example_builtin"
    by (simp add: migrated_def example_runtime_def defaultRuntimeHandler_def example_builtin_def)
  have r: "Runtimes example_runtime = [''runc'' \<mapsto> defaultRuntimeHandler example_builtin]"
    by (simp add: example_runtime_def)
  have u: "example_runtime\<lparr>Runtimes := [''runc'' \<mapsto> defaultRuntimeHandler example_builtin]\<rparr> = example_runtime"
    by (simp add: example_runtime_def)
  have t: "RuntimeType (defaultRuntimeHandler example_builtin) = DefaultRuntimeType"
    by (simp add: defaultRuntimeHandler_def)
  show ?thesis
    by (simp add: TranslateMonitorFields.simps(2) r t TranslateMonitorFieldsForHandler_unfold m u)
qed

lemma example_after:
  "fst (run_steps (after_limits example_lib h example_builtin example_schedule () False) example_runtime) = None"
proof -
  have i: "InfraCtrCPUSet example_runtime = []" by (simp add: example_runtime_def)
  have k: "range_runtimes example_schedule 2 = [''runc'', ''kata'', ''ghost'']"
    by (simp add: example_schedule_def)
  show ?thesis
    by (simp add: after_limits_def check_def wrap_def lib_error_def example_lib_def
          Validate_InfraCtrCPUSet_def i k example_translate[unfolded example_lib_def])
qed

lemma example_validate:
  "fst (Validate example_lib h example_builtin example_schedule
          (set_limits t l example_runtime) () False) =
     (if 0 \<le> sint l \<and> sint l < 8192 then Some LogSizeMaxTooSmall else None)"
  unfolding Validate_error[OF example_before] by (simp add: example_after)

text \<open>The examples of C6: 100 fails, \<open>-1\<close> and 9000 pass.\<close>

theorem log_size_max_check_witness:
  "fst (Validate example_lib no_host example_builtin example_schedule
          (example_runtime\<lparr>LogSizeMax := 100\<rparr>) () False) = Some LogSizeMaxTooSmall \<and>
   fst (Validate example_lib no_host example_builtin example_schedule
          (example_runtime\<lparr>LogSizeMax := - 1\<rparr>) () False) = None \<and>
   fst (Validate example_lib no_host example_builtin example_schedule
          (example_runtime\<lparr>LogSizeMax := 9000\<rparr>) () False) = None"
proof -
  have s: "sint (100 :: int64) = 100" "sint (- 1 :: int64) = - 1" "sint (9000 :: int64) = 9000"
    by simp_all
  have upd: "example_runtime\<lparr>LogSizeMax := x\<rparr> = set_limits (CtrStopTimeout example_runtime) x example_runtime" for x
    by (simp add: set_limits_def)
  have 1: "fst (Validate example_lib no_host example_builtin example_schedule
          (example_runtime\<lparr>LogSizeMax := 100\<rparr>) () False) = Some LogSizeMaxTooSmall"
    using log_size_max_check[where L = example_lib and h = no_host and b = example_builtin
            and sched = example_schedule and c = "example_runtime\<lparr>LogSizeMax := 100\<rparr>"
            and systemContext = "()" and onExecution = False, THEN conjunct1]
          example_earlier_checks[of no_host 100]
    by (simp add: s)
  have 2: "fst (Validate example_lib no_host example_builtin example_schedule
          (example_runtime\<lparr>LogSizeMax := - 1\<rparr>) () False) = None"
    unfolding upd example_validate by (simp add: s)
  have "fst (Validate example_lib no_host example_builtin example_schedule
          (example_runtime\<lparr>LogSizeMax := 9000\<rparr>) () False) =
        fst (Validate example_lib no_host example_builtin example_schedule
          (example_runtime\<lparr>LogSizeMax := - 1\<rparr>) () False)"
    using log_size_max_check[where L = example_lib and h = no_host and b = example_builtin
            and sched = example_schedule and c = example_runtime
            and systemContext = "()" and onExecution = False and v = 9000 and v' = "- 1",
            THEN conjunct2, THEN conjunct2]
    by (simp add: s)
  with 1 2 show ?thesis by simp
qed

lemma example_rejected:
  "Validate example_lib no_host example_builtin example_schedule
     (example_runtime\<lparr>LogSizeMax := 100, CtrStopTimeout := 5\<rparr>) () False =
   (Some LogSizeMaxTooSmall, example_runtime\<lparr>LogSizeMax := 100, CtrStopTimeout := 5\<rparr>, [])"
proof -
  have b: "run_steps (before_limits example_lib no_host example_builtin)
             (example_runtime\<lparr>LogSizeMax := 100, CtrStopTimeout := 5\<rparr>) =
           (None, example_runtime\<lparr>LogSizeMax := 100, CtrStopTimeout := 5\<rparr>, [])"
    by (simp add: before_limits_def check_def lib_error_def example_lib_def ValidateDefaultRuntime_def
          Validate_Timezone_def example_runtime_def)
  have l: "sint (LogSizeMax (example_runtime\<lparr>LogSizeMax := 100, CtrStopTimeout := 5\<rparr>)) = 100"
    by simp
  show ?thesis
    unfolding Validate_form[OF b] by (simp add: l)
qed

text \<open>
  C5, as stated, fails: with a stop timeout of 5 and a \<open>LogSizeMax\<close> of 100, \<open>Validate\<close>
  returns at the check of \<open>LogSizeMax\<close>, before the floor, and the stop timeout is still 5.
\<close>

theorem ctr_stop_timeout_counterexample:
  "sint (CtrStopTimeout (example_runtime\<lparr>LogSizeMax := 100, CtrStopTimeout := 5\<rparr>)) < 30 \<and>
   fst (Validate example_lib no_host example_builtin example_schedule
          (example_runtime\<lparr>LogSizeMax := 100, CtrStopTimeout := 5\<rparr>) () False) =
     Some LogSizeMaxTooSmall \<and>
   CtrStopTimeout (fst (snd (Validate example_lib no_host example_builtin example_schedule
          (example_runtime\<lparr>LogSizeMax := 100, CtrStopTimeout := 5\<rparr>) () False))) = 5"
  by (simp add: example_rejected)

text \<open>
  Examples of C5: a stop timeout of 5 becomes 30 and validation passes; 45 stays; and 5
  stays 5 when \<open>LogSizeMax\<close> is 100.
\<close>

theorem ctr_stop_timeout_floor_witness:
  "fst (Validate example_lib no_host example_builtin example_schedule
          (example_runtime\<lparr>CtrStopTimeout := 5\<rparr>) () False) = None \<and>
   CtrStopTimeout (fst (snd (Validate example_lib no_host example_builtin example_schedule
          (example_runtime\<lparr>CtrStopTimeout := 5\<rparr>) () False))) = 30 \<and>
   CtrStopTimeout (fst (snd (Validate example_lib no_host example_builtin example_schedule
          (example_runtime\<lparr>CtrStopTimeout := 45\<rparr>) () False))) = 45 \<and>
   earlier_checks_pass example_lib no_host example_builtin (example_runtime\<lparr>CtrStopTimeout := 5\<rparr>) \<and>
   sint (LogSizeMax (example_runtime\<lparr>CtrStopTimeout := 5\<rparr>)) = - 1 \<and>
   sint (LogSizeMax (example_runtime\<lparr>LogSizeMax := 100, CtrStopTimeout := 5\<rparr>)) = 100 \<and>
   CtrStopTimeout (fst (snd (Validate example_lib no_host example_builtin example_schedule
          (example_runtime\<lparr>LogSizeMax := 100, CtrStopTimeout := 5\<rparr>) () False))) = 5"
proof -
  have s: "sint (5 :: int64) = 5" "sint (45 :: int64) = 45"
    by simp_all
  have upd: "example_runtime\<lparr>CtrStopTimeout := x\<rparr> = set_limits x (LogSizeMax example_runtime) example_runtime" for x
    by (simp add: set_limits_def)
  have l: "sint (LogSizeMax example_runtime) = - 1"
    by (simp add: example_runtime_def)
  have ok: "fst (Validate example_lib no_host example_builtin example_schedule
          (example_runtime\<lparr>CtrStopTimeout := x\<rparr>) () False) = None" for x
    unfolding upd example_validate by (simp add: l)
  have p: "earlier_checks_pass example_lib no_host example_builtin (example_runtime\<lparr>CtrStopTimeout := 5\<rparr>)"
    by (simp add: earlier_checks_pass_def example_lib_def example_runtime_def ValidateDefaultRuntime_def)
  have l5: "sint (LogSizeMax (example_runtime\<lparr>CtrStopTimeout := 5\<rparr>)) = - 1"
    by (simp add: l)
  have 1: "CtrStopTimeout (fst (snd (Validate example_lib no_host example_builtin example_schedule
          (example_runtime\<lparr>CtrStopTimeout := 5\<rparr>) () False))) = 30"
    using ctr_stop_timeout_floor[where L = example_lib and h = no_host and b = example_builtin
            and sched = example_schedule and c = "example_runtime\<lparr>CtrStopTimeout := 5\<rparr>"
            and systemContext = "()" and onExecution = False, THEN conjunct2, THEN conjunct2, THEN conjunct1]
          p l5
    by (simp add: s)
  have 2: "CtrStopTimeout (fst (snd (Validate example_lib no_host example_builtin example_schedule
          (example_runtime\<lparr>CtrStopTimeout := 45\<rparr>) () False))) = 45"
    using ctr_stop_timeout_floor[where L = example_lib and h = no_host and b = example_builtin
            and sched = example_schedule and c = "example_runtime\<lparr>CtrStopTimeout := 45\<rparr>"
            and systemContext = "()" and onExecution = False, THEN conjunct2, THEN conjunct1]
          ok[of 45]
    by (simp add: s)
  have 3: "CtrStopTimeout (fst (snd (Validate example_lib no_host example_builtin example_schedule
          (example_runtime\<lparr>LogSizeMax := 100, CtrStopTimeout := 5\<rparr>) () False))) = 5"
    using ctr_stop_timeout_floor[where L = example_lib and h = no_host and b = example_builtin
            and sched = example_schedule
            and c = "example_runtime\<lparr>LogSizeMax := 100, CtrStopTimeout := 5\<rparr>"
            and systemContext = "()" and onExecution = False,
            THEN conjunct2, THEN conjunct2, THEN conjunct2]
    by simp
  show ?thesis
    using 1 2 3 ok[of 5] p l5 by simp
qed

section \<open>Validation that is not on execution\<close>

lemma TranslateMonitorFields_static_host:
  "TranslateMonitorFields L h' b c False keys = TranslateMonitorFields L h b c False keys"
proof (induction keys arbitrary: c)
  case Nil
  show ?case by simp
next
  case (Cons k keys)
  show ?case
  proof (cases "Runtimes c k")
    case None
    then show ?thesis using Cons.IH[of c] by (simp add: TranslateMonitorFields.simps(2))
  next
    case (Some hk)
    then show ?thesis
      using Cons.IH[of c] Cons.IH[of "c\<lparr>Runtimes := (Runtimes c)(k \<mapsto> migrated b c hk)\<rparr>"]
      by (simp add: TranslateMonitorFields.simps(2) TranslateMonitorFieldsForHandler_unfold Let_def)
  qed
qed

lemma before_limits_quiet:
  "snd (snd (run_steps (before_limits L h b) c)) = []"
  by (cases "ValidateDefaultRuntime b c")
     (simp add: before_limits_def check_def Validate_Timezone_def split: option.splits prod.splits)

lemma ValidateDefaultRuntime_keeps:
  "Timezone (snd (ValidateDefaultRuntime b c)) = Timezone c"
  "InfraCtrCPUSet (snd (ValidateDefaultRuntime b c)) = InfraCtrCPUSet c"
  by (simp_all add: ValidateDefaultRuntime_def Let_def)

lemma before_limits_cpuset:
  assumes "run_steps (before_limits L h b) c = (r, c1, w)"
  shows "InfraCtrCPUSet c1 = InfraCtrCPUSet c"
proof -
  obtain r' c' where v: "ValidateDefaultRuntime b c = (r', c')"
    by (cases "ValidateDefaultRuntime b c")
  with ValidateDefaultRuntime_keeps(2)[of b c] have "InfraCtrCPUSet c' = InfraCtrCPUSet c" by simp
  moreover have "c1 = c \<or> c1 = c'"
    using assms v
    by (auto simp: before_limits_def check_def Validate_Timezone_def split: option.splits if_splits)
  ultimately show ?thesis by auto
qed

lemma before_limits_host:
  assumes "same_zone_answer L h h' c"
  shows "run_steps (before_limits L h' b) c = run_steps (before_limits L h b) c"
proof -
  obtain r' c' where v: "ValidateDefaultRuntime b c = (r', c')"
    by (cases "ValidateDefaultRuntime b c")
  with ValidateDefaultRuntime_keeps(1)[of b c] have tz: "Timezone c' = Timezone c" by simp
  have "Validate_Timezone L h' c' = Validate_Timezone L h c'"
    using assms tz
    by (cases "LoadLocation h (Timezone c)"; cases "LoadLocation h' (Timezone c)")
       (auto simp: Validate_Timezone_def same_zone_answer_def split: if_splits)
  then show ?thesis
    using v by (simp add: before_limits_def check_def split: option.splits)
qed

lemma after_limits_static:
  assumes "InfraCtrCPUSet c = []"
  shows "run_steps (after_limits L h' b sched systemContext False) c =
         run_steps (after_limits L h b sched systemContext False) c"
    and "snd (snd (run_steps (after_limits L h b sched systemContext False) c)) = []"
proof -
  have i: "Validate_InfraCtrCPUSet L h0 c = (None, c, [])" for h0
    using assms by (simp add: Validate_InfraCtrCPUSet_def)
  have t: "TranslateMonitorFields L h' b c False (range_runtimes sched 2) =
           TranslateMonitorFields L h b c False (range_runtimes sched 2)"
    by (rule TranslateMonitorFields_static_host)
  show "run_steps (after_limits L h' b sched systemContext False) c =
         run_steps (after_limits L h b sched systemContext False) c"
    by (simp add: after_limits_def check_def i t split: option.splits prod.splits)
  show "snd (snd (run_steps (after_limits L h b sched systemContext False) c)) = []"
    by (simp add: after_limits_def check_def i split: option.splits prod.splits)
qed

text \<open>
  C7, as stated, fails: validation that is not on execution looks up the configured time
  zone on the host. The same configuration, with the zone \<open>Europe/Berlin\<close>, passes on a
  host that has the time zone database and fails on one that lacks it.
\<close>

theorem static_timezone_counterexample:
  "fst (Validate example_lib zoneinfo_host example_builtin example_schedule berlin_runtime () False) = None \<and>
   fst (Validate example_lib no_host example_builtin example_schedule berlin_runtime () False) =
     Some (InvalidTimezone ''Europe/Berlin'')"
proof -
  have d: "ValidateDefaultRuntime example_builtin berlin_runtime = (None, berlin_runtime)"
    by (simp add: ValidateDefaultRuntime_def berlin_runtime_def example_runtime_def)
  have tz: "Timezone berlin_runtime = ''Europe/Berlin''"
    by (simp add: berlin_runtime_def)
  have l: "sint (LogSizeMax berlin_runtime) = - 1" "CtrStopTimeout berlin_runtime = 30"
    by (simp_all add: berlin_runtime_def example_runtime_def)
  have same: "berlin_runtime\<lparr>CtrStopTimeout := 30\<rparr> = berlin_runtime"
    by (simp add: berlin_runtime_def example_runtime_def)
  have b1: "run_steps (before_limits example_lib zoneinfo_host example_builtin) berlin_runtime =
              (None, berlin_runtime, [])"
    by (simp add: before_limits_def check_def lib_error_def d Validate_Timezone_def tz
          example_lib_def zoneinfo_host_def no_host_def)
  have b2: "run_steps (before_limits example_lib no_host example_builtin) berlin_runtime =
              (Some (InvalidTimezone ''Europe/Berlin''), berlin_runtime, [])"
    by (simp add: before_limits_def check_def lib_error_def d Validate_Timezone_def tz
          example_lib_def no_host_def)
  have m: "migrated example_builtin berlin_runtime (defaultRuntimeHandler example_builtin) =
           defaultRuntimeHandler example_builtin"
    by (simp add: migrated_def berlin_runtime_def example_runtime_def defaultRuntimeHandler_def
          example_builtin_def)
  have r: "Runtimes berlin_runtime = [''runc'' \<mapsto> defaultRuntimeHandler example_builtin]"
    by (simp add: berlin_runtime_def example_runtime_def)
  have u: "berlin_runtime\<lparr>Runtimes := [''runc'' \<mapsto> defaultRuntimeHandler example_builtin]\<rparr> =
           berlin_runtime"
    by (simp add: berlin_runtime_def example_runtime_def)
  have t: "RuntimeType (defaultRuntimeHandler example_builtin) = DefaultRuntimeType"
    by (simp add: defaultRuntimeHandler_def)
  have tr: "TranslateMonitorFields example_lib zoneinfo_host example_builtin berlin_runtime False
              [''runc'', ''kata'', ''ghost''] = (None, berlin_runtime)"
    by (simp add: TranslateMonitorFields.simps(2) r t TranslateMonitorFieldsForHandler_unfold m u)
  have i: "InfraCtrCPUSet berlin_runtime = []"
    by (simp add: berlin_runtime_def example_runtime_def)
  have k: "range_runtimes example_schedule 2 = [''runc'', ''kata'', ''ghost'']"
    by (simp add: example_schedule_def)
  have a: "fst (run_steps (after_limits example_lib zoneinfo_host example_builtin example_schedule () False)
                  berlin_runtime) = None"
    by (simp add: after_limits_def check_def wrap_def lib_error_def example_lib_def
          Validate_InfraCtrCPUSet_def i k tr[unfolded example_lib_def])
  show ?thesis
    unfolding Validate_form[OF b1] Validate_form[OF b2]
    by (simp add: l same a)
qed

lemma after_limits_taskset:
  assumes "InfraCtrCPUSet c \<noteq> []" and "LookPath h tasksetBinary = Inl oe"
  shows "fst (run_steps (after_limits L h b sched systemContext onExecution) c) \<noteq> None"
proof -
  have "\<exists>err. Validate_InfraCtrCPUSet L h c = (Some err, c, [])"
    using assms
    by (cases "cpuset_Parse L (InfraCtrCPUSet c)") (simp_all add: Validate_InfraCtrCPUSet_def)
  then obtain err where t: "Validate_InfraCtrCPUSet L h c = (Some err, c, [])" ..
  show ?thesis
    unfolding after_limits_def
    by (cases "Sysctls L (DefaultSysctls c)"; cases "Capabilities_Validate L (DefaultCapabilities c)")
       (simp_all add: check_def wrap_def lib_error_def t)
qed

text \<open>
  C7, amended. The results of the checks that \<open>Validate\<close> hands to other packages
  (ulimits, devices, sysctls, capabilities, the parsing of the CPU set, workloads) are
  taken as given, the same on both sides. Then, for a configuration with an empty
  \<open>InfraCtrCPUSet\<close>, validation that is not on execution makes no writing call to the
  host (no directory is made, no command is run or configured), and its whole outcome
  depends on the host through the lookup of the configured time zone only: on two hosts
  that answer alike for that zone, or when no zone is looked up, it returns the same
  error or none and leaves the same configuration. It does depend on the host in two
  ways: it fails when a time zone is named (other than \<open>local\<close>) that the host cannot
  load, and it fails when \<open>InfraCtrCPUSet\<close> is set and \<open>taskset\<close> is not on the search
  path.
\<close>

theorem static_validation_host:
  "(InfraCtrCPUSet c = [] \<longrightarrow>
     snd (snd (Validate L h b sched c systemContext False)) = [] \<and>
     (same_zone_answer L h h' c \<longrightarrow>
        Validate L h' b sched c systemContext False = Validate L h b sched c systemContext False)) \<and>
   (Timezone c \<noteq> [] \<and> \<not> EqualFold L (Timezone c) ''local'' \<and> LoadLocation h (Timezone c) \<noteq> None \<longrightarrow>
      fst (Validate L h b sched c systemContext False) \<noteq> None) \<and>
   (InfraCtrCPUSet c \<noteq> [] \<and> LookPath h tasksetBinary = Inl oe \<longrightarrow>
      fst (Validate L h b sched c systemContext False) \<noteq> None)"
proof -
  obtain r0 c1 w0 where b: "run_steps (before_limits L h b) c = (r0, c1, w0)"
    by (cases "run_steps (before_limits L h b) c")
  have w0: "w0 = []" using before_limits_quiet[of L h b c] b by simp
  let ?c1 = "c1\<lparr>CtrStopTimeout := if sint (CtrStopTimeout c) < 30 then 30 else CtrStopTimeout c\<rparr>"
  have i1: "InfraCtrCPUSet ?c1 = InfraCtrCPUSet c"
    using before_limits_cpuset[OF b] by simp
  obtain r c2 w where a: "run_steps (after_limits L h b sched systemContext False) ?c1 = (r, c2, w)"
    by (cases "run_steps (after_limits L h b sched systemContext False) ?c1")
  have pass: "earlier_checks_pass L h b c \<longleftrightarrow> r0 = None"
    using before_limits_pass[of L h b c] b by simp
  show ?thesis
  proof (intro conjI impI)
    assume i: "InfraCtrCPUSet c = []"
    have w: "w = []"
      using after_limits_static(2)[of ?c1 L h b sched systemContext] i i1 a by simp
    show "snd (snd (Validate L h b sched c systemContext False)) = []"
      unfolding Validate_form[OF b] using a w0 w by (cases r0) simp_all
    assume z: "same_zone_answer L h h' c"
    have b': "run_steps (before_limits L h' b) c = (r0, c1, w0)"
      using before_limits_host[OF z, of b] b by simp
    have a': "run_steps (after_limits L h' b sched systemContext False) ?c1 = (r, c2, w)"
      using after_limits_static(1)[of ?c1 L h' b sched systemContext h] i i1 a by simp
    show "Validate L h' b sched c systemContext False = Validate L h b sched c systemContext False"
      unfolding Validate_form[OF b] Validate_form[OF b'] a a' ..
  next
    assume "Timezone c \<noteq> [] \<and> \<not> EqualFold L (Timezone c) ''local'' \<and> LoadLocation h (Timezone c) \<noteq> None"
    then have "\<not> earlier_checks_pass L h b c"
      by (simp add: earlier_checks_pass_def)
    then obtain err where "r0 = Some err"
      using pass by (cases r0) simp_all
    then show "fst (Validate L h b sched c systemContext False) \<noteq> None"
      unfolding Validate_form[OF b] by simp
  next
    assume t: "InfraCtrCPUSet c \<noteq> [] \<and> LookPath h tasksetBinary = Inl oe"
    then have "InfraCtrCPUSet ?c1 \<noteq> []"
      using i1 by simp
    then have "fst (run_steps (after_limits L h b sched systemContext False) ?c1) \<noteq> None"
      using t by (intro after_limits_taskset) simp_all
    then have r: "r \<noteq> None"
      using a by simp
    show "fst (Validate L h b sched c systemContext False) \<noteq> None"
      unfolding Validate_form[OF b] using a r by (cases r0) simp_all
  qed
qed

text \<open>
  Examples of C7. The configuration that names \<open>Europe/Berlin\<close> validates alike, with no
  writing call, on two hosts that both have the time zone database and differ in having
  \<open>taskset\<close>; it fails on the host without the database; and the configuration that pins
  the infra containers fails on the host without \<open>taskset\<close>.
\<close>

theorem static_validation_host_witness:
  "InfraCtrCPUSet berlin_runtime = [] \<and> Timezone berlin_runtime = ''Europe/Berlin'' \<and>
   LoadLocation zoneinfo_host ''Europe/Berlin'' = None \<and>
   LoadLocation zoneinfo_taskset_host ''Europe/Berlin'' = None \<and>
   LookPath zoneinfo_host ''taskset'' = Inl ErrNotExist \<and>
   LookPath zoneinfo_taskset_host ''taskset'' = Inr ''/usr/bin/taskset'' \<and>
   same_zone_answer example_lib zoneinfo_host zoneinfo_taskset_host berlin_runtime \<and>
   snd (snd (Validate example_lib zoneinfo_host example_builtin example_schedule berlin_runtime () False)) = [] \<and>
   Validate example_lib zoneinfo_taskset_host example_builtin example_schedule berlin_runtime () False =
   Validate example_lib zoneinfo_host example_builtin example_schedule berlin_runtime () False \<and>
   LoadLocation no_host ''Europe/Berlin'' = Some ErrNotExist \<and>
   fst (Validate example_lib no_host example_builtin example_schedule berlin_runtime () False) \<noteq> None \<and>
   InfraCtrCPUSet pinned_runtime = ''0-1'' \<and> LookPath no_host tasksetBinary = Inl ErrNotExist \<and>
   fst (Validate example_lib no_host example_builtin example_schedule pinned_runtime () False) \<noteq> None"
proof -
  have i: "InfraCtrCPUSet berlin_runtime = []" "Timezone berlin_runtime = ''Europe/Berlin''"
    by (simp_all add: berlin_runtime_def example_runtime_def)
  have f: "\<not> EqualFold example_lib ''Europe/Berlin'' ''local''"
    by (simp add: example_lib_def)
  have hs: "LoadLocation zoneinfo_host ''Europe/Berlin'' = None"
    "LoadLocation zoneinfo_taskset_host ''Europe/Berlin'' = None"
    "LookPath zoneinfo_host ''taskset'' = Inl ErrNotExist"
    "LookPath zoneinfo_taskset_host ''taskset'' = Inr ''/usr/bin/taskset''"
    "LoadLocation no_host ''Europe/Berlin'' = Some ErrNotExist"
    "LookPath no_host tasksetBinary = Inl ErrNotExist"
    by (simp_all add: zoneinfo_host_def zoneinfo_taskset_host_def taskset_host_def no_host_def)
  have z: "same_zone_answer example_lib zoneinfo_host zoneinfo_taskset_host berlin_runtime"
    by (simp add: same_zone_answer_def i hs)
  have p: "InfraCtrCPUSet pinned_runtime = ''0-1''"
    by (simp add: pinned_runtime_def)
  note t = static_validation_host[where L = example_lib and b = example_builtin
             and sched = example_schedule and systemContext = "()"]
  have 1: "snd (snd (Validate example_lib zoneinfo_host example_builtin example_schedule berlin_runtime () False)) = [] \<and>
     Validate example_lib zoneinfo_taskset_host example_builtin example_schedule berlin_runtime () False =
     Validate example_lib zoneinfo_host example_builtin example_schedule berlin_runtime () False"
    using t[where c = berlin_runtime and h = zoneinfo_host and h' = zoneinfo_taskset_host, THEN conjunct1]
      i(1) z
    by simp
  have 2: "fst (Validate example_lib no_host example_builtin example_schedule berlin_runtime () False) \<noteq> None"
    using t[where c = berlin_runtime and h = no_host, THEN conjunct2, THEN conjunct1] i(2) f hs(5)
    by simp
  have 3: "fst (Validate example_lib no_host example_builtin example_schedule pinned_runtime () False) \<noteq> None"
    using t[where c = pinned_runtime and h = no_host and oe = ErrNotExist, THEN conjunct2, THEN conjunct2]
      p hs(6)
    by simp
  show ?thesis
    using 1 2 3 i z p hs by simp
qed

text \<open>
  With \<open>InfraCtrCPUSet\<close> set, \<open>Validate\<close> looks \<open>taskset\<close> up on the search path before it
  reaches the statements that are guarded by \<open>onExecution\<close>: off execution too, it fails
  on a host without \<open>taskset\<close> and, on a host with it, configures the command runner.
\<close>

lemma static_taskset_lookup:
  "Validate_InfraCtrCPUSet example_lib no_host pinned_runtime =
     (Some (Errorf ''taskset not found in $PATH'' (OSError ErrNotExist)), pinned_runtime, [])"
  "Validate_InfraCtrCPUSet example_lib taskset_host pinned_runtime =
     (None, pinned_runtime, [CallPrependCommandsWith ''/usr/bin/taskset'' [''--cpu-list'', ''0-1'']])"
  by (simp_all add: Validate_InfraCtrCPUSet_def pinned_runtime_def example_runtime_def example_lib_def
        no_host_def taskset_host_def tasksetBinary_def)

lemma static_taskset_failure:
  "fst (Validate example_lib no_host example_builtin example_schedule pinned_runtime () False) =
     Some (Errorf ''taskset not found in $PATH'' (OSError ErrNotExist))"
proof -
  have b: "run_steps (before_limits example_lib no_host example_builtin) pinned_runtime =
             (None, pinned_runtime, [])"
    by (simp add: before_limits_def check_def lib_error_def example_lib_def ValidateDefaultRuntime_def
          Validate_Timezone_def pinned_runtime_def example_runtime_def)
  have l: "sint (LogSizeMax pinned_runtime) = - 1" "CtrStopTimeout pinned_runtime = 30"
    by (simp_all add: pinned_runtime_def example_runtime_def)
  have same: "pinned_runtime\<lparr>CtrStopTimeout := 30\<rparr> = pinned_runtime"
    by (simp add: pinned_runtime_def example_runtime_def)
  have a: "fst (run_steps (after_limits example_lib no_host example_builtin example_schedule () False)
                  pinned_runtime) = Some (Errorf ''taskset not found in $PATH'' (OSError ErrNotExist))"
    by (simp add: after_limits_def check_def wrap_def lib_error_def example_lib_def
          static_taskset_lookup(1)[unfolded example_lib_def])
  show ?thesis
    unfolding Validate_form[OF b] by (simp add: l same a)
qed

end
